theory Spec2Isabelle
  imports Main "HOL-Library.Word"
begin

unbundle bit_operations_syntax

chapter \<open>Subzero: PNaCl bitcode parser and ARM32 instruction model\<close>

text \<open>
  A shallow embedding of the parts of \<^verbatim>\<open>src/IceInstARM32.cpp\<close> and
  \<^verbatim>\<open>src/PNaClTranslator.cpp\<close> that the claims C1 to C10 are about.  The first part
  of the theory holds the definitions, in the order of the source; the second part holds
  the theorems, one section per claim.
\<close>

type_synonym u32 = "32 word"
type_synonym u64 = "64 word"

section \<open>ARM32 instruction model (IceInstARM32.cpp)\<close>

subsection \<open>OperandARM32FlexImm::canHoldImm\<close>

text \<open>
  Modelled from the spec: \<^verbatim>\<open>Utils::rotateLeft32\<close> is declared in IceUtils.h, which is
  not among the sources; the spec calls the operation "rotating it left", so it is the
  32-bit left rotation.
\<close>

definition rotateLeft32 :: "u32 \<Rightarrow> nat \<Rightarrow> u32" where
  "rotateLeft32 v shift = word_rotl shift v"

text \<open>
  The loop \<^verbatim>\<open>for (int Rot = 1; Rot < 16; Rot++)\<close> of canHoldImm.  The two out-parameters
  \<^verbatim>\<open>*RotateAmt\<close> and \<^verbatim>\<open>*Immed_8\<close> are written exactly when the function returns true, so
  the result is \<open>Some (RotateAmt, Immed_8)\<close> for true and \<open>None\<close> for false.
\<close>

function canHoldImm_loop :: "u32 \<Rightarrow> nat \<Rightarrow> (u32 \<times> u32) option" where
  "canHoldImm_loop Immediate Rot =
     (if Rot < 16 then
        (let Imm8 = rotateLeft32 Immediate (2 * Rot) in
         if Imm8 \<le> 0xFF then Some (of_nat Rot, Imm8)
         else canHoldImm_loop Immediate (Rot + 1))
      else None)"
  by pat_completeness auto
termination
  by (relation "measure (\<lambda>(v, Rot). 16 - Rot)") auto

declare canHoldImm_loop.simps [simp del]

definition canHoldImm :: "u32 \<Rightarrow> (u32 \<times> u32) option" where
  "canHoldImm Immediate =
     (if Immediate \<le> 0xFF then Some (0, Immediate)
      else canHoldImm_loop Immediate 1)"

subsection \<open>InstARM32Br::optimizeBranch\<close>

text \<open>
  Modelled from the spec: the enumeration \<^verbatim>\<open>CondARM32::Cond\<close> comes from
  IceConditionCodesARM32.h and the table ICEINSTARM32COND\_TABLE, neither of which is among
  the sources.  The type below lists the ARM condition codes; \<open>AL\<close> is "always", as the
  glossary of the spec says.  The condition-opposite table itself is a parameter of
  \<open>optimizeBranch\<close>.
\<close>

datatype Cond = EQ | NE | CS | CC | MI | PL | VS | VC | HI | LS | GE | LT | GT | LE | AL | kNone

text \<open>A CFG node is identified by its index; a null pointer is \<open>None\<close>.\<close>

type_synonym CfgNode = nat

record InstARM32Br =
  TargetTrue :: "CfgNode option"
  TargetFalse :: "CfgNode option"
  Label :: "nat option"
  Predicate :: Cond
  Deleted :: bool

text \<open>
  Modelled from the spec: \<^verbatim>\<open>isUnconditionalBranch\<close> is defined in IceInstARM32.h (not
  among the sources); an unconditional branch is one whose predicate is \<open>AL\<close>.
\<close>

definition isUnconditionalBranch :: "InstARM32Br \<Rightarrow> bool" where
  "isUnconditionalBranch br = (Predicate br = AL)"

text \<open>
  \<open>optimizeBranch\<close> returns the boolean result together with the updated instruction.
  A failing \<^verbatim>\<open>assert\<close> is the result \<open>Inl AssertionFailed\<close>.
\<close>

datatype assertion = AssertionFailed

definition optimizeBranch ::
  "(Cond \<Rightarrow> Cond) \<Rightarrow> CfgNode option \<Rightarrow> InstARM32Br \<Rightarrow> assertion + (bool \<times> InstARM32Br)" where
  "optimizeBranch getOppositeCondition NextNode br =
     (if NextNode = None then Inr (False, br)
      else if Label br \<noteq> None then Inr (False, br)
      else if TargetFalse br = None then Inr (False, br)
      else if isUnconditionalBranch br \<and> TargetFalse br = NextNode then
        (if TargetTrue br = None then Inr (True, br\<lparr>Deleted := True\<rparr>)
         else Inl AssertionFailed)
      else if TargetFalse br = NextNode then Inr (True, br\<lparr>TargetFalse := None\<rparr>)
      else if TargetTrue br = NextNode then
        (if Predicate br \<noteq> AL then
           Inr (True, br\<lparr>Predicate := getOppositeCondition (Predicate br),
                          TargetTrue := TargetFalse br,
                          TargetFalse := None\<rparr>)
         else Inl AssertionFailed)
      else Inr (False, br))"

text \<open>
  Modelled from the spec: the fixed condition-opposite table (ICEINSTARM32COND\_TABLE of
  IceInstARM32.def, not among the sources), read by \<^verbatim>\<open>getOppositeCondition\<close>.  The
  spec requires \<open>opposite (opposite c) = c\<close> for every condition but the unconditional
  one; the pairs are those of the ARM architecture.  The theorems about
  \<open>optimizeBranch\<close> hold for every table; this one instantiates them.
\<close>

fun getOppositeCondition :: "Cond \<Rightarrow> Cond" where
  "getOppositeCondition EQ = NE"
| "getOppositeCondition NE = EQ"
| "getOppositeCondition CS = CC"
| "getOppositeCondition CC = CS"
| "getOppositeCondition MI = PL"
| "getOppositeCondition PL = MI"
| "getOppositeCondition VS = VC"
| "getOppositeCondition VC = VS"
| "getOppositeCondition HI = LS"
| "getOppositeCondition LS = HI"
| "getOppositeCondition GE = LT"
| "getOppositeCondition LT = GE"
| "getOppositeCondition GT = LE"
| "getOppositeCondition LE = GT"
| "getOppositeCondition AL = kNone"
| "getOppositeCondition kNone = kNone"

section \<open>Ice types\<close>

datatype IceType =
    IceType_void | IceType_i1 | IceType_i8 | IceType_i16 | IceType_i32 | IceType_i64
  | IceType_f32 | IceType_f64
  | IceType_v4i1 | IceType_v8i1 | IceType_v16i1 | IceType_v16i8 | IceType_v8i16
  | IceType_v4i32 | IceType_v4f32

text \<open>
  Modelled from the spec: the helper functions on types below are declared in IceTypes.h
  and generated from IceTypes.def, which are not among the sources.  They follow the type
  set of the spec's data model: the vector types are the seven \<open>vNxT\<close> types, with \<open>N\<close>
  elements of type \<open>T\<close>; the integer types are \<open>i1\<close> to \<open>i64\<close> and the vectors of
  them; the floating types are \<open>f32\<close>, \<open>f64\<close> and \<open>v4f32\<close>.
\<close>

fun isVectorType :: "IceType \<Rightarrow> bool" where
  "isVectorType IceType_v4i1 = True"
| "isVectorType IceType_v8i1 = True"
| "isVectorType IceType_v16i1 = True"
| "isVectorType IceType_v16i8 = True"
| "isVectorType IceType_v8i16 = True"
| "isVectorType IceType_v4i32 = True"
| "isVectorType IceType_v4f32 = True"
| "isVectorType _ = False"

fun typeNumElements :: "IceType \<Rightarrow> nat" where
  "typeNumElements IceType_v4i1 = 4"
| "typeNumElements IceType_v8i1 = 8"
| "typeNumElements IceType_v16i1 = 16"
| "typeNumElements IceType_v16i8 = 16"
| "typeNumElements IceType_v8i16 = 8"
| "typeNumElements IceType_v4i32 = 4"
| "typeNumElements IceType_v4f32 = 4"
| "typeNumElements _ = 1"

fun typeElementType :: "IceType \<Rightarrow> IceType" where
  "typeElementType IceType_v4i1 = IceType_i1"
| "typeElementType IceType_v8i1 = IceType_i1"
| "typeElementType IceType_v16i1 = IceType_i1"
| "typeElementType IceType_v16i8 = IceType_i8"
| "typeElementType IceType_v8i16 = IceType_i16"
| "typeElementType IceType_v4i32 = IceType_i32"
| "typeElementType IceType_v4f32 = IceType_f32"
| "typeElementType t = t"

fun isScalarIntegerType :: "IceType \<Rightarrow> bool" where
  "isScalarIntegerType IceType_i1 = True"
| "isScalarIntegerType IceType_i8 = True"
| "isScalarIntegerType IceType_i16 = True"
| "isScalarIntegerType IceType_i32 = True"
| "isScalarIntegerType IceType_i64 = True"
| "isScalarIntegerType _ = False"

definition isIntegerType :: "IceType \<Rightarrow> bool" where
  "isIntegerType t = isScalarIntegerType (typeElementType t)"

definition isIntegerArithmeticType :: "IceType \<Rightarrow> bool" where
  "isIntegerArithmeticType t = (isIntegerType t \<and> typeElementType t \<noteq> IceType_i1)"

definition isFloatingType :: "IceType \<Rightarrow> bool" where
  "isFloatingType t = (typeElementType t = IceType_f32 \<or> typeElementType t = IceType_f64)"

fun getScalarIntBitWidth :: "IceType \<Rightarrow> nat" where
  "getScalarIntBitWidth IceType_i1 = 1"
| "getScalarIntBitWidth IceType_i8 = 8"
| "getScalarIntBitWidth IceType_i16 = 16"
| "getScalarIntBitWidth IceType_i32 = 32"
| "getScalarIntBitWidth IceType_i64 = 64"
| "getScalarIntBitWidth _ = 0"

fun typeWidthInBytes :: "IceType \<Rightarrow> nat" where
  "typeWidthInBytes IceType_void = 0"
| "typeWidthInBytes IceType_i1 = 1"
| "typeWidthInBytes IceType_i8 = 1"
| "typeWidthInBytes IceType_i16 = 2"
| "typeWidthInBytes IceType_i32 = 4"
| "typeWidthInBytes IceType_i64 = 8"
| "typeWidthInBytes IceType_f32 = 4"
| "typeWidthInBytes IceType_f64 = 8"
| "typeWidthInBytes _ = 16"

text \<open>
  Modelled from the spec: "load/store type must be in the load-store-legal set (scalar
  integers excluding \<open>i1\<close>, floats, legal vector widths)"; "result type is \<open>i1\<close> for
  scalars or a boolean vector of the same element count"; the pointer type of the target
  is \<open>i32\<close>.
\<close>

definition isLoadStoreType :: "IceType \<Rightarrow> bool" where
  "isLoadStoreType t =
     (t \<noteq> IceType_void \<and> typeElementType t \<noteq> IceType_i1)"

fun getCompareResultType :: "IceType \<Rightarrow> IceType" where
  "getCompareResultType IceType_void = IceType_void"
| "getCompareResultType IceType_v4i1 = IceType_v4i1"
| "getCompareResultType IceType_v8i1 = IceType_v8i1"
| "getCompareResultType IceType_v16i1 = IceType_v16i1"
| "getCompareResultType IceType_v16i8 = IceType_v16i1"
| "getCompareResultType IceType_v8i16 = IceType_v8i1"
| "getCompareResultType IceType_v4i32 = IceType_v4i1"
| "getCompareResultType IceType_v4f32 = IceType_v4i1"
| "getCompareResultType _ = IceType_i1"

definition getPointerType :: IceType where
  "getPointerType = IceType_i32"

text \<open>
  Modelled from the spec: the printable name of a type (the stream operator of
  \<^verbatim>\<open>Ice::Type\<close>, generated from IceTypes.def, not among the sources).  The names are
  those under which the spec lists the types.
\<close>

fun typeString :: "IceType \<Rightarrow> string" where
  "typeString IceType_void = ''void''"
| "typeString IceType_i1 = ''i1''"
| "typeString IceType_i8 = ''i8''"
| "typeString IceType_i16 = ''i16''"
| "typeString IceType_i32 = ''i32''"
| "typeString IceType_i64 = ''i64''"
| "typeString IceType_f32 = ''f32''"
| "typeString IceType_f64 = ''f64''"
| "typeString IceType_v4i1 = ''v4i1''"
| "typeString IceType_v8i1 = ''v8i1''"
| "typeString IceType_v16i1 = ''v16i1''"
| "typeString IceType_v16i8 = ''v16i8''"
| "typeString IceType_v8i16 = ''v8i16''"
| "typeString IceType_v4i32 = ''v4i32''"
| "typeString IceType_v4f32 = ''v4f32''"

section \<open>The IR the parser builds\<close>

text \<open>
  Modelled from the spec: the classes of the intermediate representation
  (\<^verbatim>\<open>Ice::Operand\<close>, \<^verbatim>\<open>Ice::Inst\<close>, \<^verbatim>\<open>Ice::Cfg\<close>, \<^verbatim>\<open>Ice::FuncSigType\<close>, the global
  declarations) are declared in headers that are not among the sources.  They are modelled
  as the tagged sums and records of section 3 of the spec, with the fields the parser
  passes to their \<^verbatim>\<open>create\<close> functions.  A variable is identified by the number the CFG
  gives it when it is made, so that equality of operands is pointer equality; constants
  are pooled by the global context, so the same holds for them.
\<close>

datatype Operand =
    Variable nat IceType
  | ConstantRelocatable string bool
  | ConstantInteger32 IceType u32
  | ConstantInteger64 u64
  | ConstantFloat u32
  | ConstantDouble u64
  | ConstantUndef IceType

fun getType :: "Operand \<Rightarrow> IceType" where
  "getType (Variable n t) = t"
| "getType (ConstantRelocatable nm sm) = getPointerType"
| "getType (ConstantInteger32 t v) = t"
| "getType (ConstantInteger64 v) = IceType_i64"
| "getType (ConstantFloat v) = IceType_f32"
| "getType (ConstantDouble v) = IceType_f64"
| "getType (ConstantUndef t) = t"

record FuncSigType =
  ReturnType :: IceType
  ArgList :: "IceType list"

datatype TypeKind = Undefined | Simple | FuncSig

record ExtendedType =
  Kind :: TypeKind
  Signature :: FuncSigType

text \<open>The default constructor \<^verbatim>\<open>ExtendedType()\<close>: undefined, with an empty signature.\<close>

definition ExtendedType_new :: ExtendedType where
  "ExtendedType_new = \<lparr>Kind = Undefined, Signature = \<lparr>ReturnType = IceType_void, ArgList = []\<rparr>\<rparr>"

datatype ArithOpKind =
    Add | Fadd | Sub | Fsub | Mul | Fmul | Udiv | Sdiv | Fdiv | Urem | Srem | Frem
  | Shl | Lshr | Ashr | And | Or | Xor

datatype CastKind =
    Trunc | Zext | Sext | Fptoui | Fptosi | Uitofp | Sitofp | Fptrunc | Fpext | Bitcast

datatype ICond =
    Icmp_Eq | Icmp_Ne | Icmp_Ugt | Icmp_Uge | Icmp_Ult | Icmp_Ule
  | Icmp_Sgt | Icmp_Sge | Icmp_Slt | Icmp_Sle

datatype FCond =
    Fcmp_False | Fcmp_Oeq | Fcmp_Ogt | Fcmp_Oge | Fcmp_Olt | Fcmp_Ole | Fcmp_One | Fcmp_Ord
  | Fcmp_Ueq | Fcmp_Ugt | Fcmp_Uge | Fcmp_Ult | Fcmp_Ule | Fcmp_Une | Fcmp_Uno | Fcmp_True

text \<open>
  Modelled from the spec: an entry of the intrinsic registry (IceIntrinsics.h, not among
  the sources): the signature of the intrinsic, return type first.
\<close>

record FullIntrinsicInfo =
  IntrinsicReturnType :: IceType
  IntrinsicArgTypes :: "IceType list"

text \<open>
  The instructions, with the arguments of their \<^verbatim>\<open>create\<close> functions in the order of
  the source.  A basic block is referred to by its index in the node list of the CFG.
\<close>

datatype Inst =
    InstArithmetic ArithOpKind Operand Operand Operand
  | InstCast CastKind Operand Operand
  | InstSelect Operand Operand Operand Operand
  | InstExtractElement Operand Operand Operand
  | InstInsertElement Operand Operand Operand Operand
  | InstIcmp ICond Operand Operand Operand
  | InstFcmp FCond Operand Operand Operand
  | InstRet "Operand option"
  | InstBr CfgNode
  | InstBrCond Operand CfgNode CfgNode
  | InstSwitch Operand CfgNode "(int \<times> CfgNode) list"
  | InstUnreachable
  | InstPhi Operand "(Operand \<times> CfgNode) list"
  | InstAlloca Operand u32 Operand
  | InstLoad Operand Operand u32
  | InstStore Operand Operand u32
  | InstCall "Operand option" Operand "Operand list" bool
  | InstIntrinsicCall "Operand option" Operand "Operand list" FullIntrinsicInfo
  | InstAssign Operand Operand

text \<open>The terminators, as the glossary of the spec lists them.\<close>

fun isTerminator :: "Inst \<Rightarrow> bool" where
  "isTerminator (InstRet r) = True"
| "isTerminator (InstBr b) = True"
| "isTerminator (InstBrCond c t e) = True"
| "isTerminator (InstSwitch c d cs) = True"
| "isTerminator InstUnreachable = True"
| "isTerminator _ = False"

record Cfg =
  FunctionName :: string
  CfgReturnType :: IceType
  IsInternal :: bool
  Nodes :: "Inst list list"
  EntryNode :: "CfgNode option"
  NumVariables :: nat
  Args :: "Operand list"
  InEdges :: "CfgNode list list"

text \<open>\<^verbatim>\<open>Cfg::makeNode\<close> appends an empty node and returns it.\<close>

definition makeNode :: "Cfg \<Rightarrow> CfgNode \<times> Cfg" where
  "makeNode F = (length (Nodes F), F\<lparr>Nodes := Nodes F @ [[]]\<rparr>)"

text \<open>\<^verbatim>\<open>Cfg::makeVariable\<close> makes a variable with the next free number.\<close>

definition makeVariable :: "IceType \<Rightarrow> Cfg \<Rightarrow> Operand \<times> Cfg" where
  "makeVariable t F = (Variable (NumVariables F) t, F\<lparr>NumVariables := NumVariables F + 1\<rparr>)"

text \<open>\<^verbatim>\<open>CfgNode::appendInst\<close>, on the node with index \<open>n\<close>.\<close>

definition appendInst :: "CfgNode \<Rightarrow> Inst \<Rightarrow> Cfg \<Rightarrow> Cfg" where
  "appendInst n i F = F\<lparr>Nodes := (Nodes F)[n := Nodes F ! n @ [i]]\<rparr>"

text \<open>
  Modelled from the spec: \<^verbatim>\<open>Cfg::computePredecessors\<close> (IceCfg.cpp, not among the
  sources): "predecessors are computed deterministically from successor edges", the
  successor edges of a node being the targets of its last instruction.
\<close>

fun getTerminatorEdges :: "Inst \<Rightarrow> CfgNode list" where
  "getTerminatorEdges (InstBr b) = [b]"
| "getTerminatorEdges (InstBrCond c t e) = [t, e]"
| "getTerminatorEdges (InstSwitch c d cs) = d # map snd cs"
| "getTerminatorEdges _ = []"

definition OutEdges :: "Inst list \<Rightarrow> CfgNode list" where
  "OutEdges insts = (if insts = [] then [] else getTerminatorEdges (last insts))"

definition computePredecessors :: "Cfg \<Rightarrow> Cfg" where
  "computePredecessors F =
     F\<lparr>InEdges := map (\<lambda>n. filter (\<lambda>m. n \<in> set (OutEdges (Nodes F ! m))) [0 ..< length (Nodes F)])
                       [0 ..< length (Nodes F)]\<rparr>"

text \<open>The global declarations of section 3 of the spec.\<close>

datatype GlobalDeclaration = FunctionRef nat | VariableRef nat

datatype Initializer =
    ZeroInitializer nat
  | DataInitializer "u64 list"
  | RelocInitializer GlobalDeclaration u32

record FunctionDeclaration =
  FcnName :: string
  FcnSignature :: FuncSigType
  FcnInternalLinkage :: bool
  FcnSuppressMangling :: bool

record VariableDeclaration =
  VarName :: string
  VarSuppressMangling :: bool
  Alignment :: u32
  IsConstant :: bool
  Initializers :: "Initializer list"

text \<open>\<^verbatim>\<open>VariableDeclaration::create\<close>: no name, alignment 0, not constant, no initializer.\<close>

definition VariableDeclaration_create :: VariableDeclaration where
  "VariableDeclaration_create =
     \<lparr>VarName = [], VarSuppressMangling = False, Alignment = 0, IsConstant = False,
      Initializers = []\<rparr>"

section \<open>Diagnostics\<close>

text \<open>
  An error message is built by stream insertions into a string buffer; the model keeps
  the inserted pieces in order.  \<open>renderMessage\<close> gives the text of a message made of
  strings, numbers and types only; the printers of operands, signatures and records are
  not among the sources.
\<close>

datatype piece =
    Str string
  | UNum nat
  | SNum int
  | TyName IceType
  | Knd TypeKind
  | ExtTy ExtendedType
  | Opnd Operand
  | Addr Operand
  | Rec nat "u64 list"

type_synonym message = "piece list"

function decimal :: "nat \<Rightarrow> string" where
  "decimal n =
     (if n < 10 then [char_of (48 + n)]
      else decimal (n div 10) @ [char_of (48 + n mod 10)])"
  by pat_completeness auto
termination
  by (relation "measure id") auto

declare decimal.simps [simp del]

fun renderPiece :: "piece \<Rightarrow> string option" where
  "renderPiece (Str s) = Some s"
| "renderPiece (UNum n) = Some (decimal n)"
| "renderPiece (SNum i) = Some (if i < 0 then CHR ''-'' # decimal (nat (- i)) else decimal (nat i))"
| "renderPiece (TyName t) = Some (typeString t)"
| "renderPiece _ = None"

fun renderMessage :: "message \<Rightarrow> string option" where
  "renderMessage [] = Some []"
| "renderMessage (p # ps) =
     (case renderPiece p of None \<Rightarrow> None
      | Some a \<Rightarrow> (case renderMessage ps of None \<Rightarrow> None | Some b \<Rightarrow> Some (a @ b)))"

text \<open>
  What ends a run of the parser other than a return: a failing \<^verbatim>\<open>assert\<close>, a call of
  \<^verbatim>\<open>report_fatal_error\<close> (it carries the diagnostics emitted up to the abort), and an
  behaviour that C++ leaves undefined (an access to a vector element that does not
  exist, a shift of an \<^verbatim>\<open>int\<close> whose result is not representable).
\<close>

datatype fault =
    AssertFailure
  | FatalError "message list"
  | UndefinedBehaviour

section \<open>The parser state (PNaClTranslator.cpp)\<close>

text \<open>
  The collaborators of the parser that are neither in the sources nor fixed by the spec
  are fields of the translator the parser holds: the intrinsic registry (by the name after
  the prefix \<^verbatim>\<open>llvm.\<close>), the decoder of calling conventions of the bitcode library, and
  the alignment column of the type table.
\<close>

record Translator =
  IntrinsicsFind :: "string \<Rightarrow> FullIntrinsicInfo option"
  DecodeCallingConv :: "u64 \<Rightarrow> nat option"
  typeAlignInBytes :: "IceType \<Rightarrow> nat"

text \<open>
  The fields of \<^verbatim>\<open>TopLevelParser\<close>.  \<open>AllowErrorRecovery\<close> is the command-line flag of
  the same name; \<open>DisableIRGeneration\<close> is the value of \<^verbatim>\<open>isIRGenerationDisabled()\<close>;
  \<open>ErrStream\<close> holds the messages passed to \<^verbatim>\<open>Error\<close>, in order; \<open>TranslatedFcns\<close> holds
  the functions handed to \<^verbatim>\<open>Translator::translateFcn\<close>.
\<close>

record TopLevelParser =
  AllowErrorRecovery :: bool
  DisableIRGeneration :: bool
  TheTranslator :: Translator
  ErrorStatus :: bool
  NumErrors :: nat
  ErrStream :: "message list"
  TypeIDValues :: "ExtendedType list"
  FunctionDeclarationList :: "FunctionDeclaration list"
  VariableDeclarations :: "VariableDeclaration list"
  ValueIDConstants :: "Operand option list"
  NumFunctionIds :: nat
  NumFunctionBlocks :: nat
  DefiningFunctionDeclarationsList :: "nat list"
  TranslatedFcns :: "Cfg list"

record NaClBitcodeRecord =
  Code :: nat
  Values :: "u64 list"

text \<open>
  \<^verbatim>\<open>BlockParserBaseClass\<close>: the context parser and the record being processed.  The
  parsers of the blocks extend this record, as the classes of the source derive from the
  base class.  \<open>BlockName\<close> is what the virtual \<^verbatim>\<open>getBlockName()\<close> returns.
\<close>

record BlockParserBaseClass =
  Context :: TopLevelParser
  Record :: NaClBitcodeRecord
  BlockName :: string

text \<open>
  The conversion of a record value (\<^verbatim>\<open>uint64_t\<close>) to \<^verbatim>\<open>unsigned\<close>, \<^verbatim>\<open>uint32_t\<close> or
  \<^verbatim>\<open>Ice::SizeT\<close>: the low 32 bits.
\<close>

definition to_u32 :: "u64 \<Rightarrow> u32" where
  "to_u32 v = ucast v"

text \<open>\<^verbatim>\<open>std::vector::resize\<close>, new elements being value-initialised to \<open>d\<close>.\<close>

definition resize :: "nat \<Rightarrow> 'a \<Rightarrow> 'a list \<Rightarrow> 'a list" where
  "resize n d xs = take n xs @ replicate (n - length xs) d"

subsection \<open>Error reporting\<close>

text \<open>
  \<^verbatim>\<open>TopLevelParser::Error\<close>: sets the error status, counts the error, prints the message,
  and aborts unless error recovery is allowed.
\<close>

definition TopLevelParser_Error :: "message \<Rightarrow> TopLevelParser \<Rightarrow> fault + TopLevelParser" where
  "TopLevelParser_Error Message C =
     (let C' = C\<lparr>ErrorStatus := True, NumErrors := NumErrors C + 1,
                   ErrStream := ErrStream C @ [Message]\<rparr>
      in if \<not> AllowErrorRecovery C then Inl (FatalError (ErrStream C')) else Inr C')"

text \<open>
  \<^verbatim>\<open>BlockParserBaseClass::Error\<close> prefixes the message with the bit position of the record
  and passes it to the context; \<^verbatim>\<open>TopLevelParser::BlockError\<close> passes the message to the
  current block parser.  Bit positions are not part of the model, so both add the message
  itself to the error stream of the context.
\<close>

definition BlockError :: "message \<Rightarrow> TopLevelParser \<Rightarrow> fault + TopLevelParser" where
  "BlockError Message C = TopLevelParser_Error Message C"

definition Error ::
  "message \<Rightarrow> 'a BlockParserBaseClass_scheme \<Rightarrow> fault + 'a BlockParserBaseClass_scheme" where
  "Error Message P =
     (case TopLevelParser_Error Message (Context P) of
        Inl f \<Rightarrow> Inl f
      | Inr C \<Rightarrow> Inr (P\<lparr>Context := C\<rparr>))"

definition isIRGenerationDisabled :: "'a BlockParserBaseClass_scheme \<Rightarrow> bool" where
  "isIRGenerationDisabled P = DisableIRGeneration (Context P)"

fun toupper :: "char \<Rightarrow> char" where
  "toupper c =
     (if of_char (CHR ''a'') \<le> (of_char c :: nat) \<and> (of_char c :: nat) \<le> of_char (CHR ''z'')
      then char_of ((of_char c :: nat) - 32) else c)"

definition ReportRecordSizeError ::
  "nat \<Rightarrow> string \<Rightarrow> string option \<Rightarrow> 'a BlockParserBaseClass_scheme
   \<Rightarrow> fault + 'a BlockParserBaseClass_scheme" where
  "ReportRecordSizeError ExpectedSize RecordName ContextMessage P =
     Error ([Str (map toupper (take 1 (BlockName P))), Str (drop 1 (BlockName P)), Str '' '',
             Str RecordName, Str '' record expects'']
            @ (case ContextMessage of None \<Rightarrow> [] | Some m \<Rightarrow> [Str '' '', Str m])
            @ [Str '' '', UNum ExpectedSize, Str '' argument'']
            @ (if ExpectedSize > 1 then [Str ''s''] else [])
            @ [Str ''. Found: '', UNum (length (Values (Record P)))]) P"

definition isValidRecordSize ::
  "nat \<Rightarrow> string \<Rightarrow> 'a BlockParserBaseClass_scheme
   \<Rightarrow> fault + (bool \<times> 'a BlockParserBaseClass_scheme)" where
  "isValidRecordSize Size RecordName P =
     (if length (Values (Record P)) = Size then Inr (True, P)
      else case ReportRecordSizeError Size RecordName None P of
             Inl f \<Rightarrow> Inl f
           | Inr P' \<Rightarrow> Inr (False, P'))"

definition isValidRecordSizeAtLeast ::
  "nat \<Rightarrow> string \<Rightarrow> 'a BlockParserBaseClass_scheme
   \<Rightarrow> fault + (bool \<times> 'a BlockParserBaseClass_scheme)" where
  "isValidRecordSizeAtLeast LowerLimit RecordName P =
     (if length (Values (Record P)) \<ge> LowerLimit then Inr (True, P)
      else case ReportRecordSizeError LowerLimit RecordName (Some ''at least'') P of
             Inl f \<Rightarrow> Inl f
           | Inr P' \<Rightarrow> Inr (False, P'))"

definition isValidRecordSizeAtMost ::
  "nat \<Rightarrow> string \<Rightarrow> 'a BlockParserBaseClass_scheme
   \<Rightarrow> fault + (bool \<times> 'a BlockParserBaseClass_scheme)" where
  "isValidRecordSizeAtMost UpperLimit RecordName P =
     (if length (Values (Record P)) \<le> UpperLimit then Inr (True, P)
      else case ReportRecordSizeError UpperLimit RecordName (Some ''no more than'') P of
             Inl f \<Rightarrow> Inl f
           | Inr P' \<Rightarrow> Inr (False, P'))"

text \<open>The source joins the two tests with \<^verbatim>\<open>||\<close>: the second runs when the first fails.\<close>

definition isValidRecordSizeInRange ::
  "nat \<Rightarrow> nat \<Rightarrow> string \<Rightarrow> 'a BlockParserBaseClass_scheme
   \<Rightarrow> fault + (bool \<times> 'a BlockParserBaseClass_scheme)" where
  "isValidRecordSizeInRange LowerLimit UpperLimit RecordName P =
     (case isValidRecordSizeAtLeast LowerLimit RecordName P of
        Inl f \<Rightarrow> Inl f
      | Inr (True, P') \<Rightarrow> Inr (True, P')
      | Inr (False, P') \<Rightarrow> isValidRecordSizeAtMost UpperLimit RecordName P')"

text \<open>
  The default \<^verbatim>\<open>BlockParserBaseClass::ProcessRecord\<close>: the record is not understood.
\<close>

definition BlockParserBaseClass_ProcessRecord ::
  "'a BlockParserBaseClass_scheme \<Rightarrow> fault + 'a BlockParserBaseClass_scheme" where
  "BlockParserBaseClass_ProcessRecord P =
     Error [Str ''Don't know how to process '', Str (BlockName P), Str '' record:'',
            Rec (Code (Record P)) (Values (Record P))] P"

text \<open>Reading \<^verbatim>\<open>Values[i]\<close>; an index beyond the vector is undefined behaviour.\<close>

definition ValuesAt :: "'a BlockParserBaseClass_scheme \<Rightarrow> nat \<Rightarrow> fault + u64" where
  "ValuesAt P i =
     (if i < length (Values (Record P)) then Inr (Values (Record P) ! i) else Inl UndefinedBehaviour)"

subsection \<open>Sequencing\<close>

text \<open>
  A fallible step returns \<open>Inl\<close> with the fault or \<open>Inr\<close> with its result and the new
  state; \<open>andThen\<close> runs the next step on the result, and passes a fault on.
\<close>

definition andThen :: "fault + 'a \<Rightarrow> ('a \<Rightarrow> fault + 'b) \<Rightarrow> fault + 'b" where
  "andThen m f = (case m of Inl e \<Rightarrow> Inl e | Inr x \<Rightarrow> f x)"

subsection \<open>The type table\<close>

definition reportBadTypeIDAs ::
  "nat \<Rightarrow> ExtendedType option \<Rightarrow> TypeKind \<Rightarrow> TopLevelParser \<Rightarrow> fault + TopLevelParser" where
  "reportBadTypeIDAs ID Ty WantedType C =
     BlockError
       (case Ty of
          None \<Rightarrow> [Str ''Can't find extended type for type id: '', UNum ID]
        | Some T \<Rightarrow> [Str ''Type id '', UNum ID, Str '' not '', Knd WantedType,
                      Str ''. Found: '', ExtTy T]) C"

text \<open>A pointer into \<open>TypeIDValues\<close> is the index of the element; \<open>None\<close> is the null pointer.\<close>

definition getTypeByIDAsKind ::
  "nat \<Rightarrow> TypeKind \<Rightarrow> TopLevelParser \<Rightarrow> fault + (nat option \<times> TopLevelParser)" where
  "getTypeByIDAsKind ID WantedKind C =
     (if ID < length (TypeIDValues C) \<and> Kind (TypeIDValues C ! ID) = WantedKind
      then Inr (Some ID, C)
      else andThen
             (reportBadTypeIDAs ID
                (if ID < length (TypeIDValues C) then Some (TypeIDValues C ! ID) else None)
                WantedKind C)
             (\<lambda>C'. Inr (None, C')))"

definition getTypeByIDForDefining ::
  "nat \<Rightarrow> TopLevelParser \<Rightarrow> fault + (nat \<times> TopLevelParser)" where
  "getTypeByIDForDefining ID C =
     andThen (getTypeByIDAsKind ID Undefined C)
       (\<lambda>(Ty, C').
          case Ty of
            Some i \<Rightarrow> Inr (i, C')
          | None \<Rightarrow>
              Inr (ID, if ID \<ge> length (TypeIDValues C')
                       then C'\<lparr>TypeIDValues := resize (ID + 1) ExtendedType_new (TypeIDValues C')\<rparr>
                       else C'))"

definition getSimpleTypeByID ::
  "nat \<Rightarrow> TopLevelParser \<Rightarrow> fault + (IceType \<times> TopLevelParser)" where
  "getSimpleTypeByID ID C =
     andThen (getTypeByIDAsKind ID Simple C)
       (\<lambda>(Ty, C').
          case Ty of
            None \<Rightarrow> Inr (IceType_void, C')
          | Some i \<Rightarrow> Inr (ReturnType (Signature (TypeIDValues C' ! i)), C'))"

definition getFuncSigTypeByID ::
  "nat \<Rightarrow> TopLevelParser \<Rightarrow> fault + (FuncSigType \<times> TopLevelParser)" where
  "getFuncSigTypeByID ID C =
     andThen (getTypeByIDAsKind ID FuncSig C)
       (\<lambda>(Ty, C').
          case Ty of
            None \<Rightarrow> Inr (\<lparr>ReturnType = IceType_void, ArgList = []\<rparr>, C')
          | Some i \<Rightarrow> Inr (Signature (TypeIDValues C' ! i), C'))"

text \<open>
  \<^verbatim>\<open>setAsSimpleType\<close>, \<^verbatim>\<open>setAsFunctionType\<close>, \<^verbatim>\<open>setReturnType\<close> and
  \<^verbatim>\<open>appendArgType\<close>, on the element \<open>i\<close> of the type table.
\<close>

definition setAsSimpleType :: "IceType \<Rightarrow> nat \<Rightarrow> TopLevelParser \<Rightarrow> fault + TopLevelParser" where
  "setAsSimpleType Ty i C =
     (if Kind (TypeIDValues C ! i) = Undefined
      then Inr (C\<lparr>TypeIDValues := (TypeIDValues C)
                  [i := \<lparr>Kind = Simple,
                         Signature = (Signature (TypeIDValues C ! i))\<lparr>ReturnType := Ty\<rparr>\<rparr>]\<rparr>)
      else Inl AssertFailure)"

definition setAsFunctionType :: "nat \<Rightarrow> TopLevelParser \<Rightarrow> fault + TopLevelParser" where
  "setAsFunctionType i C =
     (if Kind (TypeIDValues C ! i) = Undefined
      then Inr (C\<lparr>TypeIDValues := (TypeIDValues C)[i := (TypeIDValues C ! i)\<lparr>Kind := FuncSig\<rparr>]\<rparr>)
      else Inl AssertFailure)"

definition setReturnType :: "IceType \<Rightarrow> nat \<Rightarrow> TopLevelParser \<Rightarrow> TopLevelParser" where
  "setReturnType Ty i C =
     C\<lparr>TypeIDValues := (TypeIDValues C)
         [i := (TypeIDValues C ! i)\<lparr>Signature := (Signature (TypeIDValues C ! i))\<lparr>ReturnType := Ty\<rparr>\<rparr>]\<rparr>"

definition appendArgType :: "IceType \<Rightarrow> nat \<Rightarrow> TopLevelParser \<Rightarrow> TopLevelParser" where
  "appendArgType ArgTy i C =
     C\<lparr>TypeIDValues := (TypeIDValues C)
         [i := (TypeIDValues C ! i)
            \<lparr>Signature := (Signature (TypeIDValues C ! i))
               \<lparr>ArgList := ArgList (Signature (TypeIDValues C ! i)) @ [ArgTy]\<rparr>\<rparr>]\<rparr>"

subsection \<open>TypesParser\<close>

record TypesParser = BlockParserBaseClass +
  NextTypeId :: nat

text \<open>
  The record codes of the types block.  Modelled from the spec: "numeric constants are
  dictated by PNaCl's bitcode definition and must be treated as a fixed external ABI";
  the enumerators of \<^verbatim>\<open>naclbitc\<close> are declared in the bitcode library, not in the sources.
\<close>

abbreviation (input) "TYPE_CODE_NUMENTRY \<equiv> (1::nat)"
abbreviation (input) "TYPE_CODE_VOID \<equiv> (2::nat)"
abbreviation (input) "TYPE_CODE_FLOAT \<equiv> (3::nat)"
abbreviation (input) "TYPE_CODE_DOUBLE \<equiv> (4::nat)"
abbreviation (input) "TYPE_CODE_INTEGER \<equiv> (7::nat)"
abbreviation (input) "TYPE_CODE_VECTOR \<equiv> (12::nat)"
abbreviation (input) "TYPE_CODE_FUNCTION \<equiv> (21::nat)"

definition setNextTypeIDAsSimpleType :: "IceType \<Rightarrow> TypesParser \<Rightarrow> fault + TypesParser" where
  "setNextTypeIDAsSimpleType Ty P =
     andThen (getTypeByIDForDefining (NextTypeId P) (Context P))
       (\<lambda>(i, C). andThen (setAsSimpleType Ty i C)
          (\<lambda>C'. Inr (P\<lparr>Context := C', NextTypeId := NextTypeId P + 1\<rparr>)))"

text \<open>
  The loop over the parameter types of a FUNCTION record, \<open>vs\<close> being the values from
  index \<open>i\<close> on and \<open>FuncTy\<close> the element of the type table being defined.  For a
  parameter of type \<open>void\<close> the source builds the message
  \<^verbatim>\<open>"Type for parameter " << (i - 1) << " not valid. Found: " << ArgTy\<close> in a local
  buffer and replaces the type by \<open>i32\<close>; the buffer is never passed to \<^verbatim>\<open>Error\<close>, so the
  message has no effect (it is \<open>Buffer\<close> below).
\<close>

fun FunctionType_params :: "u64 list \<Rightarrow> nat \<Rightarrow> nat \<Rightarrow> TopLevelParser \<Rightarrow> fault + TopLevelParser" where
  "FunctionType_params [] i FuncTy C = Inr C"
| "FunctionType_params (v # vs) i FuncTy C =
     andThen (getSimpleTypeByID (unat (to_u32 v)) C)
       (\<lambda>(ArgTy, C1).
          if ArgTy = IceType_void then
            (let Buffer = [Str ''Type for parameter '', UNum (i - 1),
                           Str '' not valid. Found: '', TyName ArgTy]
             in FunctionType_params vs (i + 1) FuncTy (appendArgType IceType_i32 FuncTy C1))
          else FunctionType_params vs (i + 1) FuncTy (appendArgType ArgTy FuncTy C1))"

definition TypesParser_ProcessRecord :: "TypesParser \<Rightarrow> fault + TypesParser" where
  "TypesParser_ProcessRecord P =
     (let Vals = Values (Record P); Cd = Code (Record P) in
      if Cd = TYPE_CODE_NUMENTRY then
        andThen (isValidRecordSize 1 ''count'' P)
          (\<lambda>(ok, P1). if \<not> ok then Inr P1
             else Inr (P1\<lparr>Context := (Context P1)
                        \<lparr>TypeIDValues := resize (unat (to_u32 (Vals ! 0))) ExtendedType_new
                                           (TypeIDValues (Context P1))\<rparr>\<rparr>))
      else if Cd = TYPE_CODE_VOID then
        andThen (isValidRecordSize 0 ''void'' P)
          (\<lambda>(ok, P1). if \<not> ok then Inr P1 else setNextTypeIDAsSimpleType IceType_void P1)
      else if Cd = TYPE_CODE_FLOAT then
        andThen (isValidRecordSize 0 ''float'' P)
          (\<lambda>(ok, P1). if \<not> ok then Inr P1 else setNextTypeIDAsSimpleType IceType_f32 P1)
      else if Cd = TYPE_CODE_DOUBLE then
        andThen (isValidRecordSize 0 ''double'' P)
          (\<lambda>(ok, P1). if \<not> ok then Inr P1 else setNextTypeIDAsSimpleType IceType_f64 P1)
      else if Cd = TYPE_CODE_INTEGER then
        andThen (isValidRecordSize 1 ''integer'' P)
          (\<lambda>(ok, P1). if \<not> ok then Inr P1
             else if Vals ! 0 = 1 then setNextTypeIDAsSimpleType IceType_i1 P1
             else if Vals ! 0 = 8 then setNextTypeIDAsSimpleType IceType_i8 P1
             else if Vals ! 0 = 16 then setNextTypeIDAsSimpleType IceType_i16 P1
             else if Vals ! 0 = 32 then setNextTypeIDAsSimpleType IceType_i32 P1
             else if Vals ! 0 = 64 then setNextTypeIDAsSimpleType IceType_i64 P1
             else Error [Str ''Type integer record with invalid bitsize: '',
                         UNum (unat (Vals ! 0))] P1)
      else if Cd = TYPE_CODE_VECTOR then
        andThen (isValidRecordSize 2 ''vector'' P)
          (\<lambda>(ok, P1). if \<not> ok then Inr P1
             else andThen (getSimpleTypeByID (unat (to_u32 (Vals ! 1))) (Context P1))
               (\<lambda>(BaseTy, C2).
                  let P2 = P1\<lparr>Context := C2\<rparr>; Size = to_u32 (Vals ! 0) in
                  if BaseTy = IceType_i1 \<and> Size = 4 then setNextTypeIDAsSimpleType IceType_v4i1 P2
                  else if BaseTy = IceType_i1 \<and> Size = 8 then setNextTypeIDAsSimpleType IceType_v8i1 P2
                  else if BaseTy = IceType_i1 \<and> Size = 16 then setNextTypeIDAsSimpleType IceType_v16i1 P2
                  else if BaseTy = IceType_i8 \<and> Size = 16 then setNextTypeIDAsSimpleType IceType_v16i8 P2
                  else if BaseTy = IceType_i16 \<and> Size = 8 then setNextTypeIDAsSimpleType IceType_v8i16 P2
                  else if BaseTy = IceType_i32 \<and> Size = 4 then setNextTypeIDAsSimpleType IceType_v4i32 P2
                  else if BaseTy = IceType_f32 \<and> Size = 4 then setNextTypeIDAsSimpleType IceType_v4f32 P2
                  else Error [Str ''Invalid type vector record: <'', UNum (unat (Vals ! 0)),
                              Str '' x '', TyName BaseTy, Str ''>''] P2))
      else if Cd = TYPE_CODE_FUNCTION then
        andThen (isValidRecordSizeAtLeast 2 ''signature'' P)
          (\<lambda>(ok, P1). if \<not> ok then Inr P1
             else andThen (if Vals ! 0 \<noteq> 0 then Error [Str ''Function type can't define varargs''] P1
                           else Inr P1)
               (\<lambda>P2. andThen (getTypeByIDForDefining (NextTypeId P2) (Context P2))
                  (\<lambda>(FuncTy, C3). andThen (setAsFunctionType FuncTy C3)
                     (\<lambda>C4. andThen (getSimpleTypeByID (unat (to_u32 (Vals ! 1))) C4)
                        (\<lambda>(RetTy, C5).
                           andThen (FunctionType_params (drop 2 Vals) 2 FuncTy
                                      (setReturnType RetTy FuncTy C5))
                             (\<lambda>C6. Inr (P2\<lparr>Context := C6, NextTypeId := NextTypeId P2 + 1\<rparr>)))))))
      else BlockParserBaseClass_ProcessRecord P)"

subsection \<open>Declarations by ID\<close>

definition reportGetFunctionByIDError ::
  "nat \<Rightarrow> TopLevelParser \<Rightarrow> fault + (nat \<times> TopLevelParser)" where
  "reportGetFunctionByIDError ID C =
     andThen
       (BlockError [Str ''Function index '', UNum ID,
                    Str '' not allowed. Out of range. Must be less than '',
                    UNum (length (FunctionDeclarationList C))] C)
       (\<lambda>C'. if FunctionDeclarationList C' \<noteq> [] then Inr (0, C')
              else Inl (FatalError (ErrStream C')))"

definition getFunctionByID :: "nat \<Rightarrow> TopLevelParser \<Rightarrow> fault + (nat \<times> TopLevelParser)" where
  "getFunctionByID ID C =
     (if ID < length (FunctionDeclarationList C) then Inr (ID, C)
      else reportGetFunctionByIDError ID C)"

definition reportGetGlobalVariableByIDError ::
  "nat \<Rightarrow> TopLevelParser \<Rightarrow> fault + (nat \<times> TopLevelParser)" where
  "reportGetGlobalVariableByIDError Index C =
     andThen
       (BlockError [Str ''Global index '', UNum Index,
                    Str '' not allowed. Out of range. Must be less than '',
                    UNum (length (VariableDeclarations C))] C)
       (\<lambda>C'. if VariableDeclarations C' \<noteq> [] then Inr (0, C')
              else Inl (FatalError (ErrStream C')))"

definition getGlobalVariableByID :: "nat \<Rightarrow> TopLevelParser \<Rightarrow> fault + (nat \<times> TopLevelParser)" where
  "getGlobalVariableByID Index C =
     (if Index < length (VariableDeclarations C) then Inr (Index, C)
      else reportGetGlobalVariableByIDError Index C)"

definition getGlobalDeclarationByID ::
  "nat \<Rightarrow> TopLevelParser \<Rightarrow> fault + (GlobalDeclaration \<times> TopLevelParser)" where
  "getGlobalDeclarationByID Index C =
     (if Index < NumFunctionIds C
      then andThen (getFunctionByID Index C) (\<lambda>(i, C'). Inr (FunctionRef i, C'))
      else andThen (getGlobalVariableByID (Index - NumFunctionIds C) C)
             (\<lambda>(i, C'). Inr (VariableRef i, C')))"

definition getNumGlobalIDs :: "TopLevelParser \<Rightarrow> nat" where
  "getNumGlobalIDs C = length (FunctionDeclarationList C) + length (VariableDeclarations C)"

subsection \<open>GlobalsParser\<close>

text \<open>
  \<open>CurGlobalVar\<close> points to the dummy declaration of the parser or to a declaration of
  the context.
\<close>

datatype VarPtr = Dummy | GlobalVar nat

record GlobalsParser = BlockParserBaseClass +
  InitializersNeeded :: nat
  NextGlobalID :: nat
  DummyGlobalVar :: VariableDeclaration
  CurGlobalVar :: VarPtr

definition getCurGlobalVar :: "GlobalsParser \<Rightarrow> VariableDeclaration" where
  "getCurGlobalVar P =
     (case CurGlobalVar P of
        Dummy \<Rightarrow> DummyGlobalVar P
      | GlobalVar i \<Rightarrow> VariableDeclarations (Context P) ! i)"

definition updCurGlobalVar ::
  "(VariableDeclaration \<Rightarrow> VariableDeclaration) \<Rightarrow> GlobalsParser \<Rightarrow> GlobalsParser" where
  "updCurGlobalVar f P =
     (case CurGlobalVar P of
        Dummy \<Rightarrow> P\<lparr>DummyGlobalVar := f (DummyGlobalVar P)\<rparr>
      | GlobalVar i \<Rightarrow>
          P\<lparr>Context := (Context P)
              \<lparr>VariableDeclarations := (VariableDeclarations (Context P))
                  [i := f (VariableDeclarations (Context P) ! i)]\<rparr>\<rparr>)"

abbreviation (input) "GLOBALVAR_VAR \<equiv> (0::nat)"
abbreviation (input) "GLOBALVAR_COMPOUND \<equiv> (1::nat)"
abbreviation (input) "GLOBALVAR_ZEROFILL \<equiv> (2::nat)"
abbreviation (input) "GLOBALVAR_DATA \<equiv> (3::nat)"
abbreviation (input) "GLOBALVAR_RELOC \<equiv> (4::nat)"
abbreviation (input) "GLOBALVAR_COUNT \<equiv> (5::nat)"

definition verifyNoMissingInitializers :: "GlobalsParser \<Rightarrow> fault + GlobalsParser" where
  "verifyNoMissingInitializers P =
     (let NumInits = length (Initializers (getCurGlobalVar P)) in
      if InitializersNeeded P \<noteq> NumInits then
        andThen
          (Error ([Str ''Global variable @g'', UNum (NextGlobalID P), Str '' expected '',
                   UNum (InitializersNeeded P), Str '' initializer'']
                  @ (if InitializersNeeded P > 1 then [Str ''s''] else [])
                  @ [Str ''. Found: '', UNum NumInits]) P)
          (\<lambda>P'. Inr (P'\<lparr>InitializersNeeded := NumInits\<rparr>))
      else Inr P)"

text \<open>
  The C++ expression \<^verbatim>\<open>E1 << E2\<close> for an \<^verbatim>\<open>int\<close> \<open>E1 \<ge> 0\<close> of 32 bits: the value
  \<open>E1 * 2 ^ E2\<close> when the count is below 32 and the value is representable in \<^verbatim>\<open>int\<close>,
  undefined otherwise.
\<close>

definition shl_int :: "int \<Rightarrow> nat \<Rightarrow> int option" where
  "shl_int E1 E2 = (if E2 < 32 \<and> E1 * 2 ^ E2 < 2 ^ 31 then Some (E1 * 2 ^ E2) else None)"

definition GlobalsParser_ProcessRecord :: "GlobalsParser \<Rightarrow> fault + GlobalsParser" where
  "GlobalsParser_ProcessRecord P =
     (let Vals = Values (Record P); Cd = Code (Record P) in
      if Cd = GLOBALVAR_COUNT then
        andThen (isValidRecordSize 1 ''count'' P)
          (\<lambda>(ok, P1). if \<not> ok then Inr P1
             else if NextGlobalID P1 \<noteq> length (VariableDeclarations (Context P1))
             then Error [Str ''Globals count record not first in block.''] P1
             else if VariableDeclarations (Context P1) \<noteq> [] then Inl AssertFailure
             else Inr (P1\<lparr>Context := (Context P1)
                         \<lparr>VariableDeclarations :=
                            replicate (unat (Vals ! 0)) VariableDeclaration_create\<rparr>\<rparr>))
      else if Cd = GLOBALVAR_VAR then
        andThen (isValidRecordSize 2 ''variable'' P)
          (\<lambda>(ok, P1). if \<not> ok then Inr P1
             else andThen (verifyNoMissingInitializers P1)
               (\<lambda>P2. if \<not> isIRGenerationDisabled P2 then
                    andThen (getGlobalVariableByID (NextGlobalID P2) (Context P2))
                      (\<lambda>(i, C3).
                         let P3 = P2\<lparr>Context := C3, InitializersNeeded := 1,
                                      CurGlobalVar := GlobalVar i\<rparr> in
                         case shl_int 1 (unat (Vals ! 0)) of
                           None \<Rightarrow> Inl UndefinedBehaviour
                         | Some x \<Rightarrow>
                             Inr ((updCurGlobalVar
                                     (\<lambda>V. V\<lparr>Alignment := of_int (x div 2),
                                             IsConstant := (Vals ! 1 \<noteq> 0)\<rparr>) P3)
                                  \<lparr>NextGlobalID := NextGlobalID P3 + 1\<rparr>))
                  else Inr (P2\<lparr>NextGlobalID := NextGlobalID P2 + 1\<rparr>)))
      else if Cd = GLOBALVAR_COMPOUND then
        andThen (isValidRecordSize 1 ''compound'' P)
          (\<lambda>(ok, P1). if \<not> ok then Inr P1
             else if Initializers (getCurGlobalVar P1) \<noteq> []
             then Error [Str ''Globals compound record not first initializer''] P1
             else if Vals ! 0 < 2
             then Error [Str (BlockName P1), Str '' compound record size invalid. Found: '',
                         UNum (unat (Vals ! 0))] P1
             else if isIRGenerationDisabled P1 then Inr P1
             else Inr (P1\<lparr>InitializersNeeded := unat (to_u32 (Vals ! 0))\<rparr>))
      else if Cd = GLOBALVAR_ZEROFILL then
        andThen (isValidRecordSize 1 ''zerofill'' P)
          (\<lambda>(ok, P1). if \<not> ok then Inr P1
             else if isIRGenerationDisabled P1 then Inr P1
             else Inr (updCurGlobalVar
                         (\<lambda>V. V\<lparr>Initializers :=
                                   Initializers V @ [ZeroInitializer (unat (to_u32 (Vals ! 0)))]\<rparr>)
                         P1))
      else if Cd = GLOBALVAR_DATA then
        andThen (isValidRecordSizeAtLeast 1 ''data'' P)
          (\<lambda>(ok, P1). if \<not> ok then Inr P1
             else if isIRGenerationDisabled P1 then Inr P1
             else Inr (updCurGlobalVar
                         (\<lambda>V. V\<lparr>Initializers := Initializers V @ [DataInitializer Vals]\<rparr>) P1))
      else if Cd = GLOBALVAR_RELOC then
        andThen (isValidRecordSizeInRange 1 2 ''reloc'' P)
          (\<lambda>(ok, P1). if \<not> ok then Inr P1
             else if isIRGenerationDisabled P1 then Inr P1
             else andThen (ValuesAt P1 0)
               (\<lambda>v0. andThen (getGlobalDeclarationByID (unat (to_u32 v0)) (Context P1))
                  (\<lambda>(D, C2).
                     Inr (updCurGlobalVar
                            (\<lambda>V. V\<lparr>Initializers := Initializers V
                                      @ [RelocInitializer D
                                           (if length Vals = 2 then to_u32 (Vals ! 1) else 0)]\<rparr>)
                            (P1\<lparr>Context := C2\<rparr>)))))
      else BlockParserBaseClass_ProcessRecord P)"

subsection \<open>FunctionParser: values and basic blocks\<close>

text \<open>
  The fields of \<^verbatim>\<open>FunctionParser\<close>.  With IR generation disabled \<^verbatim>\<open>Func\<close> and
  \<^verbatim>\<open>CurrentNode\<close> are null pointers in the source and are never dereferenced; the model
  keeps an unused CFG and node index there.  A null operand is \<open>None\<close>.
\<close>

record FunctionParser = BlockParserBaseClass +
  Func :: Cfg
  CurrentBbIndex :: u32
  CurrentNode :: CfgNode
  FcnId :: nat
  FuncDecl :: nat
  CachedNumGlobalValueIDs :: u32
  LocalOperands :: "Operand option list"
  NextLocalInstIndex :: u32
  InstIsTerminating :: bool

abbreviation (input) "AlignPowerLimit \<equiv> (29::u32)"

text \<open>
  \<^verbatim>\<open>TopLevelParser::getOrCreateGlobalConstantByID\<close>.  The relocatable constant of a
  declaration is the pooled symbol with offset 0, the name of the declaration and its
  mangling flag.
\<close>

definition getOrCreateGlobalConstantByID ::
  "nat \<Rightarrow> TopLevelParser \<Rightarrow> fault + (Operand option \<times> TopLevelParser)" where
  "getOrCreateGlobalConstantByID ID C0 =
     (let C = (if ID \<ge> length (ValueIDConstants C0)
               then C0\<lparr>ValueIDConstants :=
                        resize (if ID \<ge> getNumGlobalIDs C0 then ID else getNumGlobalIDs C0) None
                          (ValueIDConstants C0)\<rparr>
               else C0);
          Cst = (if ID \<ge> length (ValueIDConstants C0) then None else ValueIDConstants C0 ! ID)
      in
      if Cst \<noteq> None then Inr (Cst, C)
      else if DisableIRGeneration C then
        (if ID < length (ValueIDConstants C)
         then Inr (None, C\<lparr>ValueIDConstants := (ValueIDConstants C)[ID := None]\<rparr>)
         else Inl UndefinedBehaviour)
      else
        andThen
          (if ID < length (FunctionDeclarationList C)
           then Inr (ConstantRelocatable (FcnName (FunctionDeclarationList C ! ID))
                       (FcnSuppressMangling (FunctionDeclarationList C ! ID)), C)
           else if ID - length (FunctionDeclarationList C) < length (VariableDeclarations C)
           then Inr (ConstantRelocatable
                       (VarName (VariableDeclarations C ! (ID - length (FunctionDeclarationList C))))
                       (VarSuppressMangling
                          (VariableDeclarations C ! (ID - length (FunctionDeclarationList C)))), C)
           else andThen (BlockError [Str ''Reference to global not defined: '', UNum ID] C)
                  (\<lambda>C'. Inr (ConstantRelocatable ''??'' False, C')))
          (\<lambda>(Sym, C').
             if ID < length (ValueIDConstants C')
             then Inr (Some Sym, C'\<lparr>ValueIDConstants := (ValueIDConstants C')[ID := Some Sym]\<rparr>)
             else Inl UndefinedBehaviour))"

text \<open>\<^verbatim>\<open>FunctionParser::getOperand\<close>: the value with the absolute index \<open>Index\<close>.\<close>

definition getOperand ::
  "u32 \<Rightarrow> FunctionParser \<Rightarrow> fault + (Operand option \<times> FunctionParser)" where
  "getOperand Index P =
     (if Index < CachedNumGlobalValueIDs P then
        andThen (getOrCreateGlobalConstantByID (unat Index) (Context P))
          (\<lambda>(Cst, C). Inr (Cst, P\<lparr>Context := C\<rparr>))
      else
        (let LocalIndex = unat (Index - CachedNumGlobalValueIDs P) in
         if LocalIndex \<ge> length (LocalOperands P) then
           andThen (Error [Str ''Value index '', UNum (unat Index), Str '' not defined!''] P)
             (\<lambda>P'. Inl (FatalError (ErrStream (Context P'))))
         else
           (case LocalOperands P ! LocalIndex of
              None \<Rightarrow>
                if isIRGenerationDisabled P then Inr (None, P)
                else andThen (Error [Str ''Value index '', UNum (unat Index),
                                     Str '' not defined!''] P)
                       (\<lambda>P'. Inl (FatalError (ErrStream (Context P'))))
            | Some Opr \<Rightarrow> Inr (Some Opr, P))))"

text \<open>
  \<^verbatim>\<open>FunctionParser::setOperand\<close>.  The index \<^verbatim>\<open>LocalIndex + 1\<close> is computed in 32 bits;
  when it wraps to 0 the element read next does not exist.
\<close>

definition setOperand ::
  "u32 \<Rightarrow> Operand option \<Rightarrow> FunctionParser \<Rightarrow> fault + FunctionParser" where
  "setOperand Index Opr P =
     (if Opr = None \<and> \<not> isIRGenerationDisabled P then Inl AssertFailure
      else
        (let LocalIndex = Index - CachedNumGlobalValueIDs P in
         if unat LocalIndex = length (LocalOperands P)
         then Inr (P\<lparr>LocalOperands := LocalOperands P @ [Opr]\<rparr>)
         else
           (let Ops = (if unat LocalIndex \<ge> length (LocalOperands P)
                       then resize (unat (LocalIndex + 1)) None (LocalOperands P)
                       else LocalOperands P)
            in
            if unat LocalIndex \<ge> length Ops then Inl UndefinedBehaviour
            else
              (case Ops ! unat LocalIndex of
                 None \<Rightarrow> Inr (P\<lparr>LocalOperands := Ops[unat LocalIndex := Opr]\<rparr>)
               | Some OldOp \<Rightarrow>
                   if Some OldOp = Opr then Inr (P\<lparr>LocalOperands := Ops\<rparr>)
                   else
                     andThen
                       (Error ([Str ''Multiple definitions for index '', UNum (unat Index),
                                Str '': '']
                               @ (case Opr of None \<Rightarrow> [] | Some NewOp \<Rightarrow> [Opnd NewOp])
                               @ [Str '' and '', Opnd OldOp])
                          (P\<lparr>LocalOperands := Ops\<rparr>))
                       (\<lambda>P'. Inr (P'\<lparr>LocalOperands := Ops[unat LocalIndex := Opr]\<rparr>))))))"

definition setNextLocalInstIndex :: "Operand option \<Rightarrow> FunctionParser \<Rightarrow> fault + FunctionParser" where
  "setNextLocalInstIndex Opr P =
     setOperand (NextLocalInstIndex P) Opr (P\<lparr>NextLocalInstIndex := NextLocalInstIndex P + 1\<rparr>)"

definition InstallNextBasicBlock :: "FunctionParser \<Rightarrow> fault + (CfgNode \<times> FunctionParser)" where
  "InstallNextBasicBlock P =
     (if isIRGenerationDisabled P then Inl AssertFailure
      else (let (n, F) = makeNode (Func P) in Inr (n, P\<lparr>Func := F\<rparr>)))"

definition getBasicBlock :: "u32 \<Rightarrow> FunctionParser \<Rightarrow> fault + (CfgNode \<times> FunctionParser)" where
  "getBasicBlock Index P =
     (if isIRGenerationDisabled P then Inl AssertFailure
      else if unat Index \<ge> length (Nodes (Func P)) then
        andThen (Error [Str ''Reference to basic block '', UNum (unat Index),
                        Str '' not found. Must be less than '',
                        UNum (length (Nodes (Func P)))] P)
          (\<lambda>P'. if Nodes (Func P') = [] then Inl UndefinedBehaviour else Inr (0, P'))
      else Inr (unat Index, P))"

definition getBranchBasicBlock :: "u32 \<Rightarrow> FunctionParser \<Rightarrow> fault + (CfgNode \<times> FunctionParser)" where
  "getBranchBasicBlock Index P =
     (if isIRGenerationDisabled P then Inl AssertFailure
      else andThen (if Index = 0 then Error [Str ''Branch to entry block not allowed''] P
                    else Inr P)
             (getBasicBlock Index))"

definition createInstVar :: "IceType \<Rightarrow> FunctionParser \<Rightarrow> fault + (Operand \<times> FunctionParser)" where
  "createInstVar Ty0 P =
     (if isIRGenerationDisabled P then Inl AssertFailure
      else andThen (if Ty0 = IceType_void
                    then andThen (Error [Str ''Can't define instruction value using type void''] P)
                           (\<lambda>P'. Inr (IceType_i32, P'))
                    else Inr (Ty0, P))
             (\<lambda>(Ty1, P1). let (Var, F) = makeVariable Ty1 (Func P1) in Inr (Var, P1\<lparr>Func := F\<rparr>)))"

definition getNextInstVar :: "IceType \<Rightarrow> FunctionParser \<Rightarrow> fault + (Operand \<times> FunctionParser)" where
  "getNextInstVar Ty0 P =
     (if isIRGenerationDisabled P then Inl AssertFailure
      else if \<not> NextLocalInstIndex P \<ge> CachedNumGlobalValueIDs P then Inl AssertFailure
      else
        (let LocalIndex = unat (NextLocalInstIndex P - CachedNumGlobalValueIDs P) in
         if LocalIndex < length (LocalOperands P) \<and> LocalOperands P ! LocalIndex \<noteq> None then
           (case LocalOperands P ! LocalIndex of
              Some (Variable n t) \<Rightarrow>
                if t = Ty0
                then Inr (Variable n t, P\<lparr>NextLocalInstIndex := NextLocalInstIndex P + 1\<rparr>)
                else andThen
                       (Error [Str ''Illegal forward referenced instruction ('',
                               UNum (unat (NextLocalInstIndex P)), Str ''): '',
                               Opnd (Variable n t)] P)
                       (\<lambda>P'. createInstVar Ty0
                                (P'\<lparr>NextLocalInstIndex := NextLocalInstIndex P' + 1\<rparr>))
            | Some Opr \<Rightarrow>
                andThen
                  (Error [Str ''Illegal forward referenced instruction ('',
                          UNum (unat (NextLocalInstIndex P)), Str ''): '', Opnd Opr] P)
                  (\<lambda>P'. createInstVar Ty0
                           (P'\<lparr>NextLocalInstIndex := NextLocalInstIndex P' + 1\<rparr>))
            | None \<Rightarrow> Inl UndefinedBehaviour)
         else
           andThen (createInstVar Ty0 P)
             (\<lambda>(Var, P1).
                andThen (setOperand (NextLocalInstIndex P1) (Some Var)
                           (P1\<lparr>NextLocalInstIndex := NextLocalInstIndex P1 + 1\<rparr>))
                  (\<lambda>P2. Inr (Var, P2)))))"

text \<open>
  \<^verbatim>\<open>convertRelativeToAbsIndex\<close>.  Its parameters \<^verbatim>\<open>Id\<close> (here \<open>RelId\<close>) and
  \<^verbatim>\<open>BaseIndex\<close> are \<^verbatim>\<open>int32_t\<close>: a 32-bit word read in two's complement (\<open>sint\<close>).  The difference \<^verbatim>\<open>BaseIndex - Id\<close> is computed in \<^verbatim>\<open>int\<close>;
  signed overflow is undefined behaviour.
\<close>

definition convertRelativeToAbsIndex ::
  "u32 \<Rightarrow> u32 \<Rightarrow> FunctionParser \<Rightarrow> fault + (u32 \<times> FunctionParser)" where
  "convertRelativeToAbsIndex RelId BaseIndex P =
     (if sint BaseIndex < sint RelId then
        andThen (Error [Str ''Invalid relative value id: '', SNum (sint RelId),
                        Str '' (must be <= '', SNum (sint BaseIndex), Str '')''] P)
          (\<lambda>P'. Inr (0, P'))
      else if sint BaseIndex - sint RelId < 2 ^ 31
      then Inr (word_of_int (sint BaseIndex - sint RelId), P)
      else Inl UndefinedBehaviour)"

definition getRelativeOperand ::
  "u32 \<Rightarrow> u32 \<Rightarrow> FunctionParser \<Rightarrow> fault + (Operand option \<times> FunctionParser)" where
  "getRelativeOperand Index BaseIndex P =
     andThen (convertRelativeToAbsIndex Index BaseIndex P) (\<lambda>(Abs, P'). getOperand Abs P')"

text \<open>
  \<^verbatim>\<open>extractAlignment\<close>; the out-parameter \<^verbatim>\<open>Alignment\<close> is the result.  For
  \<open>AlignPower \<le> 29\<close> the shift \<^verbatim>\<open>1 << AlignPower\<close> does not overflow \<^verbatim>\<open>int\<close>.
\<close>

definition extractAlignment ::
  "string \<Rightarrow> u32 \<Rightarrow> FunctionParser \<Rightarrow> fault + (u32 \<times> FunctionParser)" where
  "extractAlignment InstName AlignPower P =
     (if AlignPower \<le> AlignPowerLimit
      then Inr (drop_bit 1 (push_bit (unat AlignPower) 1), P)
      else andThen (Error [Str InstName, Str '' alignment greater than 2**'',
                           UNum (unat AlignPowerLimit), Str ''. Found: 2**'',
                           UNum (unat AlignPower)] P)
             (\<lambda>P'. Inr (1, P')))"

text \<open>Dereferencing an operand pointer; a null pointer is undefined behaviour.\<close>

definition deref :: "Operand option \<Rightarrow> fault + Operand" where
  "deref Opr = (case Opr of None \<Rightarrow> Inl UndefinedBehaviour | Some x \<Rightarrow> Inr x)"

definition appendErrorInstruction :: "IceType \<Rightarrow> FunctionParser \<Rightarrow> fault + FunctionParser" where
  "appendErrorInstruction Ty0 P =
     (if Ty0 = IceType_void then Inr P
      else andThen (getNextInstVar Ty0 P)
             (\<lambda>(Var, P1).
                Inr (P1\<lparr>Func := appendInst (CurrentNode P1) (InstAssign Var Var) (Func P1)\<rparr>)))"

subsection \<open>FunctionParser: validity checks\<close>

text \<open>
  Modelled from the spec: the printable names of the arithmetic operations and of the
  casts (\<^verbatim>\<open>InstArithmetic::getOpName\<close>, \<^verbatim>\<open>InstCast::getCastName\<close>, generated from
  IceInst.def, not among the sources), as the spec lists the sub-kinds.
\<close>

fun getOpName :: "ArithOpKind \<Rightarrow> string" where
  "getOpName Add = ''add''" | "getOpName Fadd = ''fadd''"
| "getOpName Sub = ''sub''" | "getOpName Fsub = ''fsub''"
| "getOpName Mul = ''mul''" | "getOpName Fmul = ''fmul''"
| "getOpName Udiv = ''udiv''" | "getOpName Sdiv = ''sdiv''" | "getOpName Fdiv = ''fdiv''"
| "getOpName Urem = ''urem''" | "getOpName Srem = ''srem''" | "getOpName Frem = ''frem''"
| "getOpName Shl = ''shl''" | "getOpName Lshr = ''lshr''" | "getOpName Ashr = ''ashr''"
| "getOpName And = ''and''" | "getOpName Or = ''or''" | "getOpName Xor = ''xor''"

fun getCastName :: "CastKind \<Rightarrow> string" where
  "getCastName Trunc = ''trunc''" | "getCastName Zext = ''zext''"
| "getCastName Sext = ''sext''" | "getCastName Fptoui = ''fptoui''"
| "getCastName Fptosi = ''fptosi''" | "getCastName Uitofp = ''uitofp''"
| "getCastName Sitofp = ''sitofp''" | "getCastName Fptrunc = ''fptrunc''"
| "getCastName Fpext = ''fpext''" | "getCastName Bitcast = ''bitcast''"

definition ReportInvalidBinaryOp ::
  "ArithOpKind \<Rightarrow> IceType \<Rightarrow> FunctionParser \<Rightarrow> fault + FunctionParser" where
  "ReportInvalidBinaryOp Opc OpTy P =
     Error [Str ''Invalid operator type for '', Str (getOpName Opc), Str ''. Found '',
            TyName OpTy] P"

definition isValidIntegerLogicalOp ::
  "ArithOpKind \<Rightarrow> IceType \<Rightarrow> FunctionParser \<Rightarrow> fault + (bool \<times> FunctionParser)" where
  "isValidIntegerLogicalOp Opc OpTy P =
     (if isIntegerType OpTy then Inr (True, P)
      else andThen (ReportInvalidBinaryOp Opc OpTy P) (\<lambda>P'. Inr (False, P')))"

definition isValidIntegerArithOp ::
  "ArithOpKind \<Rightarrow> IceType \<Rightarrow> FunctionParser \<Rightarrow> fault + (bool \<times> FunctionParser)" where
  "isValidIntegerArithOp Opc OpTy P =
     (if isIntegerArithmeticType OpTy then Inr (True, P)
      else andThen (ReportInvalidBinaryOp Opc OpTy P) (\<lambda>P'. Inr (False, P')))"

definition isValidFloatingArithOp ::
  "ArithOpKind \<Rightarrow> IceType \<Rightarrow> FunctionParser \<Rightarrow> fault + (bool \<times> FunctionParser)" where
  "isValidFloatingArithOp Opc OpTy P =
     (if isFloatingType OpTy then Inr (True, P)
      else andThen (ReportInvalidBinaryOp Opc OpTy P) (\<lambda>P'. Inr (False, P')))"

definition isValidPointerType ::
  "Operand \<Rightarrow> string \<Rightarrow> FunctionParser \<Rightarrow> fault + (bool \<times> FunctionParser)" where
  "isValidPointerType Opr InstructionName P =
     (if getType Opr = getPointerType then Inr (True, P)
      else andThen (Error [Str InstructionName, Str '' address not '', TyName getPointerType,
                           Str ''. Found: '', Opnd Opr] P)
             (\<lambda>P'. Inr (False, P')))"

definition isValidLoadStoreType ::
  "IceType \<Rightarrow> string \<Rightarrow> FunctionParser \<Rightarrow> fault + (bool \<times> FunctionParser)" where
  "isValidLoadStoreType Ty0 InstructionName P =
     (if isLoadStoreType Ty0 then Inr (True, P)
      else andThen (Error [Str InstructionName, Str '' type not allowed: '', TyName Ty0,
                           Str ''*''] P)
             (\<lambda>P'. Inr (False, P')))"

definition isAllowedAlignment :: "nat \<Rightarrow> IceType \<Rightarrow> FunctionParser \<Rightarrow> bool" where
  "isAllowedAlignment Algn Ty0 P =
     (Algn = typeAlignInBytes (TheTranslator (Context P)) Ty0
      \<or> (Algn = 1 \<and> \<not> isVectorType Ty0))"

definition isValidLoadStoreAlignment ::
  "nat \<Rightarrow> IceType \<Rightarrow> string \<Rightarrow> FunctionParser \<Rightarrow> fault + (bool \<times> FunctionParser)" where
  "isValidLoadStoreAlignment Algn Ty0 InstructionName P =
     andThen (isValidLoadStoreType Ty0 InstructionName P)
       (\<lambda>(ok, P1).
          if \<not> ok then Inr (False, P1)
          else if isAllowedAlignment Algn Ty0 P1 then Inr (True, P1)
          else andThen (Error [Str InstructionName, Str '' '', TyName Ty0,
                               Str ''*: not allowed for alignment '', UNum Algn] P1)
                 (\<lambda>P'. Inr (False, P')))"

datatype VectorIndexCheckValue =
    VectorIndexNotVector | VectorIndexNotConstant | VectorIndexNotInRange
  | VectorIndexNotI32 | VectorIndexValid

fun dumpVectorIndexCheckValue :: "VectorIndexCheckValue \<Rightarrow> message" where
  "dumpVectorIndexCheckValue VectorIndexNotVector = [Str ''Vector index on non vector'']"
| "dumpVectorIndexCheckValue VectorIndexNotConstant = [Str ''Vector index not integer constant'']"
| "dumpVectorIndexCheckValue VectorIndexNotInRange = [Str ''Vector index not in range of vector'']"
| "dumpVectorIndexCheckValue VectorIndexNotI32 =
     [Str ''Vector index not of type '', TyName IceType_i32]"
| "dumpVectorIndexCheckValue VectorIndexValid = [Str ''Valid vector index'']"

text \<open>
  The index constant holds an \<^verbatim>\<open>int32_t\<close>; its conversion to \<^verbatim>\<open>size_t\<close> makes a
  negative value larger than any element count.
\<close>

definition validateVectorIndex :: "Operand \<Rightarrow> Operand \<Rightarrow> VectorIndexCheckValue" where
  "validateVectorIndex Vec Index =
     (if \<not> isVectorType (getType Vec) then VectorIndexNotVector
      else case Index of
        ConstantInteger32 t v \<Rightarrow>
          if sint v < 0 \<or> unat v \<ge> typeNumElements (getType Vec) then VectorIndexNotInRange
          else if t \<noteq> IceType_i32 then VectorIndexNotI32
          else VectorIndexValid
      | _ \<Rightarrow> VectorIndexNotConstant)"

definition isStringPrefix :: "string \<Rightarrow> string \<Rightarrow> bool" where
  "isStringPrefix Str0 Prefix =
     (if length Str0 < length Prefix then False else take (length Prefix) Str0 = Prefix)"

text \<open>
  The opcodes of the binary operators, casts and comparisons in the bitcode (the
  enumerators of \<^verbatim>\<open>naclbitc\<close>, part of the external ABI).
\<close>

abbreviation (input) "BINOP_ADD \<equiv> (0::u32)"
abbreviation (input) "BINOP_SUB \<equiv> (1::u32)"
abbreviation (input) "BINOP_MUL \<equiv> (2::u32)"
abbreviation (input) "BINOP_UDIV \<equiv> (3::u32)"
abbreviation (input) "BINOP_SDIV \<equiv> (4::u32)"
abbreviation (input) "BINOP_UREM \<equiv> (5::u32)"
abbreviation (input) "BINOP_SREM \<equiv> (6::u32)"
abbreviation (input) "BINOP_SHL \<equiv> (7::u32)"
abbreviation (input) "BINOP_LSHR \<equiv> (8::u32)"
abbreviation (input) "BINOP_ASHR \<equiv> (9::u32)"
abbreviation (input) "BINOP_AND \<equiv> (10::u32)"
abbreviation (input) "BINOP_OR \<equiv> (11::u32)"
abbreviation (input) "BINOP_XOR \<equiv> (12::u32)"

text \<open>
  The pattern the cases of \<^verbatim>\<open>convertBinopOpcode\<close> repeat: the integer operation for an
  integer type, the floating operation otherwise, each with its validity test.
\<close>

definition binopIntOrFloat ::
  "ArithOpKind \<Rightarrow> ArithOpKind \<Rightarrow> IceType \<Rightarrow> FunctionParser
   \<Rightarrow> fault + ((bool \<times> ArithOpKind) \<times> FunctionParser)" where
  "binopIntOrFloat IntOp FloatOp Ty0 P =
     (if isIntegerType Ty0
      then andThen (isValidIntegerArithOp IntOp Ty0 P) (\<lambda>(ok, P'). Inr ((ok, IntOp), P'))
      else andThen (isValidFloatingArithOp FloatOp Ty0 P) (\<lambda>(ok, P'). Inr ((ok, FloatOp), P')))"

definition convertBinopOpcode ::
  "u32 \<Rightarrow> IceType \<Rightarrow> FunctionParser \<Rightarrow> fault + ((bool \<times> ArithOpKind) \<times> FunctionParser)" where
  "convertBinopOpcode Opcode Ty0 P =
     (if Opcode = BINOP_ADD then binopIntOrFloat Add Fadd Ty0 P
      else if Opcode = BINOP_SUB then binopIntOrFloat Sub Fsub Ty0 P
      else if Opcode = BINOP_MUL then binopIntOrFloat Mul Fmul Ty0 P
      else if Opcode = BINOP_UDIV
      then andThen (isValidIntegerArithOp Udiv Ty0 P) (\<lambda>(ok, P'). Inr ((ok, Udiv), P'))
      else if Opcode = BINOP_SDIV then binopIntOrFloat Sdiv Fdiv Ty0 P
      else if Opcode = BINOP_UREM
      then andThen (isValidIntegerArithOp Urem Ty0 P) (\<lambda>(ok, P'). Inr ((ok, Urem), P'))
      else if Opcode = BINOP_SREM then binopIntOrFloat Srem Frem Ty0 P
      else if Opcode = BINOP_SHL
      then andThen (isValidIntegerArithOp Shl Ty0 P) (\<lambda>(ok, P'). Inr ((ok, Shl), P'))
      else if Opcode = BINOP_LSHR
      then andThen (isValidIntegerArithOp Lshr Ty0 P) (\<lambda>(ok, P'). Inr ((ok, Lshr), P'))
      else if Opcode = BINOP_ASHR
      then andThen (isValidIntegerArithOp Ashr Ty0 P) (\<lambda>(ok, P'). Inr ((ok, Ashr), P'))
      else if Opcode = BINOP_AND
      then andThen (isValidIntegerLogicalOp And Ty0 P) (\<lambda>(ok, P'). Inr ((ok, And), P'))
      else if Opcode = BINOP_OR
      then andThen (isValidIntegerLogicalOp Or Ty0 P) (\<lambda>(ok, P'). Inr ((ok, Or), P'))
      else if Opcode = BINOP_XOR
      then andThen (isValidIntegerLogicalOp Xor Ty0 P) (\<lambda>(ok, P'). Inr ((ok, Xor), P'))
      else andThen (Error [Str ''Binary opcode '', UNum (unat Opcode),
                           Str ''not understood for type '', TyName Ty0] P)
             (\<lambda>P'. Inr ((False, Add), P')))"

text \<open>
  \<^verbatim>\<open>simplifyOutCommonVectorType\<close> changes its two reference parameters; the model
  returns them with the boolean result.
\<close>

definition simplifyOutCommonVectorType :: "IceType \<Rightarrow> IceType \<Rightarrow> bool \<times> IceType \<times> IceType" where
  "simplifyOutCommonVectorType Type1 Type2 =
     (if isVectorType Type1 \<noteq> isVectorType Type2 then (False, Type1, Type2)
      else if \<not> isVectorType Type1 then (True, Type1, Type2)
      else if typeNumElements Type1 \<noteq> typeNumElements Type2 then (False, Type1, Type2)
      else (True, typeElementType Type1, typeElementType Type2))"

definition isIntTruncCastValid :: "IceType \<Rightarrow> IceType \<Rightarrow> bool" where
  "isIntTruncCastValid SourceType TargetType =
     (isIntegerType SourceType \<and> isIntegerType TargetType
      \<and> (case simplifyOutCommonVectorType SourceType TargetType of
            (ok, S, T) \<Rightarrow> ok \<and> getScalarIntBitWidth S > getScalarIntBitWidth T))"

definition isFloatTruncCastValid :: "IceType \<Rightarrow> IceType \<Rightarrow> bool" where
  "isFloatTruncCastValid SourceType TargetType =
     (case simplifyOutCommonVectorType SourceType TargetType of
        (ok, S, T) \<Rightarrow> ok \<and> S = IceType_f64 \<and> T = IceType_f32)"

definition isIntExtCastValid :: "IceType \<Rightarrow> IceType \<Rightarrow> bool" where
  "isIntExtCastValid SourceType TargetType = isIntTruncCastValid TargetType SourceType"

definition isFloatExtCastValid :: "IceType \<Rightarrow> IceType \<Rightarrow> bool" where
  "isFloatExtCastValid SourceType TargetType = isFloatTruncCastValid TargetType SourceType"

definition isFloatToIntCastValid :: "IceType \<Rightarrow> IceType \<Rightarrow> bool" where
  "isFloatToIntCastValid SourceType TargetType =
     (if \<not> (isFloatingType SourceType \<and> isIntegerType TargetType) then False
      else if isVectorType SourceType \<noteq> isVectorType TargetType then False
      else if isVectorType SourceType
      then typeNumElements SourceType = typeNumElements TargetType
      else True)"

definition isIntToFloatCastValid :: "IceType \<Rightarrow> IceType \<Rightarrow> bool" where
  "isIntToFloatCastValid SourceType TargetType = isFloatToIntCastValid TargetType SourceType"

text \<open>
  \<^verbatim>\<open>bitcastSizeInBits\<close> calls itself once, on the element type of a vector, which is a
  scalar type; \<open>bitcastSizeInBits_scalar\<close> is its non-vector branch (\<^verbatim>\<open>CHAR_BIT\<close> is 8).
\<close>

definition bitcastSizeInBits_scalar :: "IceType \<Rightarrow> nat" where
  "bitcastSizeInBits_scalar Ty0 = (if Ty0 = IceType_i1 then 1 else typeWidthInBytes Ty0 * 8)"

definition bitcastSizeInBits :: "IceType \<Rightarrow> nat" where
  "bitcastSizeInBits Ty0 =
     (if isVectorType Ty0
      then typeNumElements Ty0 * bitcastSizeInBits_scalar (typeElementType Ty0)
      else bitcastSizeInBits_scalar Ty0)"

definition isBitcastValid :: "IceType \<Rightarrow> IceType \<Rightarrow> bool" where
  "isBitcastValid SourceType TargetType =
     (bitcastSizeInBits SourceType = bitcastSizeInBits TargetType)"

abbreviation (input) "CAST_TRUNC \<equiv> (0::u64)"
abbreviation (input) "CAST_ZEXT \<equiv> (1::u64)"
abbreviation (input) "CAST_SEXT \<equiv> (2::u64)"
abbreviation (input) "CAST_FPTOUI \<equiv> (3::u64)"
abbreviation (input) "CAST_FPTOSI \<equiv> (4::u64)"
abbreviation (input) "CAST_UITOFP \<equiv> (5::u64)"
abbreviation (input) "CAST_SITOFP \<equiv> (6::u64)"
abbreviation (input) "CAST_FPTRUNC \<equiv> (7::u64)"
abbreviation (input) "CAST_FPEXT \<equiv> (8::u64)"
abbreviation (input) "CAST_BITCAST \<equiv> (11::u64)"

text \<open>
  The \<^verbatim>\<open>switch\<close> of \<^verbatim>\<open>convertCastOpToIceOp\<close>: the cast kind and the validity of the
  cast, or \<open>None\<close> for an opcode that is not understood.
\<close>

definition castOpcode :: "u64 \<Rightarrow> IceType \<Rightarrow> IceType \<Rightarrow> (CastKind \<times> bool) option" where
  "castOpcode Opcode SourceType TargetType =
     (if Opcode = CAST_TRUNC then Some (Trunc, isIntTruncCastValid SourceType TargetType)
      else if Opcode = CAST_ZEXT then Some (Zext, isIntExtCastValid SourceType TargetType)
      else if Opcode = CAST_SEXT then Some (Sext, isIntExtCastValid SourceType TargetType)
      else if Opcode = CAST_FPTOUI then Some (Fptoui, isFloatToIntCastValid SourceType TargetType)
      else if Opcode = CAST_FPTOSI then Some (Fptosi, isFloatToIntCastValid SourceType TargetType)
      else if Opcode = CAST_UITOFP then Some (Uitofp, isIntToFloatCastValid SourceType TargetType)
      else if Opcode = CAST_SITOFP then Some (Sitofp, isIntToFloatCastValid SourceType TargetType)
      else if Opcode = CAST_FPTRUNC then Some (Fptrunc, isFloatTruncCastValid SourceType TargetType)
      else if Opcode = CAST_FPEXT then Some (Fpext, isFloatExtCastValid SourceType TargetType)
      else if Opcode = CAST_BITCAST then Some (Bitcast, isBitcastValid SourceType TargetType)
      else None)"

definition convertCastOpToIceOp ::
  "u64 \<Rightarrow> IceType \<Rightarrow> IceType \<Rightarrow> FunctionParser
   \<Rightarrow> fault + ((bool \<times> CastKind) \<times> FunctionParser)" where
  "convertCastOpToIceOp Opcode SourceType TargetType P =
     (case castOpcode Opcode SourceType TargetType of
        None \<Rightarrow>
          andThen (Error [Str ''Cast opcode '', UNum (unat Opcode), Str '' not understood.\<newline>''] P)
            (\<lambda>P'. Inr ((False, Bitcast), P'))
      | Some (CastKnd, Result) \<Rightarrow>
          if \<not> Result then
            andThen (Error [Str ''Illegal cast: '', Str (getCastName CastKnd), Str '' '',
                            TyName SourceType, Str '' to '', TyName TargetType] P)
              (\<lambda>P'. Inr ((Result, CastKnd), P'))
          else Inr ((Result, CastKnd), P))"

abbreviation (input) "ICMP_EQ \<equiv> (32::u64)"
abbreviation (input) "ICMP_NE \<equiv> (33::u64)"
abbreviation (input) "ICMP_UGT \<equiv> (34::u64)"
abbreviation (input) "ICMP_UGE \<equiv> (35::u64)"
abbreviation (input) "ICMP_ULT \<equiv> (36::u64)"
abbreviation (input) "ICMP_ULE \<equiv> (37::u64)"
abbreviation (input) "ICMP_SGT \<equiv> (38::u64)"
abbreviation (input) "ICMP_SGE \<equiv> (39::u64)"
abbreviation (input) "ICMP_SLT \<equiv> (40::u64)"
abbreviation (input) "ICMP_SLE \<equiv> (41::u64)"

text \<open>
  The two converters of comparison predicates return whether the predicate is known,
  and the condition; the condition with the value 0 for an unknown predicate.
\<close>

definition convertNaClBitcICmpOpToIce :: "u64 \<Rightarrow> bool \<times> ICond" where
  "convertNaClBitcICmpOpToIce Opc =
     (if Opc = ICMP_EQ then (True, Icmp_Eq)
      else if Opc = ICMP_NE then (True, Icmp_Ne)
      else if Opc = ICMP_UGT then (True, Icmp_Ugt)
      else if Opc = ICMP_UGE then (True, Icmp_Uge)
      else if Opc = ICMP_ULT then (True, Icmp_Ult)
      else if Opc = ICMP_ULE then (True, Icmp_Ule)
      else if Opc = ICMP_SGT then (True, Icmp_Sgt)
      else if Opc = ICMP_SGE then (True, Icmp_Sge)
      else if Opc = ICMP_SLT then (True, Icmp_Slt)
      else if Opc = ICMP_SLE then (True, Icmp_Sle)
      else (False, Icmp_Eq))"

definition convertNaClBitcFCompOpToIce :: "u64 \<Rightarrow> bool \<times> FCond" where
  "convertNaClBitcFCompOpToIce Opc =
     (if Opc = 0 then (True, Fcmp_False)
      else if Opc = 1 then (True, Fcmp_Oeq)
      else if Opc = 2 then (True, Fcmp_Ogt)
      else if Opc = 3 then (True, Fcmp_Oge)
      else if Opc = 4 then (True, Fcmp_Olt)
      else if Opc = 5 then (True, Fcmp_Ole)
      else if Opc = 6 then (True, Fcmp_One)
      else if Opc = 7 then (True, Fcmp_Ord)
      else if Opc = 8 then (True, Fcmp_Uno)
      else if Opc = 9 then (True, Fcmp_Ueq)
      else if Opc = 10 then (True, Fcmp_Ugt)
      else if Opc = 11 then (True, Fcmp_Uge)
      else if Opc = 12 then (True, Fcmp_Ult)
      else if Opc = 13 then (True, Fcmp_Ule)
      else if Opc = 14 then (True, Fcmp_Une)
      else if Opc = 15 then (True, Fcmp_True)
      else (False, Fcmp_False))"

text \<open>
  Modelled from the spec: the sign-rotated integer decoder of the bitstream reader
  (\<^verbatim>\<open>NaClDecodeSignRotatedValue\<close> of the bitcode library, not among the sources):
  \<^verbatim>\<open>decode(v) = (v & 1) ? -(v >> 1) : (v >> 1)\<close>, on 64-bit unsigned values.
\<close>

definition NaClDecodeSignRotatedValue :: "u64 \<Rightarrow> u64" where
  "NaClDecodeSignRotatedValue v = (if v AND 1 \<noteq> 0 then - (drop_bit 1 v) else drop_bit 1 v)"

subsection \<open>FunctionParser::ProcessRecord\<close>

text \<open>
  One definition for each case of the \<^verbatim>\<open>switch\<close> of \<^verbatim>\<open>FunctionParser::ProcessRecord\<close>.
  \<open>BaseIndex\<close> is the \<^verbatim>\<open>int32_t\<close> with the bits of the next-instruction index at the
  start of the record.  A record value passed to an \<^verbatim>\<open>int32_t\<close> or \<^verbatim>\<open>uint32_t\<close>
  parameter is narrowed to its low 32 bits (\<open>to_u32\<close>).  Assertions are checked.
\<close>

abbreviation (input) "FUNC_CODE_DECLAREBLOCKS \<equiv> (1::nat)"
abbreviation (input) "FUNC_CODE_INST_BINOP \<equiv> (2::nat)"
abbreviation (input) "FUNC_CODE_INST_CAST \<equiv> (3::nat)"
abbreviation (input) "FUNC_CODE_INST_EXTRACTELT \<equiv> (6::nat)"
abbreviation (input) "FUNC_CODE_INST_INSERTELT \<equiv> (7::nat)"
abbreviation (input) "FUNC_CODE_INST_RET \<equiv> (10::nat)"
abbreviation (input) "FUNC_CODE_INST_BR \<equiv> (11::nat)"
abbreviation (input) "FUNC_CODE_INST_SWITCH \<equiv> (12::nat)"
abbreviation (input) "FUNC_CODE_INST_UNREACHABLE \<equiv> (15::nat)"
abbreviation (input) "FUNC_CODE_INST_PHI \<equiv> (16::nat)"
abbreviation (input) "FUNC_CODE_INST_ALLOCA \<equiv> (19::nat)"
abbreviation (input) "FUNC_CODE_INST_LOAD \<equiv> (20::nat)"
abbreviation (input) "FUNC_CODE_INST_STORE \<equiv> (24::nat)"
abbreviation (input) "FUNC_CODE_INST_CMP2 \<equiv> (28::nat)"
abbreviation (input) "FUNC_CODE_INST_VSELECT \<equiv> (29::nat)"
abbreviation (input) "FUNC_CODE_INST_CALL \<equiv> (34::nat)"
abbreviation (input) "FUNC_CODE_INST_FORWARDTYPEREF \<equiv> (43::nat)"
abbreviation (input) "FUNC_CODE_INST_CALL_INDIRECT \<equiv> (44::nat)"

text \<open>\<^verbatim>\<open>CurrentNode->appendInst(I)\<close>.\<close>

definition appendToCurrentNode :: "Inst \<Rightarrow> FunctionParser \<Rightarrow> FunctionParser" where
  "appendToCurrentNode I P = P\<lparr>Func := appendInst (CurrentNode P) I (Func P)\<rparr>"

text \<open>The loop \<^verbatim>\<open>for (size_t i = 1; i < NumBbs; ++i) InstallNextBasicBlock();\<close>\<close>

primrec InstallBasicBlocks :: "nat \<Rightarrow> FunctionParser \<Rightarrow> fault + FunctionParser" where
  "InstallBasicBlocks 0 P = Inr P"
| "InstallBasicBlocks (Suc n) P =
     andThen (InstallNextBasicBlock P) (\<lambda>(b, P'). InstallBasicBlocks n P')"

definition ProcessRecord_DECLAREBLOCKS :: "FunctionParser \<Rightarrow> fault + FunctionParser" where
  "ProcessRecord_DECLAREBLOCKS P =
     andThen (isValidRecordSize 1 ''count'' P)
       (\<lambda>(ok, P1). if \<not> ok then Inr P1
          else
            andThen
              (if to_u32 (Values (Record P) ! 0) = 0
               then andThen (Error [Str ''Functions must contain at least one basic block.''] P1)
                      (\<lambda>P'. Inr (1, P'))
               else Inr (to_u32 (Values (Record P) ! 0), P1))
              (\<lambda>(NumBbs, P2).
                 if isIRGenerationDisabled P2 then Inr P2
                 else if length (Nodes (Func P2)) \<noteq> 1
                 then Error [Str ''Duplicate function block count record''] P2
                 else InstallBasicBlocks (unat NumBbs - 1) P2))"

definition ProcessRecord_BINOP :: "u32 \<Rightarrow> FunctionParser \<Rightarrow> fault + FunctionParser" where
  "ProcessRecord_BINOP BaseIndex P =
     andThen (isValidRecordSize 3 ''binop'' P)
       (\<lambda>(ok, P1). if \<not> ok then Inr P1
          else
            andThen (getRelativeOperand (to_u32 (Values (Record P) ! 0)) BaseIndex P1)
              (\<lambda>(Op1, P2).
                 andThen (getRelativeOperand (to_u32 (Values (Record P) ! 1)) BaseIndex P2)
                   (\<lambda>(Op2, P3).
                      if isIRGenerationDisabled P3 then
                        (if Op1 = None \<and> Op2 = None then setNextLocalInstIndex None P3
                         else Inl AssertFailure)
                      else
                        andThen (deref Op1)
                          (\<lambda>A. andThen (deref Op2)
                             (\<lambda>B.
                                if getType A \<noteq> getType B then
                                  andThen (Error [Str ''Binop argument types differ: '',
                                                  TyName (getType A), Str '' and '',
                                                  TyName (getType B)] P3)
                                    (appendErrorInstruction (getType A))
                                else
                                  andThen (convertBinopOpcode (to_u32 (Values (Record P) ! 2))
                                             (getType A) P3)
                                    (\<lambda>((conv, Opcode), P4).
                                       if \<not> conv then appendErrorInstruction (getType A) P4
                                       else
                                         andThen (getNextInstVar (getType A) P4)
                                           (\<lambda>(Dest, P5).
                                              Inr (appendToCurrentNode
                                                     (InstArithmetic Opcode Dest A B) P5))))))))"

definition ProcessRecord_CAST :: "u32 \<Rightarrow> FunctionParser \<Rightarrow> fault + FunctionParser" where
  "ProcessRecord_CAST BaseIndex P =
     andThen (isValidRecordSize 3 ''cast'' P)
       (\<lambda>(ok, P1). if \<not> ok then Inr P1
          else
            andThen (getRelativeOperand (to_u32 (Values (Record P) ! 0)) BaseIndex P1)
              (\<lambda>(Src, P2).
                 andThen (getSimpleTypeByID (unat (to_u32 (Values (Record P) ! 1))) (Context P2))
                   (\<lambda>(CastType, C3).
                      let P3 = P2\<lparr>Context := C3\<rparr> in
                      if isIRGenerationDisabled P3 then
                        (if Src = None then setNextLocalInstIndex None P3 else Inl AssertFailure)
                      else
                        andThen (deref Src)
                          (\<lambda>S.
                             andThen (convertCastOpToIceOp (Values (Record P) ! 2) (getType S)
                                        CastType P3)
                               (\<lambda>((conv, CastKnd), P4).
                                  if \<not> conv then appendErrorInstruction CastType P4
                                  else
                                    andThen (getNextInstVar CastType P4)
                                      (\<lambda>(Dest, P5).
                                         Inr (appendToCurrentNode
                                                (InstCast CastKnd Dest S) P5)))))))"

definition ProcessRecord_VSELECT :: "u32 \<Rightarrow> FunctionParser \<Rightarrow> fault + FunctionParser" where
  "ProcessRecord_VSELECT BaseIndex P =
     andThen (isValidRecordSize 3 ''select'' P)
       (\<lambda>(ok, P1). if \<not> ok then Inr P1
          else
            andThen (getRelativeOperand (to_u32 (Values (Record P) ! 0)) BaseIndex P1)
              (\<lambda>(ThenVal, P2).
                 andThen (getRelativeOperand (to_u32 (Values (Record P) ! 1)) BaseIndex P2)
                   (\<lambda>(ElseVal, P3).
                      andThen (getRelativeOperand (to_u32 (Values (Record P) ! 2)) BaseIndex P3)
                        (\<lambda>(CondVal, P4).
                           if isIRGenerationDisabled P4 then
                             (if ThenVal = None \<and> ElseVal = None \<and> CondVal = None
                              then setNextLocalInstIndex None P4 else Inl AssertFailure)
                           else
                             andThen (deref ThenVal)
                               (\<lambda>T. andThen (deref ElseVal)
                                  (\<lambda>E. andThen (deref CondVal)
                                     (\<lambda>Cnd.
                                        if getType T \<noteq> getType E then
                                          andThen (Error [Str ''Select operands not same type. Found '',
                                                          TyName (getType T), Str '' and '',
                                                          TyName (getType E)] P4)
                                            (appendErrorInstruction (getType T))
                                        else if isVectorType (getType Cnd)
                                             \<and> \<not> (isVectorType (getType T)
                                                   \<and> typeElementType (getType Cnd) = IceType_i1
                                                   \<and> typeNumElements (getType T)
                                                       = typeNumElements (getType Cnd))
                                        then
                                          andThen (Error [Str ''Select condition type '',
                                                          TyName (getType Cnd),
                                                          Str '' not allowed for values of type '',
                                                          TyName (getType T)] P4)
                                            (appendErrorInstruction (getType T))
                                        else if \<not> isVectorType (getType Cnd)
                                             \<and> getType Cnd \<noteq> IceType_i1
                                        then
                                          andThen (Error [Str ''Select condition '', Addr Cnd,
                                                          Str '' not type i1. Found: '',
                                                          TyName (getType Cnd)] P4)
                                            (appendErrorInstruction (getType T))
                                        else
                                          andThen (getNextInstVar (getType T) P4)
                                            (\<lambda>(Dest, P5).
                                               Inr (appendToCurrentNode
                                                      (InstSelect Dest Cnd T E) P5)))))))))"

definition ProcessRecord_EXTRACTELT :: "u32 \<Rightarrow> FunctionParser \<Rightarrow> fault + FunctionParser" where
  "ProcessRecord_EXTRACTELT BaseIndex P =
     andThen (isValidRecordSize 2 ''extract element'' P)
       (\<lambda>(ok, P1). if \<not> ok then Inr P1
          else
            andThen (getRelativeOperand (to_u32 (Values (Record P) ! 0)) BaseIndex P1)
              (\<lambda>(Vec, P2).
                 andThen (getRelativeOperand (to_u32 (Values (Record P) ! 1)) BaseIndex P2)
                   (\<lambda>(Index, P3).
                      if isIRGenerationDisabled P3 then
                        (if Vec = None \<and> Index = None then setNextLocalInstIndex None P3
                         else Inl AssertFailure)
                      else
                        andThen (deref Vec)
                          (\<lambda>V. andThen (deref Index)
                             (\<lambda>I.
                                if validateVectorIndex V I \<noteq> VectorIndexValid then
                                  andThen (Error (dumpVectorIndexCheckValue (validateVectorIndex V I)
                                                  @ [Str '': extractelement '', TyName (getType V),
                                                     Str '' '', Opnd V, Str '', '',
                                                     TyName (getType I), Str '' '', Opnd I]) P3)
                                    (appendErrorInstruction (getType V))
                                else
                                  andThen (getNextInstVar (typeElementType (getType V)) P3)
                                    (\<lambda>(Dest, P4).
                                       Inr (appendToCurrentNode
                                              (InstExtractElement Dest V I) P4)))))))"

definition ProcessRecord_INSERTELT :: "u32 \<Rightarrow> FunctionParser \<Rightarrow> fault + FunctionParser" where
  "ProcessRecord_INSERTELT BaseIndex P =
     andThen (isValidRecordSize 3 ''insert element'' P)
       (\<lambda>(ok, P1). if \<not> ok then Inr P1
          else
            andThen (getRelativeOperand (to_u32 (Values (Record P) ! 0)) BaseIndex P1)
              (\<lambda>(Vec, P2).
                 andThen (getRelativeOperand (to_u32 (Values (Record P) ! 1)) BaseIndex P2)
                   (\<lambda>(Elt, P3).
                      andThen (getRelativeOperand (to_u32 (Values (Record P) ! 2)) BaseIndex P3)
                        (\<lambda>(Index, P4).
                           if isIRGenerationDisabled P4 then
                             (if Vec = None \<and> Elt = None \<and> Index = None
                              then setNextLocalInstIndex None P4 else Inl AssertFailure)
                           else
                             andThen (deref Vec)
                               (\<lambda>V. andThen (deref Elt)
                                  (\<lambda>E. andThen (deref Index)
                                     (\<lambda>I.
                                        if validateVectorIndex V I \<noteq> VectorIndexValid then
                                          andThen
                                            (Error (dumpVectorIndexCheckValue (validateVectorIndex V I)
                                                    @ [Str '': insertelement '', TyName (getType V),
                                                       Str '' '', Opnd V, Str '', '',
                                                       TyName (getType E), Str '' '', Opnd E,
                                                       Str '', '', TyName (getType I), Str '' '',
                                                       Opnd I]) P4)
                                            (appendErrorInstruction (getType E))
                                        else
                                          andThen (getNextInstVar (getType V) P4)
                                            (\<lambda>(Dest, P5).
                                               Inr (appendToCurrentNode
                                                      (InstInsertElement Dest V E I) P5)))))))))"

text \<open>
  In the CMP2 case a mismatch of the operand types is reported, a placeholder is
  appended, and the comparison goes on with the first operand in place of the second.
\<close>

definition ProcessRecord_CMP2 :: "u32 \<Rightarrow> FunctionParser \<Rightarrow> fault + FunctionParser" where
  "ProcessRecord_CMP2 BaseIndex P =
     andThen (isValidRecordSize 3 ''compare'' P)
       (\<lambda>(ok, P1). if \<not> ok then Inr P1
          else
            andThen (getRelativeOperand (to_u32 (Values (Record P) ! 0)) BaseIndex P1)
              (\<lambda>(Op1, P2).
                 andThen (getRelativeOperand (to_u32 (Values (Record P) ! 1)) BaseIndex P2)
                   (\<lambda>(Op2, P3).
                      if isIRGenerationDisabled P3 then
                        (if Op1 = None \<and> Op2 = None then setNextLocalInstIndex None P3
                         else Inl AssertFailure)
                      else
                        andThen (deref Op1)
                          (\<lambda>A. andThen (deref Op2)
                             (\<lambda>B0.
                                let DestType = getCompareResultType (getType A) in
                                andThen
                                  (if getType A \<noteq> getType B0 then
                                     andThen (Error [Str ''Compare argument types differ: '',
                                                     TyName (getType A), Str '' and '',
                                                     TyName (getType B0)] P3)
                                       (\<lambda>P'. andThen (appendErrorInstruction DestType P')
                                                (\<lambda>P''. Inr (A, P'')))
                                   else Inr (B0, P3))
                                  (\<lambda>(B, P4).
                                     if DestType = IceType_void then
                                       Error [Str ''Compare not defined for type '',
                                              TyName (getType A)] P4
                                     else
                                       andThen (getNextInstVar DestType P4)
                                         (\<lambda>(Dest, P5).
                                            if isIntegerType (getType A) then
                                              andThen
                                                (if \<not> fst (convertNaClBitcICmpOpToIce
                                                             (Values (Record P) ! 2))
                                                 then andThen
                                                   (Error [Str ''Compare record contains unknown integer predicate index: '',
                                                           UNum (unat (Values (Record P) ! 2))] P5)
                                                   (appendErrorInstruction DestType)
                                                 else Inr P5)
                                                (\<lambda>P6. Inr (appendToCurrentNode
                                                   (InstIcmp (snd (convertNaClBitcICmpOpToIce
                                                                     (Values (Record P) ! 2)))
                                                      Dest A B) P6))
                                            else if isFloatingType (getType A) then
                                              andThen
                                                (if \<not> fst (convertNaClBitcFCompOpToIce
                                                             (Values (Record P) ! 2))
                                                 then andThen
                                                   (Error [Str ''Compare record contains unknown float predicate index: '',
                                                           UNum (unat (Values (Record P) ! 2))] P5)
                                                   (appendErrorInstruction DestType)
                                                 else Inr P5)
                                                (\<lambda>P6. Inr (appendToCurrentNode
                                                   (InstFcmp (snd (convertNaClBitcFCompOpToIce
                                                                     (Values (Record P) ! 2)))
                                                      Dest A B) P6))
                                            else
                                              andThen (Error [Str ''Compare on type not understood: '',
                                                              TyName (getType A)] P5)
                                                (appendErrorInstruction DestType))))))))"

definition ProcessRecord_RET :: "u32 \<Rightarrow> FunctionParser \<Rightarrow> fault + FunctionParser" where
  "ProcessRecord_RET BaseIndex P =
     andThen (isValidRecordSizeInRange 0 1 ''return'' P)
       (\<lambda>(ok, P1). if \<not> ok then Inr P1
          else if Values (Record P) = [] then
            (if isIRGenerationDisabled P1 then Inr P1
             else Inr ((appendToCurrentNode (InstRet None) P1)\<lparr>InstIsTerminating := True\<rparr>))
          else
            andThen (getRelativeOperand (to_u32 (Values (Record P) ! 0)) BaseIndex P1)
              (\<lambda>(RetVal, P2).
                 if isIRGenerationDisabled P2 then
                   (if RetVal = None then Inr P2 else Inl AssertFailure)
                 else
                   andThen (deref RetVal)
                     (\<lambda>R. Inr ((appendToCurrentNode (InstRet (Some R)) P2)
                                \<lparr>InstIsTerminating := True\<rparr>))))"

definition ProcessRecord_BR :: "u32 \<Rightarrow> FunctionParser \<Rightarrow> fault + FunctionParser" where
  "ProcessRecord_BR BaseIndex P =
     (if length (Values (Record P)) = 1 then
        (if isIRGenerationDisabled P then Inr P
         else
           andThen (getBranchBasicBlock (to_u32 (Values (Record P) ! 0)) P)
             (\<lambda>(Block, P1).
                Inr ((appendToCurrentNode (InstBr Block) P1)\<lparr>InstIsTerminating := True\<rparr>)))
      else
        andThen (isValidRecordSize 3 ''branch'' P)
          (\<lambda>(ok, P1). if \<not> ok then Inr P1
             else
               andThen (getRelativeOperand (to_u32 (Values (Record P) ! 2)) BaseIndex P1)
                 (\<lambda>(CondOp, P2).
                    if isIRGenerationDisabled P2 then
                      (if CondOp = None then Inr P2 else Inl AssertFailure)
                    else
                      andThen (deref CondOp)
                        (\<lambda>Cnd.
                           if getType Cnd \<noteq> IceType_i1 then
                             Error [Str ''Branch condition '', Opnd Cnd, Str '' not i1. Found: '',
                                    TyName (getType Cnd)] P2
                           else
                             andThen (getBranchBasicBlock (to_u32 (Values (Record P) ! 0)) P2)
                               (\<lambda>(ThenBlock, P3).
                                  andThen (getBranchBasicBlock (to_u32 (Values (Record P) ! 1)) P3)
                                    (\<lambda>(ElseBlock, P4).
                                       Inr ((appendToCurrentNode
                                               (InstBrCond Cnd ThenBlock ElseBlock) P4)
                                            \<lparr>InstIsTerminating := True\<rparr>)))))))"

text \<open>
  The loop over the cases of a SWITCH record: \<open>n\<close> cases remain, \<open>ValCaseIndex\<close> is
  the (32-bit) index of the next case entry, \<open>Cases\<close> the branches added so far.  The
  result \<open>None\<close> stands for the \<^verbatim>\<open>return\<close> after a malformed case entry.  The value of
  a case is the decoded record value, cut to the bit width of the condition and
  sign-extended (\<^verbatim>\<open>APInt::getSExtValue\<close>).
\<close>

primrec SwitchCases ::
  "nat \<Rightarrow> u32 \<Rightarrow> nat \<Rightarrow> (int \<times> CfgNode) list \<Rightarrow> FunctionParser
   \<Rightarrow> fault + ((int \<times> CfgNode) list option \<times> FunctionParser)" where
  "SwitchCases 0 ValCaseIndex BitWidth Cases P = Inr (Some Cases, P)"
| "SwitchCases (Suc n) ValCaseIndex BitWidth Cases P =
     andThen (ValuesAt P (unat ValCaseIndex))
       (\<lambda>m1.
          andThen (if m1 = 1 then ValuesAt P (unat (ValCaseIndex + 1)) else Inr m1)
            (\<lambda>m2.
               if \<not> (m1 = 1 \<and> m2 = 1) then
                 andThen (Error [Str ''Sequence [1, 1, value, label] expected for case entry '',
                                 Str ''in switch record. (at index'', UNum (unat ValCaseIndex),
                                 Str '')''] P)
                   (\<lambda>P'. Inr (None, P'))
               else
                 andThen (ValuesAt P (unat (ValCaseIndex + 2)))
                   (\<lambda>v.
                      if isIRGenerationDisabled P
                      then SwitchCases n (ValCaseIndex + 4) BitWidth Cases P
                      else
                        andThen (ValuesAt P (unat (ValCaseIndex + 3)))
                          (\<lambda>lab.
                             andThen (getBranchBasicBlock (to_u32 lab) P)
                               (\<lambda>(L, P').
                                  SwitchCases n (ValCaseIndex + 4) BitWidth
                                    (Cases @ [(signed_take_bit (BitWidth - 1)
                                                 (uint (NaClDecodeSignRotatedValue v)), L)])
                                    P')))))"

definition ProcessRecord_SWITCH :: "u32 \<Rightarrow> FunctionParser \<Rightarrow> fault + FunctionParser" where
  "ProcessRecord_SWITCH BaseIndex P =
     andThen (isValidRecordSizeAtLeast 4 ''switch'' P)
       (\<lambda>(ok, P1). if \<not> ok then Inr P1
          else
            andThen (getSimpleTypeByID (unat (to_u32 (Values (Record P) ! 0))) (Context P1))
              (\<lambda>(CondTy, C2).
                 let P2 = P1\<lparr>Context := C2\<rparr> in
                 if \<not> isScalarIntegerType CondTy then
                   Error [Str ''Case condition must be non-wide integer. Found: '', TyName CondTy] P2
                 else
                   andThen (getRelativeOperand (to_u32 (Values (Record P) ! 1)) BaseIndex P2)
                     (\<lambda>(CondOp, P3).
                        if isIRGenerationDisabled P3 \<and> CondOp \<noteq> None then Inl AssertFailure
                        else if \<not> isIRGenerationDisabled P3 \<and> CondOp = None
                        then Inl UndefinedBehaviour
                        else if \<not> isIRGenerationDisabled P3
                                \<and> (case CondOp of None \<Rightarrow> False
                                     | Some Cnd \<Rightarrow> CondTy \<noteq> getType Cnd)
                        then
                          Error ([Str ''Case condition expects type '', TyName CondTy,
                                  Str ''. Found: '']
                                 @ (case CondOp of None \<Rightarrow> []
                                    | Some Cnd \<Rightarrow> [TyName (getType Cnd)])) P3
                        else
                          andThen
                            (if isIRGenerationDisabled P3 then Inr (0, P3)
                             else getBranchBasicBlock (to_u32 (Values (Record P) ! 2)) P3)
                            (\<lambda>(DefaultLabel, P4).
                               let NumCases = to_u32 (Values (Record P) ! 3) in
                               andThen (isValidRecordSize (unat (4 + NumCases * 4)) ''switch'' P4)
                                 (\<lambda>(ok2, P5). if \<not> ok2 then Inr P5
                                    else
                                      andThen (SwitchCases (unat NumCases) 4
                                                 (getScalarIntBitWidth CondTy) [] P5)
                                        (\<lambda>(Cases, P6).
                                           case Cases of
                                             None \<Rightarrow> Inr P6
                                           | Some Cs \<Rightarrow>
                                               if isIRGenerationDisabled P6 then Inr P6
                                               else
                                                 andThen (deref CondOp)
                                                   (\<lambda>Cnd.
                                                      Inr ((appendToCurrentNode
                                                              (InstSwitch Cnd DefaultLabel Cs) P6)
                                                           \<lparr>InstIsTerminating := True\<rparr>))))))))"

definition ProcessRecord_UNREACHABLE :: "FunctionParser \<Rightarrow> fault + FunctionParser" where
  "ProcessRecord_UNREACHABLE P =
     andThen (isValidRecordSize 0 ''unreachable'' P)
       (\<lambda>(ok, P1). if \<not> ok then Inr P1
          else if isIRGenerationDisabled P1 then Inr P1
          else Inr ((appendToCurrentNode InstUnreachable P1)\<lparr>InstIsTerminating := True\<rparr>))"

text \<open>
  The two loops over the operands of a PHI record, \<open>vs\<close> being the record values from
  index \<open>i\<close> on.  Each value operand is decoded by \<^verbatim>\<open>NaClDecodeSignRotatedValue\<close>
  before it is passed to \<^verbatim>\<open>getRelativeOperand\<close>.  With IR generation disabled the
  operands are only asserted to be null.
\<close>

fun PhiOperands_disabled :: "u64 list \<Rightarrow> u32 \<Rightarrow> FunctionParser \<Rightarrow> fault + FunctionParser" where
  "PhiOperands_disabled [] BaseIndex P = Inr P"
| "PhiOperands_disabled (v # vs) BaseIndex P =
     andThen (getRelativeOperand (to_u32 (NaClDecodeSignRotatedValue v)) BaseIndex P)
       (\<lambda>(Opr, P').
          if Opr \<noteq> None then Inl AssertFailure
          else PhiOperands_disabled (drop 1 vs) BaseIndex P')"

fun PhiOperands ::
  "u64 list \<Rightarrow> IceType \<Rightarrow> u32 \<Rightarrow> (Operand \<times> CfgNode) list \<Rightarrow> FunctionParser
   \<Rightarrow> fault + ((Operand \<times> CfgNode) list option \<times> FunctionParser)" where
  "PhiOperands [] Ty0 BaseIndex PhiArgs P = Inr (Some PhiArgs, P)"
| "PhiOperands (v # vs) Ty0 BaseIndex PhiArgs P =
     andThen (getRelativeOperand (to_u32 (NaClDecodeSignRotatedValue v)) BaseIndex P)
       (\<lambda>(Opr, P1).
          andThen (deref Opr)
            (\<lambda>A.
               if getType A \<noteq> Ty0 then
                 andThen (Error [Str ''Value '', Opnd A, Str '' not type '', TyName Ty0,
                                 Str '' in phi instruction. Found: '', TyName (getType A)] P1)
                   (\<lambda>P2. andThen (appendErrorInstruction Ty0 P2) (\<lambda>P3. Inr (None, P3)))
               else
                 (case vs of
                    [] \<Rightarrow> Inl UndefinedBehaviour
                  | b # rest \<Rightarrow>
                      andThen (getBasicBlock (to_u32 b) P1)
                        (\<lambda>(Block, P2).
                           PhiOperands rest Ty0 BaseIndex (PhiArgs @ [(A, Block)]) P2))))"

definition ProcessRecord_PHI :: "u32 \<Rightarrow> FunctionParser \<Rightarrow> fault + FunctionParser" where
  "ProcessRecord_PHI BaseIndex P =
     andThen (isValidRecordSizeAtLeast 3 ''phi'' P)
       (\<lambda>(ok, P1). if \<not> ok then Inr P1
          else
            andThen (getSimpleTypeByID (unat (to_u32 (Values (Record P) ! 0))) (Context P1))
              (\<lambda>(Ty0, C2).
                 let P2 = P1\<lparr>Context := C2\<rparr> in
                 if even (length (Values (Record P))) then
                   andThen (Error [Str ''function block phi record size not valid: '',
                                   UNum (length (Values (Record P)))] P2)
                     (appendErrorInstruction Ty0)
                 else if Ty0 = IceType_void then
                   Error [Str ''Phi record using type void not allowed''] P2
                 else if isIRGenerationDisabled P2 then
                   andThen (PhiOperands_disabled (drop 1 (Values (Record P))) BaseIndex P2)
                     (setNextLocalInstIndex None)
                 else
                   andThen (getNextInstVar Ty0 P2)
                     (\<lambda>(Dest, P3).
                        andThen (PhiOperands (drop 1 (Values (Record P))) Ty0 BaseIndex [] P3)
                          (\<lambda>(PhiArgs, P4).
                             case PhiArgs of
                               None \<Rightarrow> Inr P4
                             | Some As \<Rightarrow> Inr (appendToCurrentNode (InstPhi Dest As) P4)))))"

definition ProcessRecord_ALLOCA :: "u32 \<Rightarrow> FunctionParser \<Rightarrow> fault + FunctionParser" where
  "ProcessRecord_ALLOCA BaseIndex P =
     andThen (isValidRecordSize 2 ''alloca'' P)
       (\<lambda>(ok, P1). if \<not> ok then Inr P1
          else
            andThen (getRelativeOperand (to_u32 (Values (Record P) ! 0)) BaseIndex P1)
              (\<lambda>(ByteCount, P2).
                 andThen (extractAlignment ''Alloca'' (to_u32 (Values (Record P) ! 1)) P2)
                   (\<lambda>(Algn, P3).
                      if isIRGenerationDisabled P3 then
                        (if ByteCount = None then setNextLocalInstIndex None P3
                         else Inl AssertFailure)
                      else
                        andThen (deref ByteCount)
                          (\<lambda>B.
                             if getType B \<noteq> IceType_i32 then
                               andThen (Error [Str ''Alloca on non-i32 value. Found: '', Opnd B] P3)
                                 (appendErrorInstruction getPointerType)
                             else
                               andThen (getNextInstVar getPointerType P3)
                                 (\<lambda>(Dest, P4).
                                    Inr (appendToCurrentNode (InstAlloca B Algn Dest) P4))))))"

definition ProcessRecord_LOAD :: "u32 \<Rightarrow> FunctionParser \<Rightarrow> fault + FunctionParser" where
  "ProcessRecord_LOAD BaseIndex P =
     andThen (isValidRecordSize 3 ''load'' P)
       (\<lambda>(ok, P1). if \<not> ok then Inr P1
          else
            andThen (getRelativeOperand (to_u32 (Values (Record P) ! 0)) BaseIndex P1)
              (\<lambda>(Address, P2).
                 andThen (getSimpleTypeByID (unat (to_u32 (Values (Record P) ! 2))) (Context P2))
                   (\<lambda>(Ty0, C3).
                      andThen (extractAlignment ''Load'' (to_u32 (Values (Record P) ! 1))
                                 (P2\<lparr>Context := C3\<rparr>))
                        (\<lambda>(Algn, P4).
                           if isIRGenerationDisabled P4 then
                             (if Address = None then setNextLocalInstIndex None P4
                              else Inl AssertFailure)
                           else
                             andThen (deref Address)
                               (\<lambda>A.
                                  andThen (isValidPointerType A ''Load'' P4)
                                    (\<lambda>(okp, P5).
                                       if \<not> okp then appendErrorInstruction Ty0 P5
                                       else
                                         andThen (isValidLoadStoreAlignment (unat Algn) Ty0
                                                    ''Load'' P5)
                                           (\<lambda>(oka, P6).
                                              if \<not> oka then appendErrorInstruction Ty0 P6
                                              else
                                                andThen (getNextInstVar Ty0 P6)
                                                  (\<lambda>(Dest, P7).
                                                     Inr (appendToCurrentNode
                                                            (InstLoad Dest A Algn) P7)))))))))"

definition ProcessRecord_STORE :: "u32 \<Rightarrow> FunctionParser \<Rightarrow> fault + FunctionParser" where
  "ProcessRecord_STORE BaseIndex P =
     andThen (isValidRecordSize 3 ''store'' P)
       (\<lambda>(ok, P1). if \<not> ok then Inr P1
          else
            andThen (getRelativeOperand (to_u32 (Values (Record P) ! 0)) BaseIndex P1)
              (\<lambda>(Address, P2).
                 andThen (getRelativeOperand (to_u32 (Values (Record P) ! 1)) BaseIndex P2)
                   (\<lambda>(Val, P3).
                      andThen (extractAlignment ''Store'' (to_u32 (Values (Record P) ! 2)) P3)
                        (\<lambda>(Algn, P4).
                           if isIRGenerationDisabled P4 then
                             (if Address = None \<and> Val = None then Inr P4 else Inl AssertFailure)
                           else
                             andThen (deref Address)
                               (\<lambda>A. andThen (deref Val)
                                  (\<lambda>V.
                                     andThen (isValidPointerType A ''Store'' P4)
                                       (\<lambda>(okp, P5).
                                          if \<not> okp then Inr P5
                                          else
                                            andThen (isValidLoadStoreAlignment (unat Algn)
                                                       (getType V) ''Store'' P5)
                                              (\<lambda>(oka, P6).
                                                 if \<not> oka then Inr P6
                                                 else Inr (appendToCurrentNode
                                                             (InstStore V A Algn) P6)))))))))"

definition ProcessRecord_FORWARDTYPEREF :: "FunctionParser \<Rightarrow> fault + FunctionParser" where
  "ProcessRecord_FORWARDTYPEREF P =
     andThen (isValidRecordSize 2 ''forward type ref'' P)
       (\<lambda>(ok, P1). if \<not> ok then Inr P1
          else
            andThen (getSimpleTypeByID (unat (to_u32 (Values (Record P) ! 1))) (Context P1))
              (\<lambda>(OpType, C2).
                 let P2 = P1\<lparr>Context := C2\<rparr> in
                 if isIRGenerationDisabled P2
                 then setOperand (to_u32 (Values (Record P) ! 0)) None P2
                 else andThen (createInstVar OpType P2)
                        (\<lambda>(Var, P3). setOperand (to_u32 (Values (Record P) ! 0)) (Some Var) P3)))"

text \<open>
  Modelled from the spec: \<^verbatim>\<open>FullIntrinsicInfo::validateCall\<close> (IceIntrinsics.cpp, not
  among the sources): "Intrinsic call validation checks (in order): return type, argument
  count, argument types."
\<close>

datatype ValidateCallValue = IsValidCall | BadReturnType | WrongNumOfArgs | WrongCallArgType nat

fun firstMismatch :: "IceType list \<Rightarrow> Operand list \<Rightarrow> nat \<Rightarrow> nat option" where
  "firstMismatch (t # ts) (a # as) i =
     (if getType a \<noteq> t then Some i else firstMismatch ts as (i + 1))"
| "firstMismatch _ _ i = None"

definition getReturnTypeOfCall :: "Operand option \<Rightarrow> IceType" where
  "getReturnTypeOfCall Dest = (case Dest of None \<Rightarrow> IceType_void | Some D \<Rightarrow> getType D)"

definition validateCall ::
  "FullIntrinsicInfo \<Rightarrow> Operand option \<Rightarrow> Operand list \<Rightarrow> ValidateCallValue" where
  "validateCall Info Dest CallArgs =
     (if getReturnTypeOfCall Dest \<noteq> IntrinsicReturnType Info then BadReturnType
      else if length CallArgs \<noteq> length (IntrinsicArgTypes Info) then WrongNumOfArgs
      else case firstMismatch (IntrinsicArgTypes Info) CallArgs 0 of
             Some i \<Rightarrow> WrongCallArgType i
           | None \<Rightarrow> IsValidCall)"

text \<open>The loops over the parameters of a call, \<open>vs\<close> being the record values left.\<close>

fun CallParams_disabled :: "u64 list \<Rightarrow> u32 \<Rightarrow> FunctionParser \<Rightarrow> fault + FunctionParser" where
  "CallParams_disabled [] BaseIndex P = Inr P"
| "CallParams_disabled (v # vs) BaseIndex P =
     andThen (getRelativeOperand (to_u32 v) BaseIndex P)
       (\<lambda>(Opr, P'). if Opr \<noteq> None then Inl AssertFailure
                     else CallParams_disabled vs BaseIndex P')"

fun CallParams ::
  "u64 list \<Rightarrow> u32 \<Rightarrow> Operand list \<Rightarrow> FunctionParser
   \<Rightarrow> fault + (Operand list \<times> FunctionParser)" where
  "CallParams [] BaseIndex Params P = Inr (Params, P)"
| "CallParams (v # vs) BaseIndex Params P =
     andThen (getRelativeOperand (to_u32 v) BaseIndex P)
       (\<lambda>(Opr, P'). andThen (deref Opr)
          (\<lambda>A. CallParams vs BaseIndex (Params @ [A]) P'))"

text \<open>
  The part of the CALL case that finds the return type and the intrinsic: \<open>None\<close>
  stands for the \<^verbatim>\<open>return\<close> after an unknown intrinsic.
\<close>

definition CallReturnType ::
  "bool \<Rightarrow> u32 \<Rightarrow> FunctionParser
   \<Rightarrow> fault + ((IceType \<times> FullIntrinsicInfo option) option \<times> FunctionParser)" where
  "CallReturnType Indirect CalleeIndex P =
     (if \<not> Indirect then
        andThen (getFunctionByID (unat CalleeIndex) (Context P))
          (\<lambda>(Fcn, C1).
             let P1 = P\<lparr>Context := C1\<rparr>;
                 RetTy = ReturnType (FcnSignature (FunctionDeclarationList C1 ! Fcn));
                 Nm = FcnName (FunctionDeclarationList C1 ! Fcn)
             in
             if isStringPrefix Nm ''llvm.'' then
               (case IntrinsicsFind (TheTranslator C1) (drop (length ''llvm.'') Nm) of
                  None \<Rightarrow>
                    andThen (Error [Str ''Invalid PNaCl intrinsic call to '', Str Nm] P1)
                      (\<lambda>P2. andThen (appendErrorInstruction RetTy P2) (\<lambda>P3. Inr (None, P3)))
                | Some Info \<Rightarrow> Inr (Some (RetTy, Some Info), P1))
             else Inr (Some (RetTy, None), P1))
      else
        andThen (getSimpleTypeByID (unat (to_u32 (Values (Record P) ! 2))) (Context P))
          (\<lambda>(RetTy, C1). Inr (Some (RetTy, None), P\<lparr>Context := C1\<rparr>)))"

definition reportValidateCall ::
  "FullIntrinsicInfo \<Rightarrow> Operand option \<Rightarrow> Operand list \<Rightarrow> FunctionParser
   \<Rightarrow> fault + FunctionParser" where
  "reportValidateCall Info Dest CallArgs P =
     (case validateCall Info Dest CallArgs of
        IsValidCall \<Rightarrow> Inr P
      | BadReturnType \<Rightarrow>
          Error [Str ''Intrinsic call expects return type '', TyName (IntrinsicReturnType Info),
                 Str ''. Found: '', TyName (getReturnTypeOfCall Dest)] P
      | WrongNumOfArgs \<Rightarrow>
          Error [Str ''Intrinsic call expects '', UNum (length (IntrinsicArgTypes Info)),
                 Str ''. Found: '', UNum (length CallArgs)] P
      | WrongCallArgType i \<Rightarrow>
          Error [Str ''Intrinsic call argument '', UNum i, Str '' expects type '',
                 TyName (IntrinsicArgTypes Info ! i), Str ''. Found: '',
                 TyName (getType (CallArgs ! i))] P)"

definition ProcessRecord_CALL :: "bool \<Rightarrow> u32 \<Rightarrow> FunctionParser \<Rightarrow> fault + FunctionParser" where
  "ProcessRecord_CALL Indirect BaseIndex P =
     andThen (if \<not> Indirect then isValidRecordSizeAtLeast 2 ''call'' P
              else isValidRecordSizeAtLeast 3 ''call indirect'' P)
       (\<lambda>(ok, P1). if \<not> ok then Inr P1
          else
            andThen (convertRelativeToAbsIndex (to_u32 (Values (Record P) ! 1)) BaseIndex P1)
              (\<lambda>(CalleeIndex, P2).
                 andThen (getOperand CalleeIndex P2)
                   (\<lambda>(Callee, P3).
                      andThen (CallReturnType Indirect CalleeIndex P3)
                        (\<lambda>(r, P4).
                           case r of
                             None \<Rightarrow> Inr P4
                           | Some (RetTy, IntrinsicInfo) \<Rightarrow>
                               (case DecodeCallingConv (TheTranslator (Context P4))
                                       (drop_bit 1 (Values (Record P) ! 0)) of
                                  None \<Rightarrow>
                                    andThen
                                      (Error [Str ''Function call calling convention value '',
                                              UNum (unat (drop_bit 1 (Values (Record P) ! 0))),
                                              Str '' not understood.''] P4)
                                      (appendErrorInstruction RetTy)
                                | Some CallingConv \<Rightarrow>
                                    if isIRGenerationDisabled P4 then
                                      (if Callee \<noteq> None then Inl AssertFailure
                                       else
                                         andThen (CallParams_disabled
                                                    (drop (if Indirect then 3 else 2)
                                                       (Values (Record P))) BaseIndex P4)
                                           (\<lambda>P5. if RetTy \<noteq> IceType_void
                                                  then setNextLocalInstIndex None P5
                                                  else Inr P5))
                                    else
                                      andThen
                                        (if RetTy = IceType_void then Inr (None, P4)
                                         else andThen (getNextInstVar RetTy P4)
                                                (\<lambda>(D, P'). Inr (Some D, P')))
                                        (\<lambda>(Dest, P5).
                                           andThen (deref Callee)
                                             (\<lambda>Cal.
                                                andThen (CallParams
                                                           (drop (if Indirect then 3 else 2)
                                                              (Values (Record P)))
                                                           BaseIndex [] P5)
                                                  (\<lambda>(Params, P6).
                                                     case IntrinsicInfo of
                                                       None \<Rightarrow>
                                                         Inr (appendToCurrentNode
                                                                (InstCall Dest Cal Params
                                                                   (Values (Record P) ! 0 AND 1 \<noteq> 0))
                                                                P6)
                                                     | Some Info \<Rightarrow>
                                                         andThen (reportValidateCall Info Dest
                                                                    Params P6)
                                                           (\<lambda>P7.
                                                              Inr (appendToCurrentNode
                                                                     (InstIntrinsicCall Dest Cal
                                                                        Params Info) P7))))))))))"

text \<open>
  \<^verbatim>\<open>FunctionParser::ProcessRecord\<close>: after a terminator the next record, whatever its
  code, moves to the next basic block; then the record is dispatched on its code.
\<close>

definition FunctionParser_ProcessRecord :: "FunctionParser \<Rightarrow> fault + FunctionParser" where
  "FunctionParser_ProcessRecord P =
     andThen
       (if InstIsTerminating P then
          (if \<not> isIRGenerationDisabled P then
             andThen (getBasicBlock (CurrentBbIndex P + 1)
                        (P\<lparr>InstIsTerminating := False, CurrentBbIndex := CurrentBbIndex P + 1\<rparr>))
               (\<lambda>(Block, P'). Inr (P'\<lparr>CurrentNode := Block\<rparr>))
           else Inr (P\<lparr>InstIsTerminating := False\<rparr>))
        else Inr P)
       (\<lambda>P1.
          let BaseIndex = NextLocalInstIndex P1; Cd = Code (Record P1) in
          if Cd = FUNC_CODE_DECLAREBLOCKS then ProcessRecord_DECLAREBLOCKS P1
          else if Cd = FUNC_CODE_INST_BINOP then ProcessRecord_BINOP BaseIndex P1
          else if Cd = FUNC_CODE_INST_CAST then ProcessRecord_CAST BaseIndex P1
          else if Cd = FUNC_CODE_INST_VSELECT then ProcessRecord_VSELECT BaseIndex P1
          else if Cd = FUNC_CODE_INST_EXTRACTELT then ProcessRecord_EXTRACTELT BaseIndex P1
          else if Cd = FUNC_CODE_INST_INSERTELT then ProcessRecord_INSERTELT BaseIndex P1
          else if Cd = FUNC_CODE_INST_CMP2 then ProcessRecord_CMP2 BaseIndex P1
          else if Cd = FUNC_CODE_INST_RET then ProcessRecord_RET BaseIndex P1
          else if Cd = FUNC_CODE_INST_BR then ProcessRecord_BR BaseIndex P1
          else if Cd = FUNC_CODE_INST_SWITCH then ProcessRecord_SWITCH BaseIndex P1
          else if Cd = FUNC_CODE_INST_UNREACHABLE then ProcessRecord_UNREACHABLE P1
          else if Cd = FUNC_CODE_INST_PHI then ProcessRecord_PHI BaseIndex P1
          else if Cd = FUNC_CODE_INST_ALLOCA then ProcessRecord_ALLOCA BaseIndex P1
          else if Cd = FUNC_CODE_INST_LOAD then ProcessRecord_LOAD BaseIndex P1
          else if Cd = FUNC_CODE_INST_STORE then ProcessRecord_STORE BaseIndex P1
          else if Cd = FUNC_CODE_INST_CALL then ProcessRecord_CALL False BaseIndex P1
          else if Cd = FUNC_CODE_INST_CALL_INDIRECT then ProcessRecord_CALL True BaseIndex P1
          else if Cd = FUNC_CODE_INST_FORWARDTYPEREF then ProcessRecord_FORWARDTYPEREF P1
          else BlockParserBaseClass_ProcessRecord P1)"

subsection \<open>FunctionParser::ExitBlock\<close>

text \<open>
  The loop over the nodes of the function, \<open>is\<close> being the indices of the nodes still
  to visit: a node without instructions is reported and gets an \<^verbatim>\<open>unreachable\<close>.
\<close>

fun PatchEmptyNodes :: "nat list \<Rightarrow> FunctionParser \<Rightarrow> fault + FunctionParser" where
  "PatchEmptyNodes [] P = Inr P"
| "PatchEmptyNodes (Index # is) P =
     (if Nodes (Func P) ! Index = [] then
        andThen (Error [Str ''Basic block '', UNum Index, Str '' contains no instructions''] P)
          (\<lambda>P'. PatchEmptyNodes is (P'\<lparr>Func := appendInst Index InstUnreachable (Func P')\<rparr>))
      else PatchEmptyNodes is P)"

text \<open>
  \<^verbatim>\<open>Translator::translateFcn\<close> is not among the sources; handing the function to it is
  recorded in \<open>TranslatedFcns\<close>.
\<close>

definition FunctionParser_ExitBlock :: "FunctionParser \<Rightarrow> fault + FunctionParser" where
  "FunctionParser_ExitBlock P =
     (if isIRGenerationDisabled P then Inr P
      else
        andThen (PatchEmptyNodes [0 ..< length (Nodes (Func P))] P)
          (\<lambda>P1.
             let P2 = P1\<lparr>Func := computePredecessors (Func P1)\<rparr> in
             if NumErrors (Context P2) = 0
             then Inr (P2\<lparr>Context := (Context P2)
                          \<lparr>TranslatedFcns := TranslatedFcns (Context P2) @ [Func P2]\<rparr>\<rparr>)
             else Inr P2))"

subsection \<open>The constructor of FunctionParser\<close>

definition getNextFunctionBlockValueID :: "TopLevelParser \<Rightarrow> fault + (nat \<times> TopLevelParser)" where
  "getNextFunctionBlockValueID C =
     (if NumFunctionBlocks C \<ge> length (DefiningFunctionDeclarationsList C)
      then Inl (FatalError (ErrStream C))
      else Inr (DefiningFunctionDeclarationsList C ! NumFunctionBlocks C,
                C\<lparr>NumFunctionBlocks := NumFunctionBlocks C + 1\<rparr>))"

definition Cfg_new :: Cfg where
  "Cfg_new = \<lparr>FunctionName = [], CfgReturnType = IceType_void, IsInternal = False, Nodes = [],
              EntryNode = None, NumVariables = 0, Args = [], InEdges = []\<rparr>"

text \<open>The two loops of the constructor over the argument types of the signature.\<close>

fun addArgs :: "IceType list \<Rightarrow> FunctionParser \<Rightarrow> fault + FunctionParser" where
  "addArgs [] P = Inr P"
| "addArgs (ArgType # ts) P =
     andThen (getNextInstVar ArgType P)
       (\<lambda>(Var, P'). addArgs ts (P'\<lparr>Func := (Func P')\<lparr>Args := Args (Func P') @ [Var]\<rparr>\<rparr>))"

fun addArgs_disabled :: "IceType list \<Rightarrow> FunctionParser \<Rightarrow> fault + FunctionParser" where
  "addArgs_disabled [] P = Inr P"
| "addArgs_disabled (ArgType # ts) P =
     andThen (setNextLocalInstIndex None P) (addArgs_disabled ts)"

definition FunctionParser_new :: "TopLevelParser \<Rightarrow> fault + FunctionParser" where
  "FunctionParser_new C0 =
     andThen (getNextFunctionBlockValueID C0)
       (\<lambda>(Fid, C1).
          andThen (getFunctionByID Fid C1)
            (\<lambda>(Decl, C2).
               let P = \<lparr>Context = C2, Record = \<lparr>Code = 0, Values = []\<rparr>, BlockName = ''function'',
                        Func = Cfg_new, CurrentBbIndex = 0, CurrentNode = 0, FcnId = Fid,
                        FuncDecl = Decl, CachedNumGlobalValueIDs = of_nat (getNumGlobalIDs C2),
                        LocalOperands = [], NextLocalInstIndex = of_nat (getNumGlobalIDs C2),
                        InstIsTerminating = False\<rparr>;
                   Sig = FcnSignature (FunctionDeclarationList C2 ! Decl)
               in
               if isIRGenerationDisabled P then addArgs_disabled (ArgList Sig) P
               else
                 andThen
                   (InstallNextBasicBlock
                      (P\<lparr>Func := (Func P)
                           \<lparr>FunctionName := FcnName (FunctionDeclarationList C2 ! Decl),
                            CfgReturnType := ReturnType Sig,
                            IsInternal := FcnInternalLinkage (FunctionDeclarationList C2 ! Decl)\<rparr>\<rparr>))
                   (\<lambda>(Entry, P1).
                      addArgs (ArgList Sig)
                        (P1\<lparr>CurrentNode := Entry,
                            Func := (Func P1)\<lparr>EntryNode := Some Entry\<rparr>\<rparr>))))"

subsection \<open>Constructors and the record loop\<close>

text \<open>
  The constructors of \<^verbatim>\<open>TopLevelParser\<close>, \<^verbatim>\<open>TypesParser\<close> and \<^verbatim>\<open>GlobalsParser\<close>.
\<close>

definition TopLevelParser_new :: "Translator \<Rightarrow> bool \<Rightarrow> bool \<Rightarrow> TopLevelParser" where
  "TopLevelParser_new T recover disableIR =
     \<lparr>AllowErrorRecovery = recover, DisableIRGeneration = disableIR, TheTranslator = T,
      ErrorStatus = False, NumErrors = 0, ErrStream = [], TypeIDValues = [],
      FunctionDeclarationList = [], VariableDeclarations = [], ValueIDConstants = [],
      NumFunctionIds = 0, NumFunctionBlocks = 0, DefiningFunctionDeclarationsList = [],
      TranslatedFcns = []\<rparr>"

definition TypesParser_new :: "TopLevelParser \<Rightarrow> TypesParser" where
  "TypesParser_new C =
     \<lparr>Context = C, Record = \<lparr>Code = 0, Values = []\<rparr>, BlockName = ''type'', NextTypeId = 0\<rparr>"

definition GlobalsParser_new :: "TopLevelParser \<Rightarrow> GlobalsParser" where
  "GlobalsParser_new C =
     \<lparr>Context = C, Record = \<lparr>Code = 0, Values = []\<rparr>, BlockName = ''globals'',
      InitializersNeeded = 0, NextGlobalID = 0, DummyGlobalVar = VariableDeclaration_create,
      CurGlobalVar = Dummy\<rparr>"

text \<open>
  Modelled from the spec: the loop of the bitstream reader (\<^verbatim>\<open>ParseThisBlock\<close> of the
  bitcode library, not among the sources), which "yields records" of a block one by one
  and calls \<^verbatim>\<open>ProcessRecord\<close> on each.
\<close>

fun ProcessRecords ::
  "('a BlockParserBaseClass_scheme \<Rightarrow> fault + 'a BlockParserBaseClass_scheme)
   \<Rightarrow> NaClBitcodeRecord list \<Rightarrow> 'a BlockParserBaseClass_scheme
   \<Rightarrow> fault + 'a BlockParserBaseClass_scheme" where
  "ProcessRecords step [] P = Inr P"
| "ProcessRecords step (r # rs) P =
     andThen (step (P\<lparr>Record := r\<rparr>)) (ProcessRecords step rs)"

text \<open>
  A translator for the concrete runs of this theory: an empty intrinsic registry, the
  calling convention 0, and the width of a type as its alignment.
\<close>

definition exampleTranslator :: Translator where
  "exampleTranslator =
     \<lparr>IntrinsicsFind = (\<lambda>n. None),
      DecodeCallingConv = (\<lambda>v. if v = 0 then Some 0 else None),
      typeAlignInBytes = typeWidthInBytes\<rparr>"

text \<open>
  A context for the concrete runs: the type table \<open>[void, i32, f64, i64, i32 (i32)]\<close> and
  one function declaration \<open>f\<close> of the signature \<open>i32 (i32)\<close> with a function block.
  \<open>exampleFunctionParser\<close> is the state of the function parser after its constructor has
  run on this context: one global ID (the function), the argument of \<open>f\<close> as the value
  with index 1, and 2 as the next-instruction index.
\<close>

definition exampleContext :: "bool \<Rightarrow> TopLevelParser" where
  "exampleContext recover =
     (TopLevelParser_new exampleTranslator recover False)
       \<lparr>TypeIDValues :=
          [\<lparr>Kind = Simple, Signature = \<lparr>ReturnType = IceType_void, ArgList = []\<rparr>\<rparr>,
           \<lparr>Kind = Simple, Signature = \<lparr>ReturnType = IceType_i32, ArgList = []\<rparr>\<rparr>,
           \<lparr>Kind = Simple, Signature = \<lparr>ReturnType = IceType_f64, ArgList = []\<rparr>\<rparr>,
           \<lparr>Kind = Simple, Signature = \<lparr>ReturnType = IceType_i64, ArgList = []\<rparr>\<rparr>,
           \<lparr>Kind = FuncSig, Signature = \<lparr>ReturnType = IceType_i32, ArgList = [IceType_i32]\<rparr>\<rparr>],
        FunctionDeclarationList :=
          [\<lparr>FcnName = ''f'', FcnSignature = \<lparr>ReturnType = IceType_i32, ArgList = [IceType_i32]\<rparr>,
            FcnInternalLinkage = False, FcnSuppressMangling = False\<rparr>],
        NumFunctionIds := 1,
        DefiningFunctionDeclarationsList := [0]\<rparr>"

definition exampleFunctionParser :: "bool \<Rightarrow> FunctionParser" where
  "exampleFunctionParser recover =
     \<lparr>Context = (exampleContext recover)\<lparr>NumFunctionBlocks := 1\<rparr>,
      Record = \<lparr>Code = 0, Values = []\<rparr>, BlockName = ''function'',
      Func = \<lparr>FunctionName = ''f'', CfgReturnType = IceType_i32, IsInternal = False,
               Nodes = [[]], EntryNode = Some 0, NumVariables = 1,
               Args = [Variable 0 IceType_i32], InEdges = []\<rparr>,
      CurrentBbIndex = 0, CurrentNode = 0, FcnId = 0, FuncDecl = 0,
      CachedNumGlobalValueIDs = 1, LocalOperands = [Some (Variable 0 IceType_i32)],
      NextLocalInstIndex = 2, InstIsTerminating = False\<rparr>"

definition exampleGlobalsParser :: GlobalsParser where
  "exampleGlobalsParser =
     GlobalsParser_new
       ((TopLevelParser_new exampleTranslator True False)
          \<lparr>VariableDeclarations := [VariableDeclaration_create]\<rparr>)"

subsection \<open>Messages named by the theorems\<close>


text \<open>The message built by \<^verbatim>\<open>extractAlignment\<close> for a power above \<^verbatim>\<open>AlignPowerLimit\<close>.\<close>

definition alignmentTooLarge :: "string \<Rightarrow> u32 \<Rightarrow> message" where
  "alignmentTooLarge InstName AlignPower =
     [Str InstName, Str '' alignment greater than 2**'', UNum (unat AlignPowerLimit),
      Str ''. Found: 2**'', UNum (unat AlignPower)]"

text \<open>The two messages of the \<^verbatim>\<open>DECLAREBLOCKS\<close> record.\<close>

definition noBasicBlock :: message where
  "noBasicBlock = [Str ''Functions must contain at least one basic block.'']"

definition duplicateBlockCount :: message where
  "duplicateBlockCount = [Str ''Duplicate function block count record'']"

text \<open>
  The message built by \<^verbatim>\<open>convertCastOpToIceOp\<close> for a cast that is not valid, and the one
  built by \<^verbatim>\<open>getNextInstVar\<close> for a forward reference of another type.
\<close>

definition illegalCast :: "CastKind \<Rightarrow> IceType \<Rightarrow> IceType \<Rightarrow> message" where
  "illegalCast CastKnd SourceType TargetType =
     [Str ''Illegal cast: '', Str (getCastName CastKnd), Str '' '', TyName SourceType,
      Str '' to '', TyName TargetType]"

definition illegalForwardReference :: "u32 \<Rightarrow> Operand \<Rightarrow> message" where
  "illegalForwardReference Index Opr =
     [Str ''Illegal forward referenced instruction ('', UNum (unat Index), Str ''): '', Opnd Opr]"

text \<open>The message of \<^verbatim>\<open>ExitBlock\<close> for a basic block without instructions.\<close>

definition emptyBlock :: "nat \<Rightarrow> message" where
  "emptyBlock Index = [Str ''Basic block '', UNum Index, Str '' contains no instructions'']"

chapter \<open>Theorems\<close>

lemma andThen_simps [simp]: "andThen (Inl e) f = Inl e" "andThen (Inr x) f = f x"
  by (simp_all add: andThen_def)

section \<open>C2: the flexible-immediate encoder\<close>

lemma canHoldImm_loop_ge: "16 \<le> r \<Longrightarrow> canHoldImm_loop v r = None"
  by (simp add: canHoldImm_loop.simps [of v r])

lemma canHoldImm_loop_hit:
  "r < 16 \<Longrightarrow> word_rotl (2 * r) v \<le> 0xFF \<Longrightarrow>
   canHoldImm_loop v r = Some (of_nat r, word_rotl (2 * r) v)"
  by (simp add: canHoldImm_loop.simps [of v r] rotateLeft32_def)

lemma canHoldImm_loop_miss:
  "r < 16 \<Longrightarrow> \<not> word_rotl (2 * r) v \<le> 0xFF \<Longrightarrow>
   canHoldImm_loop v r = canHoldImm_loop v (Suc r)"
  by (simp add: canHoldImm_loop.simps [of v r] rotateLeft32_def)

lemma canHoldImm_loop_None:
  "canHoldImm_loop v r = None \<longleftrightarrow>
   (\<forall>k. r \<le> k \<and> k < 16 \<longrightarrow> \<not> word_rotl (2 * k) v \<le> 0xFF)"
proof (induction "16 - r" arbitrary: r)
  case 0
  then have "16 \<le> r" by simp
  then show ?case by (auto simp: canHoldImm_loop_ge)
next
  case (Suc n)
  then have lt: "r < 16" and n: "n = 16 - Suc r" by simp_all
  show ?case
  proof (cases "word_rotl (2 * r) v \<le> 0xFF")
    case True
    then show ?thesis using lt by (auto simp: canHoldImm_loop_hit)
  next
    case False
    have "(\<forall>k. Suc r \<le> k \<and> k < 16 \<longrightarrow> \<not> word_rotl (2 * k) v \<le> 0xFF)
        \<longleftrightarrow> (\<forall>k. r \<le> k \<and> k < 16 \<longrightarrow> \<not> word_rotl (2 * k) v \<le> 0xFF)"
    proof
      assume h: "\<forall>k. Suc r \<le> k \<and> k < 16 \<longrightarrow> \<not> word_rotl (2 * k) v \<le> 0xFF"
      show "\<forall>k. r \<le> k \<and> k < 16 \<longrightarrow> \<not> word_rotl (2 * k) v \<le> 0xFF"
      proof (intro allI impI)
        fix k assume k: "r \<le> k \<and> k < 16"
        show "\<not> word_rotl (2 * k) v \<le> 0xFF"
        proof (cases "k = r")
          case True
          then show ?thesis using False by simp
        next
          case neq: False
          then have "Suc r \<le> k" using k by simp
          then show ?thesis using h k by blast
        qed
      qed
    next
      assume h: "\<forall>k. r \<le> k \<and> k < 16 \<longrightarrow> \<not> word_rotl (2 * k) v \<le> 0xFF"
      show "\<forall>k. Suc r \<le> k \<and> k < 16 \<longrightarrow> \<not> word_rotl (2 * k) v \<le> 0xFF"
        using h by (simp add: Suc_le_eq)
    qed
    then show ?thesis
      using Suc.hyps(1) [OF n] canHoldImm_loop_miss [OF lt False] by simp
  qed
qed

lemma unat_Rot: "r < 16 \<Longrightarrow> unat (of_nat r :: u32) = r"
  by (simp add: unat_of_nat)

lemma canHoldImm_loop_Some:
  "canHoldImm_loop v r = Some (rot, imm) \<Longrightarrow>
   r \<le> unat rot \<and> unat rot < 16 \<and> imm = word_rotl (2 * unat rot) v \<and> imm \<le> 0xFF"
proof (induction "16 - r" arbitrary: r)
  case 0
  then have "16 \<le> r" by simp
  then show ?case using 0 by (simp add: canHoldImm_loop_ge)
next
  case (Suc n)
  then have lt: "r < 16" and n: "n = 16 - Suc r" by simp_all
  show ?case
  proof (cases "word_rotl (2 * r) v \<le> 0xFF")
    case True
    then have "rot = of_nat r" "imm = word_rotl (2 * r) v"
      using Suc.prems lt by (simp_all add: canHoldImm_loop_hit)
    then show ?thesis using lt True by (simp add: unat_Rot)
  next
    case False
    then have "canHoldImm_loop v (Suc r) = Some (rot, imm)"
      using Suc.prems lt by (simp add: canHoldImm_loop_miss)
    from Suc.hyps(1) [OF n this] show ?thesis by auto
  qed
qed

lemma even_le_30: "even (a::nat) \<Longrightarrow> a \<le> 30 \<Longrightarrow> \<exists>k<16. a = 2 * k"
  by (auto elim!: evenE)

lemma word_rotr_zero: "word_rotr 0 (v :: u32) = v"
  by (rule bit_word_eqI) (simp add: bit_word_rotr_iff)

lemma word_rotl_zero: "word_rotl 0 (v :: u32) = v"
  by (rule bit_word_eqI) (simp add: bit_word_rotl_iff)

text \<open>
  Claim C2.  For every 32-bit immediate \<open>v\<close>, \<open>canHoldImm\<close> returns true exactly when
  rotating \<open>v\<close> left by some even amount in \<open>[0, 30]\<close> gives a value of at most \<open>0xFF\<close>;
  whenever it returns true with the outputs \<open>(RotateAmt, Immed_8)\<close>, the output
  \<open>Immed_8\<close> is at most \<open>0xFF\<close>, \<open>RotateAmt\<close> is at most 15, and rotating \<open>Immed_8\<close>
  right by \<open>2 * RotateAmt\<close> gives \<open>v\<close> back; and for \<open>v \<le> 0xFF\<close> the rotation chosen is 0.
\<close>

theorem canHoldImm_iff_roundtrip:
  "(canHoldImm v \<noteq> None \<longleftrightarrow> (\<exists>a. even a \<and> a \<le> 30 \<and> word_rotl a v \<le> 0xFF))
   \<and> (\<forall>rot imm. canHoldImm v = Some (rot, imm) \<longrightarrow>
         imm \<le> 0xFF \<and> unat rot \<le> 15 \<and> word_rotr (2 * unat rot) imm = v)
   \<and> (v \<le> 0xFF \<longrightarrow> canHoldImm v = Some (0, v))"
proof (intro conjI)
  show "canHoldImm v \<noteq> None \<longleftrightarrow> (\<exists>a. even a \<and> a \<le> 30 \<and> word_rotl a v \<le> 0xFF)"
  proof (cases "v \<le> 0xFF")
    case True
    have "even (0::nat) \<and> (0::nat) \<le> 30 \<and> word_rotl 0 v \<le> 0xFF" using True by (simp add: word_rotl_zero)
    then have "\<exists>a. even a \<and> a \<le> 30 \<and> word_rotl a v \<le> 0xFF" by blast
    then show ?thesis using True by (simp add: canHoldImm_def)
  next
    case False
    have "(\<exists>a. even a \<and> a \<le> 30 \<and> word_rotl a v \<le> 0xFF)
        \<longleftrightarrow> (\<exists>k. 1 \<le> k \<and> k < 16 \<and> word_rotl (2 * k) v \<le> 0xFF)"
    proof
      assume "\<exists>a. even a \<and> a \<le> 30 \<and> word_rotl a v \<le> 0xFF"
      then obtain a where a: "even a" "a \<le> 30" "word_rotl a v \<le> 0xFF" by blast
      then obtain k where k: "k < 16" "a = 2 * k" using even_le_30 by blast
      have "k \<noteq> 0"
      proof
        assume "k = 0"
        then have "word_rotl a v = v" using k by (simp add: word_rotl_zero)
        then show False using a(3) False by simp
      qed
      then have "1 \<le> k \<and> k < 16 \<and> word_rotl (2 * k) v \<le> 0xFF"
        using a k by simp
      then show "\<exists>k. 1 \<le> k \<and> k < 16 \<and> word_rotl (2 * k) v \<le> 0xFF" by blast
    next
      assume "\<exists>k. 1 \<le> k \<and> k < 16 \<and> word_rotl (2 * k) v \<le> 0xFF"
      then obtain k where k: "1 \<le> k" "k < 16" "word_rotl (2 * k) v \<le> 0xFF" by blast
      have "even (2 * k) \<and> 2 * k \<le> 30 \<and> word_rotl (2 * k) v \<le> 0xFF" using k by simp
      then show "\<exists>a. even a \<and> a \<le> 30 \<and> word_rotl a v \<le> 0xFF" by blast
    qed
    moreover have "canHoldImm v \<noteq> None \<longleftrightarrow> (\<exists>k. 1 \<le> k \<and> k < 16 \<and> word_rotl (2 * k) v \<le> 0xFF)"
      using False canHoldImm_loop_None [of v 1] by (auto simp: canHoldImm_def)
    ultimately show ?thesis by simp
  qed
next
  show "\<forall>rot imm. canHoldImm v = Some (rot, imm) \<longrightarrow>
         imm \<le> 0xFF \<and> unat rot \<le> 15 \<and> word_rotr (2 * unat rot) imm = v"
  proof (intro allI impI)
    fix rot imm assume h: "canHoldImm v = Some (rot, imm)"
    show "imm \<le> 0xFF \<and> unat rot \<le> 15 \<and> word_rotr (2 * unat rot) imm = v"
    proof (cases "v \<le> 0xFF")
      case True
      then have "rot = 0" "imm = v" using h by (simp_all add: canHoldImm_def)
      then show ?thesis using True by (simp add: word_rotr_zero)
    next
      case False
      then have "canHoldImm_loop v 1 = Some (rot, imm)" using h by (simp add: canHoldImm_def)
      from canHoldImm_loop_Some [OF this] show ?thesis by auto
    qed
  qed
next
  show "v \<le> 0xFF \<longrightarrow> canHoldImm v = Some (0, v)" by (simp add: canHoldImm_def)
qed

theorem canHoldImm_iff_roundtrip_witness:
  "canHoldImm 0xFF00 = Some (12, 0xFF) \<and> word_rotr (2 * unat (12 :: u32)) 0xFF = (0xFF00 :: u32)
   \<and> canHoldImm 0x2A = Some (0, 0x2A) \<and> canHoldImm 0x101 = None"
proof -
  have a: "canHoldImm 0xFF00 = Some (12, 0xFF)" by code_simp
  have b: "canHoldImm 0x101 = None" by code_simp
  have c: "(0x2A :: u32) \<le> 0xFF" by simp
  show ?thesis
    using canHoldImm_iff_roundtrip [of "0xFF00"] canHoldImm_iff_roundtrip [of "0x2A"] a b c
    by simp
qed

section \<open>C3: branch optimisation\<close>

text \<open>
  Claim C3, as amended.  Let the branch be no intra-block (label) branch and let \<open>n\<close>
  be the layout successor.  \<open>optimizeBranch\<close> marks an unconditional branch to \<open>n\<close> as
  deleted; it clears the false target of a conditional branch whose false target is \<open>n\<close>;
  and for a conditional branch whose true target is \<open>n\<close> and whose false target is another
  node \<open>f\<close> it makes \<open>f\<close> the true target, clears the false target and inverts the
  predicate; each time it returns true.  A second application with the same successor
  leaves the instruction as the first application left it; it returns false, except for the
  unconditional branch to \<open>n\<close>, where it marks the deleted instruction again and returns
  true.  The statement holds for every condition-opposite table \<open>opp\<close>.
\<close>

theorem optimizeBranch_cases_idempotent:
  assumes "Label br = None"
  shows "(Predicate br = AL \<and> TargetTrue br = None \<and> TargetFalse br = Some n \<longrightarrow>
           optimizeBranch opp (Some n) br = Inr (True, br\<lparr>Deleted := True\<rparr>))
       \<and> (Predicate br \<noteq> AL \<and> TargetFalse br = Some n \<longrightarrow>
           optimizeBranch opp (Some n) br = Inr (True, br\<lparr>TargetFalse := None\<rparr>))
       \<and> (Predicate br \<noteq> AL \<and> TargetTrue br = Some n \<and> TargetFalse br = Some f \<and> f \<noteq> n \<longrightarrow>
           optimizeBranch opp (Some n) br =
             Inr (True, br\<lparr>Predicate := opp (Predicate br), TargetTrue := Some f,
                            TargetFalse := None\<rparr>))
       \<and> (\<forall>r br'. optimizeBranch opp (Some n) br = Inr (r, br') \<longrightarrow>
           optimizeBranch opp (Some n) br' =
             Inr (Predicate br = AL \<and> TargetFalse br = Some n, br'))"
  using assms
  by (auto simp: optimizeBranch_def isUnconditionalBranch_def split: if_splits)

theorem optimizeBranch_cases_idempotent_witness:
  "optimizeBranch getOppositeCondition (Some 2)
     \<lparr>TargetTrue = Some 2, TargetFalse = Some 3, Label = None, Predicate = EQ, Deleted = False\<rparr>
   = Inr (True,
     \<lparr>TargetTrue = Some 3, TargetFalse = None, Label = None, Predicate = NE, Deleted = False\<rparr>)
   \<and> optimizeBranch getOppositeCondition (Some 2)
     \<lparr>TargetTrue = Some 3, TargetFalse = None, Label = None, Predicate = NE, Deleted = False\<rparr>
   = Inr (False,
     \<lparr>TargetTrue = Some 3, TargetFalse = None, Label = None, Predicate = NE, Deleted = False\<rparr>)"
proof -
  let ?br = "\<lparr>TargetTrue = Some 2, TargetFalse = Some 3, Label = None, Predicate = EQ, Deleted = False\<rparr>"
  let ?br' = "\<lparr>TargetTrue = Some 3, TargetFalse = None, Label = None, Predicate = NE, Deleted = False\<rparr>"
  have l: "Label ?br = None" by simp
  note T = optimizeBranch_cases_idempotent [OF l, where n = 2 and f = 3 and opp = getOppositeCondition]
  have pre: "Predicate ?br \<noteq> AL \<and> TargetTrue ?br = Some 2 \<and> TargetFalse ?br = Some 3 \<and> (3::nat) \<noteq> 2"
    by simp
  have a: "optimizeBranch getOppositeCondition (Some 2) ?br =
             Inr (True, ?br\<lparr>Predicate := getOppositeCondition (Predicate ?br), TargetTrue := Some 3,
                            TargetFalse := None\<rparr>)"
    using T [THEN conjunct2, THEN conjunct2, THEN conjunct1, THEN mp, OF pre] .
  have a': "optimizeBranch getOppositeCondition (Some 2) ?br = Inr (True, ?br')"
    by (simp add: a)
  have b: "optimizeBranch getOppositeCondition (Some 2) ?br' =
             Inr (Predicate ?br = AL \<and> TargetFalse ?br = Some 2, ?br')"
    using T [THEN conjunct2, THEN conjunct2, THEN conjunct2, THEN spec, THEN spec, THEN mp, OF a'] .
  have b': "optimizeBranch getOppositeCondition (Some 2) ?br' = Inr (False, ?br')"
    by (simp add: b)
  show ?thesis using a' b' by (rule conjI)
qed

text \<open>
  The claim as stated fails: after an unconditional branch to the successor has been
  deleted, the second application returns true, not false.  It also fails for a
  conditional branch without a false target whose true target is the successor: nothing
  is swapped.
\<close>

theorem optimizeBranch_second_counterexample:
  "optimizeBranch getOppositeCondition (Some 2)
     \<lparr>TargetTrue = None, TargetFalse = Some 2, Label = None, Predicate = AL, Deleted = False\<rparr>
   = Inr (True,
     \<lparr>TargetTrue = None, TargetFalse = Some 2, Label = None, Predicate = AL, Deleted = True\<rparr>)
   \<and> optimizeBranch getOppositeCondition (Some 2)
     \<lparr>TargetTrue = None, TargetFalse = Some 2, Label = None, Predicate = AL, Deleted = True\<rparr>
   = Inr (True,
     \<lparr>TargetTrue = None, TargetFalse = Some 2, Label = None, Predicate = AL, Deleted = True\<rparr>)
   \<and> optimizeBranch getOppositeCondition (Some 2)
     \<lparr>TargetTrue = Some 2, TargetFalse = None, Label = None, Predicate = EQ, Deleted = False\<rparr>
   = Inr (False,
     \<lparr>TargetTrue = Some 2, TargetFalse = None, Label = None, Predicate = EQ, Deleted = False\<rparr>)"
  by (simp add: optimizeBranch_def isUnconditionalBranch_def)

section \<open>C5: FUNCTION records of the types block\<close>

text \<open>
  Claim C5 fails on the code for a parameter whose type is \<open>void\<close>.  The types block
  NUMENTRY(2), VOID, FUNCTION(0, 0, 0) defines type 0 as \<open>void\<close> and type 1 as a function
  type whose only parameter has type 0.  The parser stores the signature with the
  parameter type \<open>i32\<close>, but reports no error: the error count is 0, the error status is
  unset and nothing is written to the error stream.
\<close>

theorem TypesParser_void_parameter_not_reported:
  "case ProcessRecords TypesParser_ProcessRecord
     [\<lparr>Code = TYPE_CODE_NUMENTRY, Values = [2]\<rparr>, \<lparr>Code = TYPE_CODE_VOID, Values = []\<rparr>,
      \<lparr>Code = TYPE_CODE_FUNCTION, Values = [0, 0, 0]\<rparr>]
     (TypesParser_new (TopLevelParser_new exampleTranslator True False))
   of Inl f \<Rightarrow> False
    | Inr P \<Rightarrow>
        NumErrors (Context P) = 0 \<and> ErrStream (Context P) = [] \<and> \<not> ErrorStatus (Context P)
        \<and> TypeIDValues (Context P) =
          [\<lparr>Kind = Simple, Signature = \<lparr>ReturnType = IceType_void, ArgList = []\<rparr>\<rparr>,
           \<lparr>Kind = FuncSig, Signature = \<lparr>ReturnType = IceType_void, ArgList = [IceType_i32]\<rparr>\<rparr>]"
  by code_simp

section \<open>C8: alignment of a global variable\<close>

lemma getGlobalVariableByID_Inr:
  "getGlobalVariableByID n C = Inr (i, C') \<Longrightarrow>
   i < length (VariableDeclarations C') \<and> VariableDeclarations C' = VariableDeclarations C"
  by (auto simp: getGlobalVariableByID_def reportGetGlobalVariableByIDError_def BlockError_def
      TopLevelParser_Error_def Let_def split: if_splits)

lemma shl_int_1: "k \<le> 30 \<Longrightarrow> shl_int 1 k = Some (2 ^ k)"
proof -
  assume k: "k \<le> 30"
  have "(2::int) ^ k \<le> 2 ^ 30" using k by (intro power_increasing) simp_all
  then show ?thesis using k by (simp add: shl_int_def)
qed

lemma Error_Inr: "Error m P = Inr P' \<Longrightarrow> \<exists>C. P' = P\<lparr>Context := C\<rparr>"
  by (auto simp: Error_def split: sum.splits)

lemma verify_Inr:
  "verifyNoMissingInitializers P = Inr P' \<Longrightarrow>
   Record P' = Record P \<and> isIRGenerationDisabled P' = isIRGenerationDisabled P"
  by (auto simp: verifyNoMissingInitializers_def Let_def Error_def TopLevelParser_Error_def
      isIRGenerationDisabled_def split: if_splits)

lemma VAR_step:
  assumes c: "Code (Record P) = GLOBALVAR_VAR"
    and l: "length (Values (Record P)) = 2"
    and ir: "\<not> isIRGenerationDisabled P"
    and k: "unat (Values (Record P) ! 0) \<le> 30"
    and r: "GlobalsParser_ProcessRecord P = Inr P'"
  shows "Alignment (getCurGlobalVar P') = of_int (2 ^ unat (Values (Record P) ! 0) div 2)
       \<and> IsConstant (getCurGlobalVar P') = (Values (Record P) ! 1 \<noteq> 0)"
proof -
  from r c l obtain P2 where v: "verifyNoMissingInitializers P = Inr P2"
    and r2: "(if \<not> isIRGenerationDisabled P2 then
                    andThen (getGlobalVariableByID (NextGlobalID P2) (Context P2))
                      (\<lambda>(i, C3).
                         let P3 = P2\<lparr>Context := C3, InitializersNeeded := 1,
                                      CurGlobalVar := GlobalVar i\<rparr> in
                         case shl_int 1 (unat (Values (Record P) ! 0)) of
                           None \<Rightarrow> Inl UndefinedBehaviour
                         | Some x \<Rightarrow>
                             Inr ((updCurGlobalVar
                                     (\<lambda>V. V\<lparr>Alignment := of_int (x div 2),
                                             IsConstant := (Values (Record P) ! 1 \<noteq> 0)\<rparr>) P3)
                                  \<lparr>NextGlobalID := NextGlobalID P3 + 1\<rparr>))
                  else Inr (P2\<lparr>NextGlobalID := NextGlobalID P2 + 1\<rparr>)) = Inr P'"
    by (cases "verifyNoMissingInitializers P")
       (auto simp: GlobalsParser_ProcessRecord_def isValidRecordSize_def Let_def)
  have ir2: "\<not> isIRGenerationDisabled P2" using verify_Inr [OF v] ir by simp
  from r2 ir2 obtain i C3 where g: "getGlobalVariableByID (NextGlobalID P2) (Context P2) = Inr (i, C3)"
    and P': "P' = (updCurGlobalVar
                     (\<lambda>V. V\<lparr>Alignment := of_int (2 ^ unat (Values (Record P) ! 0) div 2),
                             IsConstant := (Values (Record P) ! 1 \<noteq> 0)\<rparr>)
                     (P2\<lparr>Context := C3, InitializersNeeded := 1, CurGlobalVar := GlobalVar i\<rparr>))
                  \<lparr>NextGlobalID := NextGlobalID P2 + 1\<rparr>"
    by (cases "getGlobalVariableByID (NextGlobalID P2) (Context P2)")
       (auto simp: shl_int_1 [OF k] Let_def)
  have i: "i < length (VariableDeclarations C3)" using getGlobalVariableByID_Inr [OF g] by auto
  show ?thesis using i by (simp add: P' updCurGlobalVar_def getCurGlobalVar_def)
qed


lemma unat_align: 
  assumes "k \<le> 30"
  shows "unat (of_int (2 ^ k div 2) :: u32) = 2 ^ k div 2"
proof -
  have "(2::nat) ^ k \<le> 2 ^ 30" using assms by (intro power_increasing) simp_all
  then have lt: "(2::nat) ^ k div 2 < 2 ^ 32" by simp
  have "(of_int (2 ^ k div 2) :: u32) = of_nat (2 ^ k div 2)"
    by (metis of_int_of_nat_eq of_nat_numeral of_nat_power zdiv_int)
  then show ?thesis using lt by (simp add: unat_of_nat take_bit_nat_eq_self)
qed

lemma verify_recover:
  "AllowErrorRecovery (Context P) \<Longrightarrow>
   \<exists>P2. verifyNoMissingInitializers P = Inr P2
     \<and> AllowErrorRecovery (Context P2)
     \<and> VariableDeclarations (Context P2) = VariableDeclarations (Context P)"
  by (simp add: verifyNoMissingInitializers_def Let_def Error_def TopLevelParser_Error_def)

lemma getGlobalVariableByID_recover:
  "AllowErrorRecovery C \<Longrightarrow> VariableDeclarations C \<noteq> [] \<Longrightarrow>
   \<exists>i C'. getGlobalVariableByID n C = Inr (i, C')"
  by (simp add: getGlobalVariableByID_def reportGetGlobalVariableByIDError_def BlockError_def
      TopLevelParser_Error_def Let_def)

lemma VAR_returns:
  assumes c: "Code (Record P) = GLOBALVAR_VAR"
    and l: "length (Values (Record P)) = 2"
    and k: "unat (Values (Record P) ! 0) \<le> 30"
    and a: "AllowErrorRecovery (Context P)"
    and n: "VariableDeclarations (Context P) \<noteq> []"
  shows "\<exists>P'. GlobalsParser_ProcessRecord P = Inr P'"
proof -
  obtain P2 where v: "verifyNoMissingInitializers P = Inr P2"
    and a2: "AllowErrorRecovery (Context P2)"
    and n2: "VariableDeclarations (Context P2) = VariableDeclarations (Context P)"
    using verify_recover [OF a] by blast
  obtain i C3 where g: "getGlobalVariableByID (NextGlobalID P2) (Context P2) = Inr (i, C3)"
    using getGlobalVariableByID_recover [OF a2] n n2 by metis
  show ?thesis
    using c l v g
    by (simp add: GlobalsParser_ProcessRecord_def isValidRecordSize_def Let_def shl_int_1 [OF k])
qed

lemma getGlobalVariableByID_index:
  "getGlobalVariableByID n C = Inr (i, C') \<Longrightarrow>
   i = (if n < length (VariableDeclarations C) then n else 0)
   \<and> i < length (VariableDeclarations C')
   \<and> VariableDeclarations C' = VariableDeclarations C"
  by (auto simp: getGlobalVariableByID_def reportGetGlobalVariableByIDError_def BlockError_def
      TopLevelParser_Error_def Let_def split: if_splits)

lemma verify_keeps:
  "verifyNoMissingInitializers P = Inr P' \<Longrightarrow>
   NextGlobalID P' = NextGlobalID P
   \<and> VariableDeclarations (Context P') = VariableDeclarations (Context P)"
  by (auto simp: verifyNoMissingInitializers_def Let_def Error_def TopLevelParser_Error_def
      split: if_splits)

lemma VAR_declaration:
  assumes c: "Code (Record P) = GLOBALVAR_VAR"
    and l: "length (Values (Record P)) = 2"
    and ir: "\<not> isIRGenerationDisabled P"
    and k: "unat (Values (Record P) ! 0) \<le> 30"
    and r: "GlobalsParser_ProcessRecord P = Inr P'"
    and i: "i = (if NextGlobalID P < length (VariableDeclarations (Context P))
                 then NextGlobalID P else 0)"
  shows "i < length (VariableDeclarations (Context P'))
       \<and> length (VariableDeclarations (Context P')) = length (VariableDeclarations (Context P))
       \<and> CurGlobalVar P' = GlobalVar i
       \<and> Alignment (VariableDeclarations (Context P') ! i)
           = of_int (2 ^ unat (Values (Record P) ! 0) div 2)
       \<and> (\<forall>j. j \<noteq> i \<longrightarrow>
             VariableDeclarations (Context P') ! j = VariableDeclarations (Context P) ! j)"
proof -
  from r c l obtain P2 where v: "verifyNoMissingInitializers P = Inr P2"
    and r2: "(if \<not> isIRGenerationDisabled P2 then
                    andThen (getGlobalVariableByID (NextGlobalID P2) (Context P2))
                      (\<lambda>(i, C3).
                         let P3 = P2\<lparr>Context := C3, InitializersNeeded := 1,
                                      CurGlobalVar := GlobalVar i\<rparr> in
                         case shl_int 1 (unat (Values (Record P) ! 0)) of
                           None \<Rightarrow> Inl UndefinedBehaviour
                         | Some x \<Rightarrow>
                             Inr ((updCurGlobalVar
                                     (\<lambda>V. V\<lparr>Alignment := of_int (x div 2),
                                             IsConstant := (Values (Record P) ! 1 \<noteq> 0)\<rparr>) P3)
                                  \<lparr>NextGlobalID := NextGlobalID P3 + 1\<rparr>))
                  else Inr (P2\<lparr>NextGlobalID := NextGlobalID P2 + 1\<rparr>)) = Inr P'"
    by (cases "verifyNoMissingInitializers P")
       (auto simp: GlobalsParser_ProcessRecord_def isValidRecordSize_def Let_def)
  have ir2: "\<not> isIRGenerationDisabled P2" using verify_Inr [OF v] ir by simp
  have k2: "NextGlobalID P2 = NextGlobalID P
            \<and> VariableDeclarations (Context P2) = VariableDeclarations (Context P)"
    using verify_keeps [OF v] .
  from r2 ir2 obtain i' C3 where
        g: "getGlobalVariableByID (NextGlobalID P2) (Context P2) = Inr (i', C3)"
    and P': "P' = (updCurGlobalVar
                     (\<lambda>V. V\<lparr>Alignment := of_int (2 ^ unat (Values (Record P) ! 0) div 2),
                             IsConstant := (Values (Record P) ! 1 \<noteq> 0)\<rparr>)
                     (P2\<lparr>Context := C3, InitializersNeeded := 1, CurGlobalVar := GlobalVar i'\<rparr>))
                  \<lparr>NextGlobalID := NextGlobalID P2 + 1\<rparr>"
    by (cases "getGlobalVariableByID (NextGlobalID P2) (Context P2)")
       (auto simp: shl_int_1 [OF k] Let_def)
  have gi: "i' = (if NextGlobalID P2 < length (VariableDeclarations (Context P2))
                  then NextGlobalID P2 else 0)
            \<and> i' < length (VariableDeclarations C3)
            \<and> VariableDeclarations C3 = VariableDeclarations (Context P2)"
    using getGlobalVariableByID_index [OF g] .
  have e: "i' = i" using gi k2 i by simp
  let ?D = "VariableDeclarations (Context P)"
  let ?f = "\<lambda>V. V\<lparr>Alignment := of_int (2 ^ unat (Values (Record P) ! 0) div 2),
                             IsConstant := (Values (Record P) ! 1 \<noteq> 0)\<rparr>"
  have d3: "VariableDeclarations C3 = ?D" using gi k2 by (elim conjE) (simp only:)
  have il3: "i' < length (VariableDeclarations C3)" using gi by (elim conjE)
  have il: "i < length ?D" using il3 unfolding d3 e .
  have D': "VariableDeclarations (Context P') = ?D[i := ?f (?D ! i)]"
    by (simp add: P' updCurGlobalVar_def e d3)
  have cur: "CurGlobalVar P' = GlobalVar i" by (simp add: P' updCurGlobalVar_def e)
  show ?thesis unfolding D' using il cur by simp
qed


lemma VAR_returns_clean:
  assumes c: "Code (Record P) = GLOBALVAR_VAR"
    and l: "length (Values (Record P)) = 2"
    and k: "unat (Values (Record P) ! 0) \<le> 30"
    and a: "InitializersNeeded P = length (Initializers (getCurGlobalVar P))"
    and n: "NextGlobalID P < length (VariableDeclarations (Context P))"
  shows "\<exists>P'. GlobalsParser_ProcessRecord P = Inr P'"
  using c l a n
  by (simp add: GlobalsParser_ProcessRecord_def isValidRecordSize_def Let_def shl_int_1 [OF k]
      verifyNoMissingInitializers_def getGlobalVariableByID_def)

text \<open>
  Claim C8, as amended.  For a VAR record of two values whose align-power \<open>k\<close> is at
  most 30, processed with IR generation enabled, the variable the record defines is the
  declaration of the context with the index \<open>NextGlobalID\<close> (the index 0 when
  \<open>NextGlobalID\<close> is out of range and the error is recovered).  If the record is processed
  without a fatal error, the alignment stored on that declaration of the context is
  \<open>(1 << k) >> 1\<close>, that is \<open>2 ^ k div 2\<close>: 0 for \<open>k = 0\<close> and \<open>2 ^ (k - 1)\<close> for
  \<open>1 \<le> k\<close>; it is the current variable of the parser, and no other declaration changes.
  The record is processed without a fatal error when error recovery is allowed and a
  global variable is declared, and also when the previous variable has the initializers
  it needs and \<open>NextGlobalID\<close> is in range.
\<close>

theorem GlobalsParser_VAR_alignment:
  assumes "Code (Record P) = GLOBALVAR_VAR"
    and "length (Values (Record P)) = 2"
    and "\<not> isIRGenerationDisabled P"
    and "unat (Values (Record P) ! 0) \<le> 30"
  shows "(\<forall>P'. GlobalsParser_ProcessRecord P = Inr P' \<longrightarrow>
            (if NextGlobalID P < length (VariableDeclarations (Context P))
             then NextGlobalID P else 0) < length (VariableDeclarations (Context P'))
          \<and> CurGlobalVar P' =
              GlobalVar (if NextGlobalID P < length (VariableDeclarations (Context P))
                         then NextGlobalID P else 0)
          \<and> unat (Alignment (VariableDeclarations (Context P')
                     ! (if NextGlobalID P < length (VariableDeclarations (Context P))
                        then NextGlobalID P else 0)))
              = 2 ^ unat (Values (Record P) ! 0) div 2
          \<and> (Values (Record P) ! 0 = 0 \<longrightarrow>
               Alignment (VariableDeclarations (Context P')
                     ! (if NextGlobalID P < length (VariableDeclarations (Context P))
                        then NextGlobalID P else 0)) = 0)
          \<and> (1 \<le> unat (Values (Record P) ! 0) \<longrightarrow>
               unat (Alignment (VariableDeclarations (Context P')
                     ! (if NextGlobalID P < length (VariableDeclarations (Context P))
                        then NextGlobalID P else 0)))
               = 2 ^ (unat (Values (Record P) ! 0) - 1))
          \<and> (\<forall>j. j \<noteq> (if NextGlobalID P < length (VariableDeclarations (Context P))
                         then NextGlobalID P else 0) \<longrightarrow>
                 VariableDeclarations (Context P') ! j = VariableDeclarations (Context P) ! j))
       \<and> (AllowErrorRecovery (Context P) \<and> VariableDeclarations (Context P) \<noteq> [] \<longrightarrow>
            (\<exists>P'. GlobalsParser_ProcessRecord P = Inr P'))
       \<and> (InitializersNeeded P = length (Initializers (getCurGlobalVar P))
          \<and> NextGlobalID P < length (VariableDeclarations (Context P)) \<longrightarrow>
            (\<exists>P'. GlobalsParser_ProcessRecord P = Inr P'))"
proof -
  let ?k = "unat (Values (Record P) ! 0)"
  let ?i = "if NextGlobalID P < length (VariableDeclarations (Context P))
            then NextGlobalID P else 0"
  have 1: "\<forall>P'. GlobalsParser_ProcessRecord P = Inr P' \<longrightarrow>
            ?i < length (VariableDeclarations (Context P'))
          \<and> CurGlobalVar P' = GlobalVar ?i
          \<and> unat (Alignment (VariableDeclarations (Context P') ! ?i)) = 2 ^ ?k div 2
          \<and> (Values (Record P) ! 0 = 0 \<longrightarrow>
               Alignment (VariableDeclarations (Context P') ! ?i) = 0)
          \<and> (1 \<le> ?k \<longrightarrow>
               unat (Alignment (VariableDeclarations (Context P') ! ?i)) = 2 ^ (?k - 1))
          \<and> (\<forall>j. j \<noteq> ?i \<longrightarrow>
                 VariableDeclarations (Context P') ! j = VariableDeclarations (Context P) ! j)"
  proof (intro allI impI)
    fix P' assume r: "GlobalsParser_ProcessRecord P = Inr P'"
    note d = VAR_declaration [OF assms r refl]
    have a: "Alignment (VariableDeclarations (Context P') ! ?i) = of_int (2 ^ ?k div 2)"
      using d by (elim conjE)
    have u: "unat (Alignment (VariableDeclarations (Context P') ! ?i)) = 2 ^ ?k div 2"
      unfolding a using unat_align [OF assms(4)] .
    have z: "Values (Record P) ! 0 = 0 \<longrightarrow>
               Alignment (VariableDeclarations (Context P') ! ?i) = 0"
      unfolding a by simp
    have p: "1 \<le> ?k \<longrightarrow>
               unat (Alignment (VariableDeclarations (Context P') ! ?i)) = 2 ^ (?k - 1)"
    proof
      assume "1 \<le> ?k"
      then obtain j where j: "?k = Suc j" by (cases ?k) simp_all
      show "unat (Alignment (VariableDeclarations (Context P') ! ?i)) = 2 ^ (?k - 1)"
        unfolding u j by simp
    qed
    show "?i < length (VariableDeclarations (Context P'))
          \<and> CurGlobalVar P' = GlobalVar ?i
          \<and> unat (Alignment (VariableDeclarations (Context P') ! ?i)) = 2 ^ ?k div 2
          \<and> (Values (Record P) ! 0 = 0 \<longrightarrow>
               Alignment (VariableDeclarations (Context P') ! ?i) = 0)
          \<and> (1 \<le> ?k \<longrightarrow>
               unat (Alignment (VariableDeclarations (Context P') ! ?i)) = 2 ^ (?k - 1))
          \<and> (\<forall>j. j \<noteq> ?i \<longrightarrow>
                 VariableDeclarations (Context P') ! j = VariableDeclarations (Context P) ! j)"
      using d u z p by (intro conjI) (elim conjE, assumption)+
  qed
  have 2: "AllowErrorRecovery (Context P) \<and> VariableDeclarations (Context P) \<noteq> [] \<longrightarrow>
            (\<exists>P'. GlobalsParser_ProcessRecord P = Inr P')"
    using VAR_returns [OF assms(1,2,4)] by blast
  have 3: "InitializersNeeded P = length (Initializers (getCurGlobalVar P))
          \<and> NextGlobalID P < length (VariableDeclarations (Context P)) \<longrightarrow>
            (\<exists>P'. GlobalsParser_ProcessRecord P = Inr P')"
    using VAR_returns_clean [OF assms(1,2,4)] by blast
  show ?thesis using 1 2 3 by (intro conjI)
qed

text \<open>The theorem at the record \<open>VAR [5, 1]\<close>: the declaration 0 of the context gets alignment 16.\<close>

theorem GlobalsParser_VAR_alignment_witness:
  "case GlobalsParser_ProcessRecord
          (exampleGlobalsParser\<lparr>Record := \<lparr>Code = GLOBALVAR_VAR, Values = [5, 1]\<rparr>\<rparr>)
   of Inl f \<Rightarrow> False
    | Inr P' \<Rightarrow> length (VariableDeclarations (Context P')) = 1
               \<and> unat (Alignment (VariableDeclarations (Context P') ! 0)) = 16"
proof -
  let ?P = "exampleGlobalsParser\<lparr>Record := \<lparr>Code = GLOBALVAR_VAR, Values = [5, 1]\<rparr>\<rparr>"
  have c: "Code (Record ?P) = GLOBALVAR_VAR" by simp
  have l: "length (Values (Record ?P)) = 2" by simp
  have ir: "\<not> isIRGenerationDisabled ?P"
    by (simp add: isIRGenerationDisabled_def exampleGlobalsParser_def GlobalsParser_new_def
        TopLevelParser_new_def)
  have k: "unat (Values (Record ?P) ! 0) \<le> 30" by simp
  have a: "AllowErrorRecovery (Context ?P)"
    by (simp add: exampleGlobalsParser_def GlobalsParser_new_def TopLevelParser_new_def)
  have n: "VariableDeclarations (Context ?P) \<noteq> []"
    by (simp add: exampleGlobalsParser_def GlobalsParser_new_def TopLevelParser_new_def)
  have i: "(if NextGlobalID ?P < length (VariableDeclarations (Context ?P))
            then NextGlobalID ?P else 0) = 0"
    by (simp add: exampleGlobalsParser_def GlobalsParser_new_def TopLevelParser_new_def)
  have len: "length (VariableDeclarations (Context ?P)) = 1"
    by (simp add: exampleGlobalsParser_def GlobalsParser_new_def TopLevelParser_new_def)
  note T = GlobalsParser_VAR_alignment [OF c l ir k]
  obtain P' where r: "GlobalsParser_ProcessRecord ?P = Inr P'"
    using T [THEN conjunct2, THEN conjunct1] a n by blast
  have "unat (Alignment (VariableDeclarations (Context P')
                     ! (if NextGlobalID ?P < length (VariableDeclarations (Context ?P))
                        then NextGlobalID ?P else 0)))
              = 2 ^ unat (Values (Record ?P) ! 0) div 2"
    using T [THEN conjunct1] r by blast
  then have u: "unat (Alignment (VariableDeclarations (Context P') ! 0)) = 16"
    unfolding i by simp
  have "length (VariableDeclarations (Context P')) = length (VariableDeclarations (Context ?P))"
    using VAR_declaration [OF c l ir k r refl] by (elim conjE)
  then have "length (VariableDeclarations (Context P')) = 1" using len by simp
  then show ?thesis using u by (simp add: r)
qed

text \<open>
  The claim as stated fails for large align-powers: for \<open>k = 40\<close> the shift
  \<^verbatim>\<open>1 << 40\<close> of a 32-bit \<^verbatim>\<open>int\<close> is undefined, and no 32-bit alignment is \<open>2 ^ 39\<close>.
\<close>

theorem GlobalsParser_VAR_alignment_counterexample:
  "GlobalsParser_ProcessRecord
     (exampleGlobalsParser\<lparr>Record := \<lparr>Code = GLOBALVAR_VAR, Values = [40, 0]\<rparr>\<rparr>)
   = Inl UndefinedBehaviour"
  by (simp add: exampleGlobalsParser_def GlobalsParser_new_def TopLevelParser_new_def
      GlobalsParser_ProcessRecord_def isValidRecordSize_def verifyNoMissingInitializers_def
      getCurGlobalVar_def VariableDeclaration_create_def isIRGenerationDisabled_def
      getGlobalVariableByID_def shl_int_def updCurGlobalVar_def Let_def)

section \<open>Shared lemmas on the parser state\<close>

text \<open>The example function parser is the state the constructor of \<^verbatim>\<open>FunctionParser\<close> builds.\<close>

lemma exampleFunctionParser_constructed:
  "FunctionParser_new (exampleContext r) = Inr (exampleFunctionParser r)"
  by (simp add: FunctionParser_new_def exampleContext_def exampleFunctionParser_def
      TopLevelParser_new_def getNextFunctionBlockValueID_def getFunctionByID_def
      isIRGenerationDisabled_def getNumGlobalIDs_def Cfg_new_def InstallNextBasicBlock_def
      makeNode_def getNextInstVar_def createInstVar_def makeVariable_def setOperand_def Let_def)

lemma Error_recover:
  "AllowErrorRecovery (Context P) \<Longrightarrow>
   Error m P = Inr (P\<lparr>Context := (Context P)\<lparr>ErrorStatus := True,
       NumErrors := NumErrors (Context P) + 1, ErrStream := ErrStream (Context P) @ [m]\<rparr>\<rparr>)"
  by (simp add: Error_def TopLevelParser_Error_def Let_def)

lemma Error_fatal:
  "\<not> AllowErrorRecovery (Context P) \<Longrightarrow> Error m P = Inl (FatalError (ErrStream (Context P) @ [m]))"
  by (simp add: Error_def TopLevelParser_Error_def Let_def)


section \<open>C1: relative operand references\<close>














section \<open>C9: alignment of alloca, load and store\<close>

lemma unat_shift_half:
  fixes p :: u32
  assumes "p \<le> 29"
  shows "unat (drop_bit 1 (push_bit (unat p) 1) :: u32) = 2 ^ unat p div 2"
proof -
  have k: "unat p \<le> 29" using assms by (simp add: word_le_nat_alt)
  have "(2::nat) ^ unat p \<le> 2 ^ 29" using k by (intro power_increasing) simp_all
  then have lt: "(2::nat) ^ unat p < 2 ^ 32" by simp
  have e: "(push_bit (unat p) 1 :: u32) = of_nat (2 ^ unat p)" by (simp add: push_bit_eq_mult)
  have u: "unat (push_bit (unat p) 1 :: u32) = 2 ^ unat p"
    unfolding e using lt by (simp only: unat_of_nat) (simp add: take_bit_nat_eq_self)
  have "unat (drop_bit 1 (push_bit (unat p) 1) :: u32) = drop_bit 1 (unat (push_bit (unat p) 1 :: u32))"
    by (simp only: unat_drop_bit_eq)
  also have "\<dots> = 2 ^ unat p div 2" by (simp only: u drop_bit_eq_div) simp
  finally show ?thesis .
qed


text \<open>
  Claim C9.  \<^verbatim>\<open>extractAlignment\<close> takes the alignment power \<open>p\<close> as a 32-bit unsigned value.
  For \<open>p \<le> 29\<close> the alignment is \<open>(1 << p) >> 1\<close>, that is \<open>2 ^ p div 2\<close>, and nothing is
  reported.  For \<open>p > 29\<close> the error \<open>alignment greater than 2**29\<close> is reported and the
  alignment is recovered as \<open>1\<close> (with error recovery), or the parse stops with that fatal
  error (without).  The alloca, load and store records pass their alignment value, narrowed
  to 32 bits, to \<^verbatim>\<open>extractAlignment\<close>, and the instruction they append carries the alignment
  it returns.
\<close>

theorem extractAlignment_power:
  "(p \<le> 29 \<longrightarrow>
      extractAlignment nm p P = Inr (drop_bit 1 (push_bit (unat p) 1), P)
      \<and> unat (drop_bit 1 (push_bit (unat p) 1) :: u32) = 2 ^ unat p div 2)
   \<and> (29 < p \<and> AllowErrorRecovery (Context P) \<longrightarrow>
      extractAlignment nm p P =
        Inr (1, P\<lparr>Context := (Context P)\<lparr>ErrorStatus := True,
                    NumErrors := NumErrors (Context P) + 1,
                    ErrStream := ErrStream (Context P) @ [alignmentTooLarge nm p]\<rparr>\<rparr>))
   \<and> (29 < p \<and> \<not> AllowErrorRecovery (Context P) \<longrightarrow>
      extractAlignment nm p P =
        Inl (FatalError (ErrStream (Context P) @ [alignmentTooLarge nm p])))
   \<and> (length (Values (Record P)) = 2
       \<and> getRelativeOperand (to_u32 (Values (Record P) ! 0)) B P = Inr (Some V, P2)
       \<and> extractAlignment ''Alloca'' (to_u32 (Values (Record P) ! 1)) P2 = Inr (A, P3)
       \<and> \<not> isIRGenerationDisabled P3 \<and> getType V = IceType_i32
       \<and> getNextInstVar getPointerType P3 = Inr (Dest, P4) \<longrightarrow>
      ProcessRecord_ALLOCA B P = Inr (appendToCurrentNode (InstAlloca V A Dest) P4))
   \<and> (length (Values (Record P)) = 3
       \<and> getRelativeOperand (to_u32 (Values (Record P) ! 0)) B P = Inr (Some V, P2)
       \<and> getSimpleTypeByID (unat (to_u32 (Values (Record P) ! 2))) (Context P2) = Inr (T, C3)
       \<and> extractAlignment ''Load'' (to_u32 (Values (Record P) ! 1)) (P2\<lparr>Context := C3\<rparr>)
           = Inr (A, P3)
       \<and> \<not> isIRGenerationDisabled P3
       \<and> isValidPointerType V ''Load'' P3 = Inr (True, P4)
       \<and> isValidLoadStoreAlignment (unat A) T ''Load'' P4 = Inr (True, P5)
       \<and> getNextInstVar T P5 = Inr (Dest, P6) \<longrightarrow>
      ProcessRecord_LOAD B P = Inr (appendToCurrentNode (InstLoad Dest V A) P6))
   \<and> (length (Values (Record P)) = 3
       \<and> getRelativeOperand (to_u32 (Values (Record P) ! 0)) B P = Inr (Some V, P2)
       \<and> getRelativeOperand (to_u32 (Values (Record P) ! 1)) B P2 = Inr (Some W, P2')
       \<and> extractAlignment ''Store'' (to_u32 (Values (Record P) ! 2)) P2' = Inr (A, P3)
       \<and> \<not> isIRGenerationDisabled P3
       \<and> isValidPointerType V ''Store'' P3 = Inr (True, P4)
       \<and> isValidLoadStoreAlignment (unat A) (getType W) ''Store'' P4 = Inr (True, P5) \<longrightarrow>
      ProcessRecord_STORE B P = Inr (appendToCurrentNode (InstStore W V A) P5))"
proof -
  have 1: "p \<le> 29 \<longrightarrow>
      extractAlignment nm p P = Inr (drop_bit 1 (push_bit (unat p) 1), P)
      \<and> unat (drop_bit 1 (push_bit (unat p) 1) :: u32) = 2 ^ unat p div 2"
    using unat_shift_half [of p] by (simp add: extractAlignment_def)
  have 2: "29 < p \<and> AllowErrorRecovery (Context P) \<longrightarrow>
      extractAlignment nm p P =
        Inr (1, P\<lparr>Context := (Context P)\<lparr>ErrorStatus := True,
                    NumErrors := NumErrors (Context P) + 1,
                    ErrStream := ErrStream (Context P) @ [alignmentTooLarge nm p]\<rparr>\<rparr>)"
    by (simp add: extractAlignment_def Error_recover alignmentTooLarge_def not_le [symmetric])
  have 3: "29 < p \<and> \<not> AllowErrorRecovery (Context P) \<longrightarrow>
      extractAlignment nm p P =
        Inl (FatalError (ErrStream (Context P) @ [alignmentTooLarge nm p]))"
    by (simp add: extractAlignment_def Error_fatal alignmentTooLarge_def not_le [symmetric])
  have 4: "length (Values (Record P)) = 2
       \<and> getRelativeOperand (to_u32 (Values (Record P) ! 0)) B P = Inr (Some V, P2)
       \<and> extractAlignment ''Alloca'' (to_u32 (Values (Record P) ! 1)) P2 = Inr (A, P3)
       \<and> \<not> isIRGenerationDisabled P3 \<and> getType V = IceType_i32
       \<and> getNextInstVar getPointerType P3 = Inr (Dest, P4) \<longrightarrow>
      ProcessRecord_ALLOCA B P = Inr (appendToCurrentNode (InstAlloca V A Dest) P4)"
    by (simp add: ProcessRecord_ALLOCA_def isValidRecordSize_def deref_def)
  have 5: "length (Values (Record P)) = 3
       \<and> getRelativeOperand (to_u32 (Values (Record P) ! 0)) B P = Inr (Some V, P2)
       \<and> getSimpleTypeByID (unat (to_u32 (Values (Record P) ! 2))) (Context P2) = Inr (T, C3)
       \<and> extractAlignment ''Load'' (to_u32 (Values (Record P) ! 1)) (P2\<lparr>Context := C3\<rparr>)
           = Inr (A, P3)
       \<and> \<not> isIRGenerationDisabled P3
       \<and> isValidPointerType V ''Load'' P3 = Inr (True, P4)
       \<and> isValidLoadStoreAlignment (unat A) T ''Load'' P4 = Inr (True, P5)
       \<and> getNextInstVar T P5 = Inr (Dest, P6) \<longrightarrow>
      ProcessRecord_LOAD B P = Inr (appendToCurrentNode (InstLoad Dest V A) P6)"
    by (simp add: ProcessRecord_LOAD_def isValidRecordSize_def deref_def)
  have 6: "length (Values (Record P)) = 3
       \<and> getRelativeOperand (to_u32 (Values (Record P) ! 0)) B P = Inr (Some V, P2)
       \<and> getRelativeOperand (to_u32 (Values (Record P) ! 1)) B P2 = Inr (Some W, P2')
       \<and> extractAlignment ''Store'' (to_u32 (Values (Record P) ! 2)) P2' = Inr (A, P3)
       \<and> \<not> isIRGenerationDisabled P3
       \<and> isValidPointerType V ''Store'' P3 = Inr (True, P4)
       \<and> isValidLoadStoreAlignment (unat A) (getType W) ''Store'' P4 = Inr (True, P5) \<longrightarrow>
      ProcessRecord_STORE B P = Inr (appendToCurrentNode (InstStore W V A) P5)"
    by (simp add: ProcessRecord_STORE_def isValidRecordSize_def deref_def)
  show ?thesis using 1 2 3 4 5 6 by (intro conjI)
qed


text \<open>
  The theorem at the powers \<open>3\<close> and \<open>30\<close>, and at an alloca, a load and a store record of
  power \<open>3\<close> in the example function.
\<close>

theorem extractAlignment_power_witness:
  "extractAlignment ''Alloca'' 3 (exampleFunctionParser True) = Inr (4, exampleFunctionParser True)
   \<and> extractAlignment ''Load'' 30 (exampleFunctionParser True) =
       Inr (1, (exampleFunctionParser True)
                 \<lparr>Context := (Context (exampleFunctionParser True))
                    \<lparr>ErrorStatus := True,
                     NumErrors := NumErrors (Context (exampleFunctionParser True)) + 1,
                     ErrStream := ErrStream (Context (exampleFunctionParser True))
                                  @ [alignmentTooLarge ''Load'' 30]\<rparr>\<rparr>)
   \<and> renderMessage (alignmentTooLarge ''Load'' 30)
       = Some ''Load alignment greater than 2**29. Found: 2**30''
   \<and> ProcessRecord_ALLOCA 2
        ((exampleFunctionParser True)\<lparr>Record := \<lparr>Code = FUNC_CODE_INST_ALLOCA, Values = [1, 3]\<rparr>\<rparr>)
       = Inr (appendToCurrentNode (InstAlloca (Variable 0 IceType_i32) 4 (Variable 1 IceType_i32))
               ((exampleFunctionParser True)
                  \<lparr>Record := \<lparr>Code = FUNC_CODE_INST_ALLOCA, Values = [1, 3]\<rparr>,
                   Func := (Func (exampleFunctionParser True))\<lparr>NumVariables := 2\<rparr>,
                   LocalOperands := [Some (Variable 0 IceType_i32), Some (Variable 1 IceType_i32)],
                   NextLocalInstIndex := 3\<rparr>))
   \<and> ProcessRecord_LOAD 2
        ((exampleFunctionParser True)\<lparr>Record := \<lparr>Code = FUNC_CODE_INST_LOAD, Values = [1, 3, 1]\<rparr>\<rparr>)
       = Inr (appendToCurrentNode (InstLoad (Variable 1 IceType_i32) (Variable 0 IceType_i32) 4)
               ((exampleFunctionParser True)
                  \<lparr>Record := \<lparr>Code = FUNC_CODE_INST_LOAD, Values = [1, 3, 1]\<rparr>,
                   Func := (Func (exampleFunctionParser True))\<lparr>NumVariables := 2\<rparr>,
                   LocalOperands := [Some (Variable 0 IceType_i32), Some (Variable 1 IceType_i32)],
                   NextLocalInstIndex := 3\<rparr>))
   \<and> ProcessRecord_STORE 2
        ((exampleFunctionParser True)\<lparr>Record := \<lparr>Code = FUNC_CODE_INST_STORE, Values = [1, 1, 3]\<rparr>\<rparr>)
       = Inr (appendToCurrentNode (InstStore (Variable 0 IceType_i32) (Variable 0 IceType_i32) 4)
               ((exampleFunctionParser True)
                  \<lparr>Record := \<lparr>Code = FUNC_CODE_INST_STORE, Values = [1, 1, 3]\<rparr>\<rparr>))"
proof -
  let ?P = "exampleFunctionParser True"
  let ?L = "?P\<lparr>Record := \<lparr>Code = FUNC_CODE_INST_LOAD, Values = [1, 3, 1]\<rparr>\<rparr>"
  let ?LQ = "?P\<lparr>Record := \<lparr>Code = FUNC_CODE_INST_LOAD, Values = [1, 3, 1]\<rparr>,
                   Func := (Func ?P)\<lparr>NumVariables := 2\<rparr>,
                   LocalOperands := [Some (Variable 0 IceType_i32), Some (Variable 1 IceType_i32)],
                   NextLocalInstIndex := 3\<rparr>"
  let ?S = "?P\<lparr>Record := \<lparr>Code = FUNC_CODE_INST_STORE, Values = [1, 1, 3]\<rparr>\<rparr>"
  let ?R = "?P\<lparr>Record := \<lparr>Code = FUNC_CODE_INST_ALLOCA, Values = [1, 3]\<rparr>\<rparr>"
  let ?Q = "?P\<lparr>Record := \<lparr>Code = FUNC_CODE_INST_ALLOCA, Values = [1, 3]\<rparr>,
                   Func := (Func ?P)\<lparr>NumVariables := 2\<rparr>,
                   LocalOperands := [Some (Variable 0 IceType_i32), Some (Variable 1 IceType_i32)],
                   NextLocalInstIndex := 3\<rparr>"
  have rec: "AllowErrorRecovery (Context ?P)"
    by (simp add: exampleFunctionParser_def exampleContext_def TopLevelParser_new_def)
  have a: "(3::u32) \<le> 29" by simp
  have b: "(29::u32) < 30 \<and> AllowErrorRecovery (Context ?P)" using rec by simp
  have v: "(drop_bit 1 (push_bit (unat (3::u32)) 1) :: u32) = 4" by simp
  have c1: "extractAlignment ''Alloca'' 3 ?P = Inr (4, ?P)"
    using extractAlignment_power [where p = 3 and nm = "''Alloca''" and P = ?P,
        THEN conjunct1] a v by simp
  have c2: "extractAlignment ''Load'' 30 ?P =
       Inr (1, ?P\<lparr>Context := (Context ?P)
                    \<lparr>ErrorStatus := True, NumErrors := NumErrors (Context ?P) + 1,
                     ErrStream := ErrStream (Context ?P) @ [alignmentTooLarge ''Load'' 30]\<rparr>\<rparr>)"
    using extractAlignment_power [where p = 30 and nm = "''Load''" and P = ?P,
        THEN conjunct2, THEN conjunct1] b by blast
  have r: "renderMessage (alignmentTooLarge ''Load'' 30)
       = Some ''Load alignment greater than 2**29. Found: 2**30''"
    by code_simp
  have h1: "length (Values (Record ?R)) = 2" by simp
  have h2: "getRelativeOperand (to_u32 (Values (Record ?R) ! 0)) 2 ?R
             = Inr (Some (Variable 0 IceType_i32), ?R)"
    by (simp add: getRelativeOperand_def convertRelativeToAbsIndex_def getOperand_def
        exampleFunctionParser_def to_u32_def)
  have h3: "extractAlignment ''Alloca'' (to_u32 (Values (Record ?R) ! 1)) ?R = Inr (4, ?R)"
    by (simp add: extractAlignment_def to_u32_def)
  have h4: "\<not> isIRGenerationDisabled ?R"
    by (simp add: isIRGenerationDisabled_def exampleFunctionParser_def exampleContext_def
        TopLevelParser_new_def)
  have h5: "getType (Variable 0 IceType_i32) = IceType_i32" by simp
  have h6: "getNextInstVar getPointerType ?R = Inr (Variable 1 IceType_i32, ?Q)"
    using h4 by (simp add: getNextInstVar_def createInstVar_def makeVariable_def setOperand_def
        getPointerType_def exampleFunctionParser_def Let_def)
  have c3: "ProcessRecord_ALLOCA 2 ?R
       = Inr (appendToCurrentNode (InstAlloca (Variable 0 IceType_i32) 4 (Variable 1 IceType_i32)) ?Q)"
    using extractAlignment_power [where P = ?R and B = 2 and V = "Variable 0 IceType_i32"
        and ?P2.0 = ?R and A = 4 and ?P3.0 = ?R and Dest = "Variable 1 IceType_i32" and ?P4.0 = ?Q,
        THEN conjunct2, THEN conjunct2, THEN conjunct2, THEN conjunct1]
      h1 h2 h3 h4 h5 h6 by blast
  have l1: "length (Values (Record ?L)) = 3" by simp
  have l2: "getRelativeOperand (to_u32 (Values (Record ?L) ! 0)) 2 ?L
             = Inr (Some (Variable 0 IceType_i32), ?L)"
    by (simp add: getRelativeOperand_def convertRelativeToAbsIndex_def getOperand_def
        exampleFunctionParser_def to_u32_def)
  have l3: "getSimpleTypeByID (unat (to_u32 (Values (Record ?L) ! 2))) (Context ?L)
             = Inr (IceType_i32, Context ?L)"
    by (simp add: getSimpleTypeByID_def getTypeByIDAsKind_def exampleFunctionParser_def
        exampleContext_def TopLevelParser_new_def to_u32_def)
  have l4: "extractAlignment ''Load'' (to_u32 (Values (Record ?L) ! 1)) (?L\<lparr>Context := Context ?L\<rparr>)
             = Inr (4, ?L)"
    by (simp add: extractAlignment_def to_u32_def)
  have l5: "\<not> isIRGenerationDisabled ?L"
    by (simp add: isIRGenerationDisabled_def exampleFunctionParser_def exampleContext_def
        TopLevelParser_new_def)
  have l6: "isValidPointerType (Variable 0 IceType_i32) ''Load'' ?L = Inr (True, ?L)"
    by (simp add: isValidPointerType_def getPointerType_def)
  have l7: "isValidLoadStoreAlignment (unat (4::u32)) IceType_i32 ''Load'' ?L = Inr (True, ?L)"
    by (simp add: isValidLoadStoreAlignment_def isValidLoadStoreType_def isAllowedAlignment_def isLoadStoreType_def
        exampleFunctionParser_def exampleContext_def TopLevelParser_new_def exampleTranslator_def)
  have l8: "getNextInstVar IceType_i32 ?L = Inr (Variable 1 IceType_i32, ?LQ)"
    using l5 by (simp add: getNextInstVar_def createInstVar_def makeVariable_def setOperand_def
        exampleFunctionParser_def Let_def)
  have c4: "ProcessRecord_LOAD 2 ?L
       = Inr (appendToCurrentNode (InstLoad (Variable 1 IceType_i32) (Variable 0 IceType_i32) 4) ?LQ)"
    using extractAlignment_power [where P = ?L and B = 2 and V = "Variable 0 IceType_i32"
        and ?P2.0 = ?L and T = IceType_i32 and ?C3.0 = "Context ?L" and A = 4 and ?P3.0 = ?L
        and ?P4.0 = ?L and ?P5.0 = ?L and Dest = "Variable 1 IceType_i32" and ?P6.0 = ?LQ,
        THEN conjunct2, THEN conjunct2, THEN conjunct2, THEN conjunct2, THEN conjunct1]
      l1 l2 l3 l4 l5 l6 l7 l8 by blast
  have s1: "length (Values (Record ?S)) = 3" by simp
  have s2: "getRelativeOperand (to_u32 (Values (Record ?S) ! 0)) 2 ?S
             = Inr (Some (Variable 0 IceType_i32), ?S)"
    by (simp add: getRelativeOperand_def convertRelativeToAbsIndex_def getOperand_def
        exampleFunctionParser_def to_u32_def)
  have s3: "getRelativeOperand (to_u32 (Values (Record ?S) ! 1)) 2 ?S
             = Inr (Some (Variable 0 IceType_i32), ?S)"
    by (simp add: getRelativeOperand_def convertRelativeToAbsIndex_def getOperand_def
        exampleFunctionParser_def to_u32_def)
  have s4: "extractAlignment ''Store'' (to_u32 (Values (Record ?S) ! 2)) ?S = Inr (4, ?S)"
    by (simp add: extractAlignment_def to_u32_def)
  have s5: "\<not> isIRGenerationDisabled ?S"
    by (simp add: isIRGenerationDisabled_def exampleFunctionParser_def exampleContext_def
        TopLevelParser_new_def)
  have s6: "isValidPointerType (Variable 0 IceType_i32) ''Store'' ?S = Inr (True, ?S)"
    by (simp add: isValidPointerType_def getPointerType_def)
  have s7: "isValidLoadStoreAlignment (unat (4::u32)) (getType (Variable 0 IceType_i32)) ''Store'' ?S
             = Inr (True, ?S)"
    by (simp add: isValidLoadStoreAlignment_def isValidLoadStoreType_def isAllowedAlignment_def isLoadStoreType_def
        exampleFunctionParser_def exampleContext_def TopLevelParser_new_def exampleTranslator_def)
  have c5: "ProcessRecord_STORE 2 ?S
       = Inr (appendToCurrentNode (InstStore (Variable 0 IceType_i32) (Variable 0 IceType_i32) 4) ?S)"
    using extractAlignment_power [where P = ?S and B = 2 and V = "Variable 0 IceType_i32"
        and ?P2.0 = ?S and W = "Variable 0 IceType_i32" and ?P2' = ?S and A = 4 and ?P3.0 = ?S
        and ?P4.0 = ?S and ?P5.0 = ?S,
        THEN conjunct2, THEN conjunct2, THEN conjunct2, THEN conjunct2, THEN conjunct2]
      s1 s2 s3 s4 s5 s6 s7 by blast
  show ?thesis using c1 c2 r c3 c4 c5 by (intro conjI)
qed

text \<open>
  The alignment value of a record is a 64-bit value, narrowed to 32 bits by the call of
  \<^verbatim>\<open>extractAlignment\<close>: the alloca record with the alignment value \<open>2 ^ 32 + 3\<close>, a power
  above \<open>29\<close>, is accepted with the alignment \<open>4\<close> and no error.
\<close>

theorem extractAlignment_power_counterexample:
  "to_u32 4294967299 = 3
   \<and> (case ProcessRecords FunctionParser_ProcessRecord
          [\<lparr>Code = FUNC_CODE_DECLAREBLOCKS, Values = [1]\<rparr>,
           \<lparr>Code = FUNC_CODE_INST_ALLOCA, Values = [1, 4294967299]\<rparr>] (exampleFunctionParser False)
       of Inl f \<Rightarrow> False
        | Inr P \<Rightarrow>
            Nodes (Func P) = [[InstAlloca (Variable 0 IceType_i32) 4 (Variable 1 IceType_i32)]]
            \<and> NumErrors (Context P) = 0 \<and> ErrStream (Context P) = [])"
proof -
  have a: "to_u32 4294967299 = 3" by (simp add: to_u32_def)
  have b: "case ProcessRecords FunctionParser_ProcessRecord
          [\<lparr>Code = FUNC_CODE_DECLAREBLOCKS, Values = [1]\<rparr>,
           \<lparr>Code = FUNC_CODE_INST_ALLOCA, Values = [1, 4294967299]\<rparr>] (exampleFunctionParser False)
       of Inl f \<Rightarrow> False
        | Inr P \<Rightarrow>
            Nodes (Func P) = [[InstAlloca (Variable 0 IceType_i32) 4 (Variable 1 IceType_i32)]]
            \<and> NumErrors (Context P) = 0 \<and> ErrStream (Context P) = []"
    by code_simp
  show ?thesis using a b by (rule conjI)
qed

section \<open>C7: the DECLAREBLOCKS record\<close>

lemma InstallBasicBlocks_replicate:
  "\<not> isIRGenerationDisabled P \<Longrightarrow>
   InstallBasicBlocks k P = Inr (P\<lparr>Func := (Func P)\<lparr>Nodes := Nodes (Func P) @ replicate k []\<rparr>\<rparr>)"
proof (induction k arbitrary: P)
  case 0
  then show ?case by simp
next
  case (Suc k)
  let ?P1 = "P\<lparr>Func := (Func P)\<lparr>Nodes := Nodes (Func P) @ [[]]\<rparr>\<rparr>"
  have d: "\<not> isIRGenerationDisabled ?P1" using Suc.prems by (simp add: isIRGenerationDisabled_def)
  have "InstallBasicBlocks (Suc k) P = InstallBasicBlocks k ?P1"
    using Suc.prems by (simp add: InstallNextBasicBlock_def makeNode_def)
  also have "\<dots> = Inr (?P1\<lparr>Func := (Func ?P1)\<lparr>Nodes := Nodes (Func ?P1) @ replicate k []\<rparr>\<rparr>)"
    by (rule Suc.IH [OF d])
  also have "\<dots> = Inr (P\<lparr>Func := (Func P)\<lparr>Nodes := Nodes (Func P) @ replicate (Suc k) []\<rparr>\<rparr>)"
    by simp
  finally show ?case .
qed

text \<open>
  The body of the \<^verbatim>\<open>DECLAREBLOCKS\<close> case, \<open>n\<close> being the value of the record narrowed to
  32 bits, with IR generation enabled: when the function has exactly one basic block and
  \<open>n \<noteq> 0\<close>, \<open>n - 1\<close> empty blocks are added; when \<open>n = 0\<close> the error is reported and the
  function keeps its one block; when the function does not have exactly one basic block the
  duplicate error is reported.  The record reaches this body when the previous record was
  not a terminator.
\<close>

lemma DECLAREBLOCKS_body:
  "(length (Values (Record P)) = 1 \<and> \<not> isIRGenerationDisabled P
      \<and> to_u32 (Values (Record P) ! 0) \<noteq> 0 \<and> length (Nodes (Func P)) = 1 \<longrightarrow>
      ProcessRecord_DECLAREBLOCKS P =
        Inr (P\<lparr>Func := (Func P)\<lparr>Nodes := Nodes (Func P)
                   @ replicate (unat (to_u32 (Values (Record P) ! 0)) - 1) []\<rparr>\<rparr>)
      \<and> length (Nodes (Func P) @ replicate (unat (to_u32 (Values (Record P) ! 0)) - 1) [])
          = unat (to_u32 (Values (Record P) ! 0)))
   \<and> (length (Values (Record P)) = 1 \<and> \<not> isIRGenerationDisabled P
      \<and> to_u32 (Values (Record P) ! 0) = 0 \<and> length (Nodes (Func P)) = 1
      \<and> AllowErrorRecovery (Context P) \<longrightarrow>
      ProcessRecord_DECLAREBLOCKS P =
        Inr (P\<lparr>Context := (Context P)\<lparr>ErrorStatus := True,
                 NumErrors := NumErrors (Context P) + 1,
                 ErrStream := ErrStream (Context P) @ [noBasicBlock]\<rparr>\<rparr>))
   \<and> (length (Values (Record P)) = 1 \<and> to_u32 (Values (Record P) ! 0) = 0
      \<and> \<not> AllowErrorRecovery (Context P) \<longrightarrow>
      ProcessRecord_DECLAREBLOCKS P = Inl (FatalError (ErrStream (Context P) @ [noBasicBlock])))
   \<and> (length (Values (Record P)) = 1 \<and> \<not> isIRGenerationDisabled P
      \<and> to_u32 (Values (Record P) ! 0) \<noteq> 0 \<and> length (Nodes (Func P)) \<noteq> 1
      \<and> AllowErrorRecovery (Context P) \<longrightarrow>
      ProcessRecord_DECLAREBLOCKS P =
        Inr (P\<lparr>Context := (Context P)\<lparr>ErrorStatus := True,
                 NumErrors := NumErrors (Context P) + 1,
                 ErrStream := ErrStream (Context P) @ [duplicateBlockCount]\<rparr>\<rparr>))"
proof -
  let ?n = "to_u32 (Values (Record P) ! 0)"
  have 1: "length (Values (Record P)) = 1 \<and> \<not> isIRGenerationDisabled P
      \<and> ?n \<noteq> 0 \<and> length (Nodes (Func P)) = 1 \<longrightarrow>
      ProcessRecord_DECLAREBLOCKS P =
        Inr (P\<lparr>Func := (Func P)\<lparr>Nodes := Nodes (Func P) @ replicate (unat ?n - 1) []\<rparr>\<rparr>)
      \<and> length (Nodes (Func P) @ replicate (unat ?n - 1) []) = unat ?n"
  proof
    assume h: "length (Values (Record P)) = 1 \<and> \<not> isIRGenerationDisabled P
      \<and> ?n \<noteq> 0 \<and> length (Nodes (Func P)) = 1"
    then have pos: "0 < unat ?n" by (simp add: unat_gt_0)
    have a: "ProcessRecord_DECLAREBLOCKS P = InstallBasicBlocks (unat ?n - 1) P"
      using h by (simp add: ProcessRecord_DECLAREBLOCKS_def isValidRecordSize_def)
    show "ProcessRecord_DECLAREBLOCKS P =
        Inr (P\<lparr>Func := (Func P)\<lparr>Nodes := Nodes (Func P) @ replicate (unat ?n - 1) []\<rparr>\<rparr>)
      \<and> length (Nodes (Func P) @ replicate (unat ?n - 1) []) = unat ?n"
      using a h pos InstallBasicBlocks_replicate [of P "unat ?n - 1"] by simp
  qed
  have 2: "length (Values (Record P)) = 1 \<and> \<not> isIRGenerationDisabled P
      \<and> ?n = 0 \<and> length (Nodes (Func P)) = 1 \<and> AllowErrorRecovery (Context P) \<longrightarrow>
      ProcessRecord_DECLAREBLOCKS P =
        Inr (P\<lparr>Context := (Context P)\<lparr>ErrorStatus := True,
                 NumErrors := NumErrors (Context P) + 1,
                 ErrStream := ErrStream (Context P) @ [noBasicBlock]\<rparr>\<rparr>)"
    by (simp add: ProcessRecord_DECLAREBLOCKS_def isValidRecordSize_def Error_def
        TopLevelParser_Error_def isIRGenerationDisabled_def noBasicBlock_def Let_def)
  have 3: "length (Values (Record P)) = 1 \<and> ?n = 0 \<and> \<not> AllowErrorRecovery (Context P) \<longrightarrow>
      ProcessRecord_DECLAREBLOCKS P = Inl (FatalError (ErrStream (Context P) @ [noBasicBlock]))"
    by (simp add: ProcessRecord_DECLAREBLOCKS_def isValidRecordSize_def Error_def
        TopLevelParser_Error_def noBasicBlock_def Let_def)
  have 4: "length (Values (Record P)) = 1 \<and> \<not> isIRGenerationDisabled P
      \<and> ?n \<noteq> 0 \<and> length (Nodes (Func P)) \<noteq> 1 \<and> AllowErrorRecovery (Context P) \<longrightarrow>
      ProcessRecord_DECLAREBLOCKS P =
        Inr (P\<lparr>Context := (Context P)\<lparr>ErrorStatus := True,
                 NumErrors := NumErrors (Context P) + 1,
                 ErrStream := ErrStream (Context P) @ [duplicateBlockCount]\<rparr>\<rparr>)"
    by (simp add: ProcessRecord_DECLAREBLOCKS_def isValidRecordSize_def Error_def
        TopLevelParser_Error_def duplicateBlockCount_def Let_def)
  show ?thesis using 1 2 3 4 by (intro conjI)
qed


lemma DECLAREBLOCKS_dispatch:
  "Code (Record P) = FUNC_CODE_DECLAREBLOCKS \<Longrightarrow> \<not> InstIsTerminating P \<Longrightarrow>
   FunctionParser_ProcessRecord P = ProcessRecord_DECLAREBLOCKS P"
  by (simp add: FunctionParser_ProcessRecord_def Let_def)

lemma DECLAREBLOCKS_duplicate_fatal:
  "length (Values (Record P)) = 1 \<and> \<not> isIRGenerationDisabled P
      \<and> to_u32 (Values (Record P) ! 0) \<noteq> 0 \<and> length (Nodes (Func P)) \<noteq> 1
      \<and> \<not> AllowErrorRecovery (Context P) \<Longrightarrow>
   ProcessRecord_DECLAREBLOCKS P = Inl (FatalError (ErrStream (Context P) @ [duplicateBlockCount]))"
  by (simp add: ProcessRecord_DECLAREBLOCKS_def isValidRecordSize_def Error_def
      TopLevelParser_Error_def duplicateBlockCount_def Let_def)

lemma DECLAREBLOCKS_after_instruction:
  "case ProcessRecords FunctionParser_ProcessRecord
          [\<lparr>Code = FUNC_CODE_INST_ALLOCA, Values = [1, 0]\<rparr>,
           \<lparr>Code = FUNC_CODE_DECLAREBLOCKS, Values = [2]\<rparr>] (exampleFunctionParser True)
       of Inl f \<Rightarrow> False
        | Inr P \<Rightarrow>
            Nodes (Func P) = [[InstAlloca (Variable 0 IceType_i32) 0 (Variable 1 IceType_i32)], []]
            \<and> NumErrors (Context P) = 0 \<and> ErrStream (Context P) = []"
  by code_simp

text \<open>
  Claim C7.  A second \<^verbatim>\<open>DECLAREBLOCKS\<close> record is to be reported as a duplicate.  The test
  of the source is that the function does not have exactly one basic block, so after a first
  record \<open>DECLAREBLOCKS [1]\<close> the second record \<open>DECLAREBLOCKS [3]\<close> is not reported, with error
  recovery or without: it adds two blocks and no error is counted.  After a first record
  \<open>DECLAREBLOCKS [2]\<close> the same second record is reported and adds nothing.
\<close>

theorem DECLAREBLOCKS_duplicate_not_reported:
  "(case ProcessRecords FunctionParser_ProcessRecord
          [\<lparr>Code = FUNC_CODE_DECLAREBLOCKS, Values = [1]\<rparr>,
           \<lparr>Code = FUNC_CODE_DECLAREBLOCKS, Values = [3]\<rparr>] (exampleFunctionParser True)
       of Inl f \<Rightarrow> False
        | Inr P \<Rightarrow> Nodes (Func P) = [[], [], []] \<and> NumErrors (Context P) = 0
                   \<and> \<not> ErrorStatus (Context P) \<and> ErrStream (Context P) = [])
   \<and> (case ProcessRecords FunctionParser_ProcessRecord
          [\<lparr>Code = FUNC_CODE_DECLAREBLOCKS, Values = [1]\<rparr>,
           \<lparr>Code = FUNC_CODE_DECLAREBLOCKS, Values = [3]\<rparr>] (exampleFunctionParser False)
       of Inl f \<Rightarrow> False
        | Inr P \<Rightarrow> Nodes (Func P) = [[], [], []] \<and> NumErrors (Context P) = 0
                   \<and> \<not> ErrorStatus (Context P) \<and> ErrStream (Context P) = [])
   \<and> (case ProcessRecords FunctionParser_ProcessRecord
          [\<lparr>Code = FUNC_CODE_DECLAREBLOCKS, Values = [2]\<rparr>,
           \<lparr>Code = FUNC_CODE_DECLAREBLOCKS, Values = [3]\<rparr>] (exampleFunctionParser True)
       of Inl f \<Rightarrow> False
        | Inr P \<Rightarrow> Nodes (Func P) = [[], []] \<and> NumErrors (Context P) = 1
                   \<and> ErrStream (Context P) = [duplicateBlockCount])"
proof -
  have a: "case ProcessRecords FunctionParser_ProcessRecord
          [\<lparr>Code = FUNC_CODE_DECLAREBLOCKS, Values = [1]\<rparr>,
           \<lparr>Code = FUNC_CODE_DECLAREBLOCKS, Values = [3]\<rparr>] (exampleFunctionParser True)
       of Inl f \<Rightarrow> False
        | Inr P \<Rightarrow> Nodes (Func P) = [[], [], []] \<and> NumErrors (Context P) = 0
                   \<and> \<not> ErrorStatus (Context P) \<and> ErrStream (Context P) = []"
    by code_simp
  have b: "case ProcessRecords FunctionParser_ProcessRecord
          [\<lparr>Code = FUNC_CODE_DECLAREBLOCKS, Values = [1]\<rparr>,
           \<lparr>Code = FUNC_CODE_DECLAREBLOCKS, Values = [3]\<rparr>] (exampleFunctionParser False)
       of Inl f \<Rightarrow> False
        | Inr P \<Rightarrow> Nodes (Func P) = [[], [], []] \<and> NumErrors (Context P) = 0
                   \<and> \<not> ErrorStatus (Context P) \<and> ErrStream (Context P) = []"
    by code_simp
  have c: "case ProcessRecords FunctionParser_ProcessRecord
          [\<lparr>Code = FUNC_CODE_DECLAREBLOCKS, Values = [2]\<rparr>,
           \<lparr>Code = FUNC_CODE_DECLAREBLOCKS, Values = [3]\<rparr>] (exampleFunctionParser True)
       of Inl f \<Rightarrow> False
        | Inr P \<Rightarrow> Nodes (Func P) = [[], []] \<and> NumErrors (Context P) = 1
                   \<and> ErrStream (Context P) = [duplicateBlockCount]"
    by code_simp
  show ?thesis using a b c by (intro conjI)
qed

section \<open>C6: recovery from an illegal cast\<close>

lemma convertCastOpToIceOp_trunc_i32_f64:
  "convertCastOpToIceOp CAST_TRUNC IceType_i32 IceType_f64 P =
     andThen (Error (illegalCast Trunc IceType_i32 IceType_f64) P) (\<lambda>P'. Inr ((False, Trunc), P'))"
  by (simp add: convertCastOpToIceOp_def castOpcode_def isIntTruncCastValid_def illegalCast_def
      isIntegerType_def)

lemma CAST_trunc_i32_f64_step:
  assumes "Code (Record P) = FUNC_CODE_INST_CAST" and "\<not> InstIsTerminating P"
    and "length (Values (Record P)) = 3"
    and "getRelativeOperand (to_u32 (Values (Record P) ! 0)) (NextLocalInstIndex P) P
           = Inr (Some S, P2)"
    and "getType S = IceType_i32"
    and "getSimpleTypeByID (unat (to_u32 (Values (Record P) ! 1))) (Context P2)
           = Inr (IceType_f64, C3)"
    and "Values (Record P) ! 2 = CAST_TRUNC"
    and "\<not> DisableIRGeneration C3"
  shows "FunctionParser_ProcessRecord P =
           andThen (Error (illegalCast Trunc IceType_i32 IceType_f64) (P2\<lparr>Context := C3\<rparr>))
             (appendErrorInstruction IceType_f64)"
  using assms
  by (simp add: FunctionParser_ProcessRecord_def ProcessRecord_CAST_def isValidRecordSize_def
      isIRGenerationDisabled_def deref_def convertCastOpToIceOp_trunc_i32_f64 Error_def
      TopLevelParser_Error_def Let_def split: sum.splits)

lemma appendErrorInstruction_fresh:
  assumes "\<not> isIRGenerationDisabled P" and "Ty0 \<noteq> IceType_void"
    and "CachedNumGlobalValueIDs P \<le> NextLocalInstIndex P"
    and "unat (NextLocalInstIndex P - CachedNumGlobalValueIDs P) = length (LocalOperands P)"
  shows "appendErrorInstruction Ty0 P =
           Inr (P\<lparr>Func := appendInst (CurrentNode P)
                           (InstAssign (Variable (NumVariables (Func P)) Ty0)
                                       (Variable (NumVariables (Func P)) Ty0))
                           ((Func P)\<lparr>NumVariables := NumVariables (Func P) + 1\<rparr>),
                   LocalOperands := LocalOperands P @ [Some (Variable (NumVariables (Func P)) Ty0)],
                   NextLocalInstIndex := NextLocalInstIndex P + 1\<rparr>)"
  using assms
  by (simp add: appendErrorInstruction_def getNextInstVar_def createInstVar_def makeVariable_def
      setOperand_def isIRGenerationDisabled_def Let_def)

lemma appendErrorInstruction_null:
  assumes "\<not> isIRGenerationDisabled P" and "Ty0 \<noteq> IceType_void"
    and "CachedNumGlobalValueIDs P \<le> NextLocalInstIndex P"
    and "unat (NextLocalInstIndex P - CachedNumGlobalValueIDs P) < length (LocalOperands P)"
    and "LocalOperands P ! unat (NextLocalInstIndex P - CachedNumGlobalValueIDs P) = None"
  shows "appendErrorInstruction Ty0 P =
           Inr (P\<lparr>Func := appendInst (CurrentNode P)
                           (InstAssign (Variable (NumVariables (Func P)) Ty0)
                                       (Variable (NumVariables (Func P)) Ty0))
                           ((Func P)\<lparr>NumVariables := NumVariables (Func P) + 1\<rparr>),
                   LocalOperands := (LocalOperands P)
                      [unat (NextLocalInstIndex P - CachedNumGlobalValueIDs P)
                         := Some (Variable (NumVariables (Func P)) Ty0)],
                   NextLocalInstIndex := NextLocalInstIndex P + 1\<rparr>)"
  using assms
  by (simp add: appendErrorInstruction_def getNextInstVar_def createInstVar_def makeVariable_def
      setOperand_def isIRGenerationDisabled_def Let_def)

lemma appendErrorInstruction_forward:
  assumes "\<not> isIRGenerationDisabled P" and "Ty0 \<noteq> IceType_void"
    and "CachedNumGlobalValueIDs P \<le> NextLocalInstIndex P"
    and "unat (NextLocalInstIndex P - CachedNumGlobalValueIDs P) < length (LocalOperands P)"
    and "LocalOperands P ! unat (NextLocalInstIndex P - CachedNumGlobalValueIDs P)
           = Some (Variable n Ty0)"
  shows "appendErrorInstruction Ty0 P =
           Inr (P\<lparr>Func := appendInst (CurrentNode P)
                           (InstAssign (Variable n Ty0) (Variable n Ty0)) (Func P),
                   NextLocalInstIndex := NextLocalInstIndex P + 1\<rparr>)"
  using assms
  by (simp add: appendErrorInstruction_def getNextInstVar_def isIRGenerationDisabled_def Let_def)

lemma appendErrorInstruction_forward_other:
  assumes "\<not> isIRGenerationDisabled P" and "Ty0 \<noteq> IceType_void"
    and "AllowErrorRecovery (Context P)"
    and "CachedNumGlobalValueIDs P \<le> NextLocalInstIndex P"
    and "unat (NextLocalInstIndex P - CachedNumGlobalValueIDs P) < length (LocalOperands P)"
    and "LocalOperands P ! unat (NextLocalInstIndex P - CachedNumGlobalValueIDs P)
           = Some (Variable n t)"
    and "t \<noteq> Ty0"
  shows "appendErrorInstruction Ty0 P =
           Inr (P\<lparr>Context := (Context P)\<lparr>ErrorStatus := True,
                      NumErrors := NumErrors (Context P) + 1,
                      ErrStream := ErrStream (Context P)
                        @ [illegalForwardReference (NextLocalInstIndex P) (Variable n t)]\<rparr>,
                   Func := appendInst (CurrentNode P)
                           (InstAssign (Variable (NumVariables (Func P)) Ty0)
                                       (Variable (NumVariables (Func P)) Ty0))
                           ((Func P)\<lparr>NumVariables := NumVariables (Func P) + 1\<rparr>),
                   NextLocalInstIndex := NextLocalInstIndex P + 1\<rparr>)"
  using assms
  by (simp add: appendErrorInstruction_def getNextInstVar_def createInstVar_def makeVariable_def
      isIRGenerationDisabled_def Error_def TopLevelParser_Error_def illegalForwardReference_def
      Let_def)


text \<open>
  Claim C6.  A cast record that is not preceded by a terminator, whose operand has type
  \<open>i32\<close>, whose type is \<open>f64\<close> and whose opcode is \<open>trunc\<close>, processed with IR generation
  enabled, reports \<open>Illegal cast: trunc i32 to f64\<close>.  With error recovery it then appends
  the assignment of a variable of type \<open>f64\<close> to itself and advances the next-instruction
  index by one.  The variable is a new one, recorded as the value of that index, when no
  forward type reference has declared the value; it is the variable of the forward type
  reference when that one has type \<open>f64\<close>; and when the forward type reference has
  another type, that is reported too and the variable is a new one.  Without error recovery
  the parse stops with the fatal error \<open>Illegal cast: trunc i32 to f64\<close>.
\<close>

theorem CAST_trunc_i32_f64_placeholder:
  "(Code (Record P) = FUNC_CODE_INST_CAST \<and> \<not> InstIsTerminating P
      \<and> length (Values (Record P)) = 3
      \<and> getRelativeOperand (to_u32 (Values (Record P) ! 0)) (NextLocalInstIndex P) P
          = Inr (Some S, P2)
      \<and> getType S = IceType_i32
      \<and> getSimpleTypeByID (unat (to_u32 (Values (Record P) ! 1))) (Context P2)
          = Inr (IceType_f64, C3)
      \<and> Values (Record P) ! 2 = CAST_TRUNC
      \<and> \<not> DisableIRGeneration C3 \<and> AllowErrorRecovery C3
      \<and> CachedNumGlobalValueIDs P2 \<le> NextLocalInstIndex P2
      \<and> unat (NextLocalInstIndex P2 - CachedNumGlobalValueIDs P2) = length (LocalOperands P2)
    \<longrightarrow>
      FunctionParser_ProcessRecord P =
        Inr (P2\<lparr>Context := C3\<lparr>ErrorStatus := True, NumErrors := NumErrors C3 + 1,
                   ErrStream := ErrStream C3 @ [illegalCast Trunc IceType_i32 IceType_f64]\<rparr>,
                 Func := appendInst (CurrentNode P2)
                           (InstAssign (Variable (NumVariables (Func P2)) IceType_f64)
                                       (Variable (NumVariables (Func P2)) IceType_f64))
                           ((Func P2)\<lparr>NumVariables := NumVariables (Func P2) + 1\<rparr>),
                 LocalOperands := LocalOperands P2
                                  @ [Some (Variable (NumVariables (Func P2)) IceType_f64)],
                 NextLocalInstIndex := NextLocalInstIndex P2 + 1\<rparr>))
   \<and> (Code (Record P) = FUNC_CODE_INST_CAST \<and> \<not> InstIsTerminating P
      \<and> length (Values (Record P)) = 3
      \<and> getRelativeOperand (to_u32 (Values (Record P) ! 0)) (NextLocalInstIndex P) P
          = Inr (Some S, P2)
      \<and> getType S = IceType_i32
      \<and> getSimpleTypeByID (unat (to_u32 (Values (Record P) ! 1))) (Context P2)
          = Inr (IceType_f64, C3)
      \<and> Values (Record P) ! 2 = CAST_TRUNC
      \<and> \<not> DisableIRGeneration C3 \<and> AllowErrorRecovery C3
      \<and> CachedNumGlobalValueIDs P2 \<le> NextLocalInstIndex P2
      \<and> unat (NextLocalInstIndex P2 - CachedNumGlobalValueIDs P2) < length (LocalOperands P2)
      \<and> LocalOperands P2 ! unat (NextLocalInstIndex P2 - CachedNumGlobalValueIDs P2) = None
    \<longrightarrow>
      FunctionParser_ProcessRecord P =
        Inr (P2\<lparr>Context := C3\<lparr>ErrorStatus := True, NumErrors := NumErrors C3 + 1,
                   ErrStream := ErrStream C3 @ [illegalCast Trunc IceType_i32 IceType_f64]\<rparr>,
                 Func := appendInst (CurrentNode P2)
                           (InstAssign (Variable (NumVariables (Func P2)) IceType_f64)
                                       (Variable (NumVariables (Func P2)) IceType_f64))
                           ((Func P2)\<lparr>NumVariables := NumVariables (Func P2) + 1\<rparr>),
                 LocalOperands := (LocalOperands P2)
                    [unat (NextLocalInstIndex P2 - CachedNumGlobalValueIDs P2)
                       := Some (Variable (NumVariables (Func P2)) IceType_f64)],
                 NextLocalInstIndex := NextLocalInstIndex P2 + 1\<rparr>))
   \<and> (Code (Record P) = FUNC_CODE_INST_CAST \<and> \<not> InstIsTerminating P
      \<and> length (Values (Record P)) = 3
      \<and> getRelativeOperand (to_u32 (Values (Record P) ! 0)) (NextLocalInstIndex P) P
          = Inr (Some S, P2)
      \<and> getType S = IceType_i32
      \<and> getSimpleTypeByID (unat (to_u32 (Values (Record P) ! 1))) (Context P2)
          = Inr (IceType_f64, C3)
      \<and> Values (Record P) ! 2 = CAST_TRUNC
      \<and> \<not> DisableIRGeneration C3 \<and> AllowErrorRecovery C3
      \<and> CachedNumGlobalValueIDs P2 \<le> NextLocalInstIndex P2
      \<and> unat (NextLocalInstIndex P2 - CachedNumGlobalValueIDs P2) < length (LocalOperands P2)
      \<and> LocalOperands P2 ! unat (NextLocalInstIndex P2 - CachedNumGlobalValueIDs P2)
          = Some (Variable n IceType_f64)
    \<longrightarrow>
      FunctionParser_ProcessRecord P =
        Inr (P2\<lparr>Context := C3\<lparr>ErrorStatus := True, NumErrors := NumErrors C3 + 1,
                   ErrStream := ErrStream C3 @ [illegalCast Trunc IceType_i32 IceType_f64]\<rparr>,
                 Func := appendInst (CurrentNode P2)
                           (InstAssign (Variable n IceType_f64) (Variable n IceType_f64))
                           (Func P2),
                 NextLocalInstIndex := NextLocalInstIndex P2 + 1\<rparr>))
   \<and> (Code (Record P) = FUNC_CODE_INST_CAST \<and> \<not> InstIsTerminating P
      \<and> length (Values (Record P)) = 3
      \<and> getRelativeOperand (to_u32 (Values (Record P) ! 0)) (NextLocalInstIndex P) P
          = Inr (Some S, P2)
      \<and> getType S = IceType_i32
      \<and> getSimpleTypeByID (unat (to_u32 (Values (Record P) ! 1))) (Context P2)
          = Inr (IceType_f64, C3)
      \<and> Values (Record P) ! 2 = CAST_TRUNC
      \<and> \<not> DisableIRGeneration C3 \<and> AllowErrorRecovery C3
      \<and> CachedNumGlobalValueIDs P2 \<le> NextLocalInstIndex P2
      \<and> unat (NextLocalInstIndex P2 - CachedNumGlobalValueIDs P2) < length (LocalOperands P2)
      \<and> LocalOperands P2 ! unat (NextLocalInstIndex P2 - CachedNumGlobalValueIDs P2)
          = Some (Variable n t)
      \<and> t \<noteq> IceType_f64
    \<longrightarrow>
      FunctionParser_ProcessRecord P =
        Inr (P2\<lparr>Context := C3\<lparr>ErrorStatus := True, NumErrors := NumErrors C3 + 2,
                   ErrStream := ErrStream C3
                     @ [illegalCast Trunc IceType_i32 IceType_f64,
                        illegalForwardReference (NextLocalInstIndex P2) (Variable n t)]\<rparr>,
                 Func := appendInst (CurrentNode P2)
                           (InstAssign (Variable (NumVariables (Func P2)) IceType_f64)
                                       (Variable (NumVariables (Func P2)) IceType_f64))
                           ((Func P2)\<lparr>NumVariables := NumVariables (Func P2) + 1\<rparr>),
                 NextLocalInstIndex := NextLocalInstIndex P2 + 1\<rparr>))
   \<and> (Code (Record P) = FUNC_CODE_INST_CAST \<and> \<not> InstIsTerminating P
      \<and> length (Values (Record P)) = 3
      \<and> getRelativeOperand (to_u32 (Values (Record P) ! 0)) (NextLocalInstIndex P) P
          = Inr (Some S, P2)
      \<and> getType S = IceType_i32
      \<and> getSimpleTypeByID (unat (to_u32 (Values (Record P) ! 1))) (Context P2)
          = Inr (IceType_f64, C3)
      \<and> Values (Record P) ! 2 = CAST_TRUNC
      \<and> \<not> DisableIRGeneration C3 \<and> \<not> AllowErrorRecovery C3
    \<longrightarrow>
      FunctionParser_ProcessRecord P =
        Inl (FatalError (ErrStream C3 @ [illegalCast Trunc IceType_i32 IceType_f64])))"
proof -
  let ?m = "illegalCast Trunc IceType_i32 IceType_f64"
  let ?E = "C3\<lparr>ErrorStatus := True, NumErrors := NumErrors C3 + 1,
                   ErrStream := ErrStream C3 @ [illegalCast Trunc IceType_i32 IceType_f64]\<rparr>"
  have c1: "Code (Record P) = FUNC_CODE_INST_CAST \<and> \<not> InstIsTerminating P
      \<and> length (Values (Record P)) = 3
      \<and> getRelativeOperand (to_u32 (Values (Record P) ! 0)) (NextLocalInstIndex P) P
          = Inr (Some S, P2)
      \<and> getType S = IceType_i32
      \<and> getSimpleTypeByID (unat (to_u32 (Values (Record P) ! 1))) (Context P2)
          = Inr (IceType_f64, C3)
      \<and> Values (Record P) ! 2 = CAST_TRUNC
      \<and> \<not> DisableIRGeneration C3 \<and> AllowErrorRecovery C3
      \<and> CachedNumGlobalValueIDs P2 \<le> NextLocalInstIndex P2
      \<and> unat (NextLocalInstIndex P2 - CachedNumGlobalValueIDs P2) = length (LocalOperands P2)
    \<longrightarrow>
      FunctionParser_ProcessRecord P =
        Inr (P2\<lparr>Context := C3\<lparr>ErrorStatus := True, NumErrors := NumErrors C3 + 1,
                   ErrStream := ErrStream C3 @ [illegalCast Trunc IceType_i32 IceType_f64]\<rparr>,
                 Func := appendInst (CurrentNode P2)
                           (InstAssign (Variable (NumVariables (Func P2)) IceType_f64)
                                       (Variable (NumVariables (Func P2)) IceType_f64))
                           ((Func P2)\<lparr>NumVariables := NumVariables (Func P2) + 1\<rparr>),
                 LocalOperands := LocalOperands P2
                                  @ [Some (Variable (NumVariables (Func P2)) IceType_f64)],
                 NextLocalInstIndex := NextLocalInstIndex P2 + 1\<rparr>)"
  proof
    assume h: "Code (Record P) = FUNC_CODE_INST_CAST \<and> \<not> InstIsTerminating P
      \<and> length (Values (Record P)) = 3
      \<and> getRelativeOperand (to_u32 (Values (Record P) ! 0)) (NextLocalInstIndex P) P
          = Inr (Some S, P2)
      \<and> getType S = IceType_i32
      \<and> getSimpleTypeByID (unat (to_u32 (Values (Record P) ! 1))) (Context P2)
          = Inr (IceType_f64, C3)
      \<and> Values (Record P) ! 2 = CAST_TRUNC
      \<and> \<not> DisableIRGeneration C3 \<and> AllowErrorRecovery C3
      \<and> CachedNumGlobalValueIDs P2 \<le> NextLocalInstIndex P2
      \<and> unat (NextLocalInstIndex P2 - CachedNumGlobalValueIDs P2) = length (LocalOperands P2)"
    have s: "FunctionParser_ProcessRecord P =
           andThen (Error ?m (P2\<lparr>Context := C3\<rparr>)) (appendErrorInstruction IceType_f64)"
      using h CAST_trunc_i32_f64_step [where P = P and S = S and ?P2.0 = P2 and ?C3.0 = C3]
      by blast
    have e: "Error ?m (P2\<lparr>Context := C3\<rparr>) = Inr (P2\<lparr>Context := ?E\<rparr>)"
      using h by (simp add: Error_def TopLevelParser_Error_def Let_def)
    show "FunctionParser_ProcessRecord P =
        Inr (P2\<lparr>Context := C3\<lparr>ErrorStatus := True, NumErrors := NumErrors C3 + 1,
                   ErrStream := ErrStream C3 @ [illegalCast Trunc IceType_i32 IceType_f64]\<rparr>,
                 Func := appendInst (CurrentNode P2)
                           (InstAssign (Variable (NumVariables (Func P2)) IceType_f64)
                                       (Variable (NumVariables (Func P2)) IceType_f64))
                           ((Func P2)\<lparr>NumVariables := NumVariables (Func P2) + 1\<rparr>),
                 LocalOperands := LocalOperands P2
                                  @ [Some (Variable (NumVariables (Func P2)) IceType_f64)],
                 NextLocalInstIndex := NextLocalInstIndex P2 + 1\<rparr>)"
      unfolding s e andThen_simps
      using h appendErrorInstruction_fresh [where P = "P2\<lparr>Context := ?E\<rparr>" and ?Ty0.0 = IceType_f64]
      by (simp add: isIRGenerationDisabled_def)
  qed
  have c2: "Code (Record P) = FUNC_CODE_INST_CAST \<and> \<not> InstIsTerminating P
      \<and> length (Values (Record P)) = 3
      \<and> getRelativeOperand (to_u32 (Values (Record P) ! 0)) (NextLocalInstIndex P) P
          = Inr (Some S, P2)
      \<and> getType S = IceType_i32
      \<and> getSimpleTypeByID (unat (to_u32 (Values (Record P) ! 1))) (Context P2)
          = Inr (IceType_f64, C3)
      \<and> Values (Record P) ! 2 = CAST_TRUNC
      \<and> \<not> DisableIRGeneration C3 \<and> AllowErrorRecovery C3
      \<and> CachedNumGlobalValueIDs P2 \<le> NextLocalInstIndex P2
      \<and> unat (NextLocalInstIndex P2 - CachedNumGlobalValueIDs P2) < length (LocalOperands P2)
      \<and> LocalOperands P2 ! unat (NextLocalInstIndex P2 - CachedNumGlobalValueIDs P2) = None
    \<longrightarrow>
      FunctionParser_ProcessRecord P =
        Inr (P2\<lparr>Context := C3\<lparr>ErrorStatus := True, NumErrors := NumErrors C3 + 1,
                   ErrStream := ErrStream C3 @ [illegalCast Trunc IceType_i32 IceType_f64]\<rparr>,
                 Func := appendInst (CurrentNode P2)
                           (InstAssign (Variable (NumVariables (Func P2)) IceType_f64)
                                       (Variable (NumVariables (Func P2)) IceType_f64))
                           ((Func P2)\<lparr>NumVariables := NumVariables (Func P2) + 1\<rparr>),
                 LocalOperands := (LocalOperands P2)
                    [unat (NextLocalInstIndex P2 - CachedNumGlobalValueIDs P2)
                       := Some (Variable (NumVariables (Func P2)) IceType_f64)],
                 NextLocalInstIndex := NextLocalInstIndex P2 + 1\<rparr>)"
  proof
    assume h: "Code (Record P) = FUNC_CODE_INST_CAST \<and> \<not> InstIsTerminating P
      \<and> length (Values (Record P)) = 3
      \<and> getRelativeOperand (to_u32 (Values (Record P) ! 0)) (NextLocalInstIndex P) P
          = Inr (Some S, P2)
      \<and> getType S = IceType_i32
      \<and> getSimpleTypeByID (unat (to_u32 (Values (Record P) ! 1))) (Context P2)
          = Inr (IceType_f64, C3)
      \<and> Values (Record P) ! 2 = CAST_TRUNC
      \<and> \<not> DisableIRGeneration C3 \<and> AllowErrorRecovery C3
      \<and> CachedNumGlobalValueIDs P2 \<le> NextLocalInstIndex P2
      \<and> unat (NextLocalInstIndex P2 - CachedNumGlobalValueIDs P2) < length (LocalOperands P2)
      \<and> LocalOperands P2 ! unat (NextLocalInstIndex P2 - CachedNumGlobalValueIDs P2) = None"
    have s: "FunctionParser_ProcessRecord P =
           andThen (Error ?m (P2\<lparr>Context := C3\<rparr>)) (appendErrorInstruction IceType_f64)"
      using h CAST_trunc_i32_f64_step [where P = P and S = S and ?P2.0 = P2 and ?C3.0 = C3]
      by blast
    have e: "Error ?m (P2\<lparr>Context := C3\<rparr>) = Inr (P2\<lparr>Context := ?E\<rparr>)"
      using h by (simp add: Error_def TopLevelParser_Error_def Let_def)
    show "FunctionParser_ProcessRecord P =
        Inr (P2\<lparr>Context := C3\<lparr>ErrorStatus := True, NumErrors := NumErrors C3 + 1,
                   ErrStream := ErrStream C3 @ [illegalCast Trunc IceType_i32 IceType_f64]\<rparr>,
                 Func := appendInst (CurrentNode P2)
                           (InstAssign (Variable (NumVariables (Func P2)) IceType_f64)
                                       (Variable (NumVariables (Func P2)) IceType_f64))
                           ((Func P2)\<lparr>NumVariables := NumVariables (Func P2) + 1\<rparr>),
                 LocalOperands := (LocalOperands P2)
                    [unat (NextLocalInstIndex P2 - CachedNumGlobalValueIDs P2)
                       := Some (Variable (NumVariables (Func P2)) IceType_f64)],
                 NextLocalInstIndex := NextLocalInstIndex P2 + 1\<rparr>)"
      unfolding s e andThen_simps
      using h appendErrorInstruction_null [where P = "P2\<lparr>Context := ?E\<rparr>" and ?Ty0.0 = IceType_f64]
      by (simp add: isIRGenerationDisabled_def)
  qed
  have c3: "Code (Record P) = FUNC_CODE_INST_CAST \<and> \<not> InstIsTerminating P
      \<and> length (Values (Record P)) = 3
      \<and> getRelativeOperand (to_u32 (Values (Record P) ! 0)) (NextLocalInstIndex P) P
          = Inr (Some S, P2)
      \<and> getType S = IceType_i32
      \<and> getSimpleTypeByID (unat (to_u32 (Values (Record P) ! 1))) (Context P2)
          = Inr (IceType_f64, C3)
      \<and> Values (Record P) ! 2 = CAST_TRUNC
      \<and> \<not> DisableIRGeneration C3 \<and> AllowErrorRecovery C3
      \<and> CachedNumGlobalValueIDs P2 \<le> NextLocalInstIndex P2
      \<and> unat (NextLocalInstIndex P2 - CachedNumGlobalValueIDs P2) < length (LocalOperands P2)
      \<and> LocalOperands P2 ! unat (NextLocalInstIndex P2 - CachedNumGlobalValueIDs P2)
          = Some (Variable n IceType_f64)
    \<longrightarrow>
      FunctionParser_ProcessRecord P =
        Inr (P2\<lparr>Context := C3\<lparr>ErrorStatus := True, NumErrors := NumErrors C3 + 1,
                   ErrStream := ErrStream C3 @ [illegalCast Trunc IceType_i32 IceType_f64]\<rparr>,
                 Func := appendInst (CurrentNode P2)
                           (InstAssign (Variable n IceType_f64) (Variable n IceType_f64))
                           (Func P2),
                 NextLocalInstIndex := NextLocalInstIndex P2 + 1\<rparr>)"
  proof
    assume h: "Code (Record P) = FUNC_CODE_INST_CAST \<and> \<not> InstIsTerminating P
      \<and> length (Values (Record P)) = 3
      \<and> getRelativeOperand (to_u32 (Values (Record P) ! 0)) (NextLocalInstIndex P) P
          = Inr (Some S, P2)
      \<and> getType S = IceType_i32
      \<and> getSimpleTypeByID (unat (to_u32 (Values (Record P) ! 1))) (Context P2)
          = Inr (IceType_f64, C3)
      \<and> Values (Record P) ! 2 = CAST_TRUNC
      \<and> \<not> DisableIRGeneration C3 \<and> AllowErrorRecovery C3
      \<and> CachedNumGlobalValueIDs P2 \<le> NextLocalInstIndex P2
      \<and> unat (NextLocalInstIndex P2 - CachedNumGlobalValueIDs P2) < length (LocalOperands P2)
      \<and> LocalOperands P2 ! unat (NextLocalInstIndex P2 - CachedNumGlobalValueIDs P2)
          = Some (Variable n IceType_f64)"
    have s: "FunctionParser_ProcessRecord P =
           andThen (Error ?m (P2\<lparr>Context := C3\<rparr>)) (appendErrorInstruction IceType_f64)"
      using h CAST_trunc_i32_f64_step [where P = P and S = S and ?P2.0 = P2 and ?C3.0 = C3]
      by blast
    have e: "Error ?m (P2\<lparr>Context := C3\<rparr>) = Inr (P2\<lparr>Context := ?E\<rparr>)"
      using h by (simp add: Error_def TopLevelParser_Error_def Let_def)
    show "FunctionParser_ProcessRecord P =
        Inr (P2\<lparr>Context := C3\<lparr>ErrorStatus := True, NumErrors := NumErrors C3 + 1,
                   ErrStream := ErrStream C3 @ [illegalCast Trunc IceType_i32 IceType_f64]\<rparr>,
                 Func := appendInst (CurrentNode P2)
                           (InstAssign (Variable n IceType_f64) (Variable n IceType_f64))
                           (Func P2),
                 NextLocalInstIndex := NextLocalInstIndex P2 + 1\<rparr>)"
      unfolding s e andThen_simps
      using h appendErrorInstruction_forward [where P = "P2\<lparr>Context := ?E\<rparr>" and ?Ty0.0 = IceType_f64]
      by (simp add: isIRGenerationDisabled_def)
  qed
  have c4: "Code (Record P) = FUNC_CODE_INST_CAST \<and> \<not> InstIsTerminating P
      \<and> length (Values (Record P)) = 3
      \<and> getRelativeOperand (to_u32 (Values (Record P) ! 0)) (NextLocalInstIndex P) P
          = Inr (Some S, P2)
      \<and> getType S = IceType_i32
      \<and> getSimpleTypeByID (unat (to_u32 (Values (Record P) ! 1))) (Context P2)
          = Inr (IceType_f64, C3)
      \<and> Values (Record P) ! 2 = CAST_TRUNC
      \<and> \<not> DisableIRGeneration C3 \<and> AllowErrorRecovery C3
      \<and> CachedNumGlobalValueIDs P2 \<le> NextLocalInstIndex P2
      \<and> unat (NextLocalInstIndex P2 - CachedNumGlobalValueIDs P2) < length (LocalOperands P2)
      \<and> LocalOperands P2 ! unat (NextLocalInstIndex P2 - CachedNumGlobalValueIDs P2)
          = Some (Variable n t)
      \<and> t \<noteq> IceType_f64
    \<longrightarrow>
      FunctionParser_ProcessRecord P =
        Inr (P2\<lparr>Context := C3\<lparr>ErrorStatus := True, NumErrors := NumErrors C3 + 2,
                   ErrStream := ErrStream C3
                     @ [illegalCast Trunc IceType_i32 IceType_f64,
                        illegalForwardReference (NextLocalInstIndex P2) (Variable n t)]\<rparr>,
                 Func := appendInst (CurrentNode P2)
                           (InstAssign (Variable (NumVariables (Func P2)) IceType_f64)
                                       (Variable (NumVariables (Func P2)) IceType_f64))
                           ((Func P2)\<lparr>NumVariables := NumVariables (Func P2) + 1\<rparr>),
                 NextLocalInstIndex := NextLocalInstIndex P2 + 1\<rparr>)"
  proof
    assume h: "Code (Record P) = FUNC_CODE_INST_CAST \<and> \<not> InstIsTerminating P
      \<and> length (Values (Record P)) = 3
      \<and> getRelativeOperand (to_u32 (Values (Record P) ! 0)) (NextLocalInstIndex P) P
          = Inr (Some S, P2)
      \<and> getType S = IceType_i32
      \<and> getSimpleTypeByID (unat (to_u32 (Values (Record P) ! 1))) (Context P2)
          = Inr (IceType_f64, C3)
      \<and> Values (Record P) ! 2 = CAST_TRUNC
      \<and> \<not> DisableIRGeneration C3 \<and> AllowErrorRecovery C3
      \<and> CachedNumGlobalValueIDs P2 \<le> NextLocalInstIndex P2
      \<and> unat (NextLocalInstIndex P2 - CachedNumGlobalValueIDs P2) < length (LocalOperands P2)
      \<and> LocalOperands P2 ! unat (NextLocalInstIndex P2 - CachedNumGlobalValueIDs P2)
          = Some (Variable n t)
      \<and> t \<noteq> IceType_f64"
    have s: "FunctionParser_ProcessRecord P =
           andThen (Error ?m (P2\<lparr>Context := C3\<rparr>)) (appendErrorInstruction IceType_f64)"
      using h CAST_trunc_i32_f64_step [where P = P and S = S and ?P2.0 = P2 and ?C3.0 = C3]
      by blast
    have e: "Error ?m (P2\<lparr>Context := C3\<rparr>) = Inr (P2\<lparr>Context := ?E\<rparr>)"
      using h by (simp add: Error_def TopLevelParser_Error_def Let_def)
    show "FunctionParser_ProcessRecord P =
        Inr (P2\<lparr>Context := C3\<lparr>ErrorStatus := True, NumErrors := NumErrors C3 + 2,
                   ErrStream := ErrStream C3
                     @ [illegalCast Trunc IceType_i32 IceType_f64,
                        illegalForwardReference (NextLocalInstIndex P2) (Variable n t)]\<rparr>,
                 Func := appendInst (CurrentNode P2)
                           (InstAssign (Variable (NumVariables (Func P2)) IceType_f64)
                                       (Variable (NumVariables (Func P2)) IceType_f64))
                           ((Func P2)\<lparr>NumVariables := NumVariables (Func P2) + 1\<rparr>),
                 NextLocalInstIndex := NextLocalInstIndex P2 + 1\<rparr>)"
      unfolding s e andThen_simps
      using h appendErrorInstruction_forward_other [where P = "P2\<lparr>Context := ?E\<rparr>" and ?Ty0.0 = IceType_f64]
      by (simp add: isIRGenerationDisabled_def)
  qed
  have c5: "Code (Record P) = FUNC_CODE_INST_CAST \<and> \<not> InstIsTerminating P
      \<and> length (Values (Record P)) = 3
      \<and> getRelativeOperand (to_u32 (Values (Record P) ! 0)) (NextLocalInstIndex P) P
          = Inr (Some S, P2)
      \<and> getType S = IceType_i32
      \<and> getSimpleTypeByID (unat (to_u32 (Values (Record P) ! 1))) (Context P2)
          = Inr (IceType_f64, C3)
      \<and> Values (Record P) ! 2 = CAST_TRUNC
      \<and> \<not> DisableIRGeneration C3 \<and> \<not> AllowErrorRecovery C3
    \<longrightarrow>
      FunctionParser_ProcessRecord P =
        Inl (FatalError (ErrStream C3 @ [illegalCast Trunc IceType_i32 IceType_f64]))"
  proof
    assume h: "Code (Record P) = FUNC_CODE_INST_CAST \<and> \<not> InstIsTerminating P
      \<and> length (Values (Record P)) = 3
      \<and> getRelativeOperand (to_u32 (Values (Record P) ! 0)) (NextLocalInstIndex P) P
          = Inr (Some S, P2)
      \<and> getType S = IceType_i32
      \<and> getSimpleTypeByID (unat (to_u32 (Values (Record P) ! 1))) (Context P2)
          = Inr (IceType_f64, C3)
      \<and> Values (Record P) ! 2 = CAST_TRUNC
      \<and> \<not> DisableIRGeneration C3 \<and> \<not> AllowErrorRecovery C3"
    have s: "FunctionParser_ProcessRecord P =
           andThen (Error ?m (P2\<lparr>Context := C3\<rparr>)) (appendErrorInstruction IceType_f64)"
      using h CAST_trunc_i32_f64_step [where P = P and S = S and ?P2.0 = P2 and ?C3.0 = C3]
      by blast
    show "FunctionParser_ProcessRecord P =
        Inl (FatalError (ErrStream C3 @ [illegalCast Trunc IceType_i32 IceType_f64]))"
      unfolding s using h by (simp add: Error_def TopLevelParser_Error_def Let_def)
  qed
  show ?thesis using c1 c2 c3 c4 c5 by (intro conjI)
qed


text \<open>
  The theorem at the record \<open>CAST [1, f64, trunc]\<close> in the example function, with error
  recovery and without, and the message as it is printed.
\<close>

theorem CAST_trunc_i32_f64_placeholder_witness:
  "renderMessage (illegalCast Trunc IceType_i32 IceType_f64) = Some ''Illegal cast: trunc i32 to f64''
   \<and> FunctionParser_ProcessRecord
        ((exampleFunctionParser True)\<lparr>Record := \<lparr>Code = FUNC_CODE_INST_CAST, Values = [1, 2, 0]\<rparr>\<rparr>)
       = Inr ((exampleFunctionParser True)
                \<lparr>Record := \<lparr>Code = FUNC_CODE_INST_CAST, Values = [1, 2, 0]\<rparr>,
                 Context := (Context (exampleFunctionParser True))
                   \<lparr>ErrorStatus := True, NumErrors := 1,
                    ErrStream := [illegalCast Trunc IceType_i32 IceType_f64]\<rparr>,
                 Func := (Func (exampleFunctionParser True))
                   \<lparr>NumVariables := 2,
                    Nodes := [[InstAssign (Variable 1 IceType_f64) (Variable 1 IceType_f64)]]\<rparr>,
                 LocalOperands := [Some (Variable 0 IceType_i32), Some (Variable 1 IceType_f64)],
                 NextLocalInstIndex := 3\<rparr>)
   \<and> FunctionParser_ProcessRecord
        ((exampleFunctionParser False)\<lparr>Record := \<lparr>Code = FUNC_CODE_INST_CAST, Values = [1, 2, 0]\<rparr>\<rparr>)
       = Inl (FatalError [illegalCast Trunc IceType_i32 IceType_f64])"
proof -
  let ?m = "illegalCast Trunc IceType_i32 IceType_f64"
  let ?P = "exampleFunctionParser True"
  let ?R = "?P\<lparr>Record := \<lparr>Code = FUNC_CODE_INST_CAST, Values = [1, 2, 0]\<rparr>\<rparr>"
  let ?F = "(exampleFunctionParser False)\<lparr>Record := \<lparr>Code = FUNC_CODE_INST_CAST, Values = [1, 2, 0]\<rparr>\<rparr>"
  have r: "renderMessage ?m = Some ''Illegal cast: trunc i32 to f64''" by code_simp
  have h: "Code (Record ?R) = FUNC_CODE_INST_CAST \<and> \<not> InstIsTerminating ?R
      \<and> length (Values (Record ?R)) = 3
      \<and> getRelativeOperand (to_u32 (Values (Record ?R) ! 0)) (NextLocalInstIndex ?R) ?R
          = Inr (Some (Variable 0 IceType_i32), ?R)
      \<and> getType (Variable 0 IceType_i32) = IceType_i32
      \<and> getSimpleTypeByID (unat (to_u32 (Values (Record ?R) ! 1))) (Context ?R)
          = Inr (IceType_f64, Context ?R)
      \<and> Values (Record ?R) ! 2 = CAST_TRUNC
      \<and> \<not> DisableIRGeneration (Context ?R) \<and> AllowErrorRecovery (Context ?R)
      \<and> CachedNumGlobalValueIDs ?R \<le> NextLocalInstIndex ?R
      \<and> unat (NextLocalInstIndex ?R - CachedNumGlobalValueIDs ?R) = length (LocalOperands ?R)"
    by (simp add: exampleFunctionParser_def exampleContext_def TopLevelParser_new_def to_u32_def
        getRelativeOperand_def convertRelativeToAbsIndex_def getOperand_def
        getSimpleTypeByID_def getTypeByIDAsKind_def)
  have e: "?R\<lparr>Context := (Context ?R)\<lparr>ErrorStatus := True,
                   NumErrors := NumErrors (Context ?R) + 1,
                   ErrStream := ErrStream (Context ?R) @ [?m]\<rparr>,
                 Func := appendInst (CurrentNode ?R)
                           (InstAssign (Variable (NumVariables (Func ?R)) IceType_f64)
                                       (Variable (NumVariables (Func ?R)) IceType_f64))
                           ((Func ?R)\<lparr>NumVariables := NumVariables (Func ?R) + 1\<rparr>),
                 LocalOperands := LocalOperands ?R
                                  @ [Some (Variable (NumVariables (Func ?R)) IceType_f64)],
                 NextLocalInstIndex := NextLocalInstIndex ?R + 1\<rparr>
           = ?P\<lparr>Record := \<lparr>Code = FUNC_CODE_INST_CAST, Values = [1, 2, 0]\<rparr>,
                 Context := (Context ?P)
                   \<lparr>ErrorStatus := True, NumErrors := 1, ErrStream := [?m]\<rparr>,
                 Func := (Func ?P)
                   \<lparr>NumVariables := 2,
                    Nodes := [[InstAssign (Variable 1 IceType_f64) (Variable 1 IceType_f64)]]\<rparr>,
                 LocalOperands := [Some (Variable 0 IceType_i32), Some (Variable 1 IceType_f64)],
                 NextLocalInstIndex := 3\<rparr>"
    by (simp add: exampleFunctionParser_def exampleContext_def TopLevelParser_new_def
        appendInst_def)
  have w1: "FunctionParser_ProcessRecord ?R =
        Inr (?R\<lparr>Context := (Context ?R)\<lparr>ErrorStatus := True,
                   NumErrors := NumErrors (Context ?R) + 1,
                   ErrStream := ErrStream (Context ?R) @ [?m]\<rparr>,
                 Func := appendInst (CurrentNode ?R)
                           (InstAssign (Variable (NumVariables (Func ?R)) IceType_f64)
                                       (Variable (NumVariables (Func ?R)) IceType_f64))
                           ((Func ?R)\<lparr>NumVariables := NumVariables (Func ?R) + 1\<rparr>),
                 LocalOperands := LocalOperands ?R
                                  @ [Some (Variable (NumVariables (Func ?R)) IceType_f64)],
                 NextLocalInstIndex := NextLocalInstIndex ?R + 1\<rparr>)"
    using CAST_trunc_i32_f64_placeholder [where P = ?R and S = "Variable 0 IceType_i32"
        and ?P2.0 = ?R and ?C3.0 = "Context ?R", THEN conjunct1] h by blast
  have f: "Code (Record ?F) = FUNC_CODE_INST_CAST \<and> \<not> InstIsTerminating ?F
      \<and> length (Values (Record ?F)) = 3
      \<and> getRelativeOperand (to_u32 (Values (Record ?F) ! 0)) (NextLocalInstIndex ?F) ?F
          = Inr (Some (Variable 0 IceType_i32), ?F)
      \<and> getType (Variable 0 IceType_i32) = IceType_i32
      \<and> getSimpleTypeByID (unat (to_u32 (Values (Record ?F) ! 1))) (Context ?F)
          = Inr (IceType_f64, Context ?F)
      \<and> Values (Record ?F) ! 2 = CAST_TRUNC
      \<and> \<not> DisableIRGeneration (Context ?F) \<and> \<not> AllowErrorRecovery (Context ?F)"
    by (simp add: exampleFunctionParser_def exampleContext_def TopLevelParser_new_def to_u32_def
        getRelativeOperand_def convertRelativeToAbsIndex_def getOperand_def
        getSimpleTypeByID_def getTypeByIDAsKind_def)
  have fe: "ErrStream (Context ?F) @ [?m] = [?m]"
    by (simp add: exampleFunctionParser_def exampleContext_def TopLevelParser_new_def)
  have w2: "FunctionParser_ProcessRecord ?F = Inl (FatalError [?m])"
    using CAST_trunc_i32_f64_placeholder [where P = ?F and S = "Variable 0 IceType_i32"
        and ?P2.0 = ?F and ?C3.0 = "Context ?F",
        THEN conjunct2, THEN conjunct2, THEN conjunct2, THEN conjunct2] f
    unfolding fe by blast
  show ?thesis using r w1 [unfolded e] w2 by (intro conjI)
qed

text \<open>
  The variable of the placeholder is not always a new one: after a forward type reference
  that declares the value 2 with type \<open>f64\<close>, the cast record makes no variable, and the
  placeholder assigns the variable of the forward type reference to itself.
\<close>

theorem CAST_trunc_i32_f64_placeholder_counterexample:
  "(case ProcessRecords FunctionParser_ProcessRecord
          [\<lparr>Code = FUNC_CODE_DECLAREBLOCKS, Values = [1]\<rparr>,
           \<lparr>Code = FUNC_CODE_INST_FORWARDTYPEREF, Values = [2, 2]\<rparr>] (exampleFunctionParser True)
       of Inl f \<Rightarrow> False
        | Inr P \<Rightarrow>
            NextLocalInstIndex P = 2 \<and> NumVariables (Func P) = 2
            \<and> LocalOperands P = [Some (Variable 0 IceType_i32), Some (Variable 1 IceType_f64)]
            \<and> Nodes (Func P) = [[]])
   \<and> (case ProcessRecords FunctionParser_ProcessRecord
          [\<lparr>Code = FUNC_CODE_DECLAREBLOCKS, Values = [1]\<rparr>,
           \<lparr>Code = FUNC_CODE_INST_FORWARDTYPEREF, Values = [2, 2]\<rparr>,
           \<lparr>Code = FUNC_CODE_INST_CAST, Values = [1, 2, 0]\<rparr>] (exampleFunctionParser True)
       of Inl f \<Rightarrow> False
        | Inr P \<Rightarrow>
            NextLocalInstIndex P = 3 \<and> NumVariables (Func P) = 2
            \<and> LocalOperands P = [Some (Variable 0 IceType_i32), Some (Variable 1 IceType_f64)]
            \<and> Nodes (Func P) = [[InstAssign (Variable 1 IceType_f64) (Variable 1 IceType_f64)]]
            \<and> ErrStream (Context P) = [illegalCast Trunc IceType_i32 IceType_f64])"
proof -
  have a: "case ProcessRecords FunctionParser_ProcessRecord
          [\<lparr>Code = FUNC_CODE_DECLAREBLOCKS, Values = [1]\<rparr>,
           \<lparr>Code = FUNC_CODE_INST_FORWARDTYPEREF, Values = [2, 2]\<rparr>] (exampleFunctionParser True)
       of Inl f \<Rightarrow> False
        | Inr P \<Rightarrow>
            NextLocalInstIndex P = 2 \<and> NumVariables (Func P) = 2
            \<and> LocalOperands P = [Some (Variable 0 IceType_i32), Some (Variable 1 IceType_f64)]
            \<and> Nodes (Func P) = [[]]"
    by code_simp
  have b: "case ProcessRecords FunctionParser_ProcessRecord
          [\<lparr>Code = FUNC_CODE_DECLAREBLOCKS, Values = [1]\<rparr>,
           \<lparr>Code = FUNC_CODE_INST_FORWARDTYPEREF, Values = [2, 2]\<rparr>,
           \<lparr>Code = FUNC_CODE_INST_CAST, Values = [1, 2, 0]\<rparr>] (exampleFunctionParser True)
       of Inl f \<Rightarrow> False
        | Inr P \<Rightarrow>
            NextLocalInstIndex P = 3 \<and> NumVariables (Func P) = 2
            \<and> LocalOperands P = [Some (Variable 0 IceType_i32), Some (Variable 1 IceType_f64)]
            \<and> Nodes (Func P) = [[InstAssign (Variable 1 IceType_f64) (Variable 1 IceType_f64)]]
            \<and> ErrStream (Context P) = [illegalCast Trunc IceType_i32 IceType_f64]"
    by code_simp
  show ?thesis using a b by (rule conjI)
qed

section \<open>C4: basic blocks after the exit of the function block\<close>

lemma Error_Inr_eq:
  "Error m P = Inr P' \<Longrightarrow>
   AllowErrorRecovery (Context P)
   \<and> P' = P\<lparr>Context := (Context P)\<lparr>ErrorStatus := True,
               NumErrors := NumErrors (Context P) + 1, ErrStream := ErrStream (Context P) @ [m]\<rparr>\<rparr>"
  by (auto simp: Error_def TopLevelParser_Error_def Let_def split: if_splits)

lemma PatchEmptyNodes_Inr:
  "PatchEmptyNodes js P = Inr P' \<Longrightarrow> distinct js \<Longrightarrow>
   \<forall>i\<in>set js. i < length (Nodes (Func P)) \<Longrightarrow>
   Func P' = (Func P)\<lparr>Nodes := Nodes (Func P')\<rparr>
   \<and> length (Nodes (Func P')) = length (Nodes (Func P))
   \<and> (\<forall>i<length (Nodes (Func P)).
         Nodes (Func P') ! i =
           (if i \<in> set js \<and> Nodes (Func P) ! i = [] then [InstUnreachable]
            else Nodes (Func P) ! i))
   \<and> NumErrors (Context P') =
       NumErrors (Context P) + length (filter (\<lambda>i. Nodes (Func P) ! i = []) js)
   \<and> TranslatedFcns (Context P') = TranslatedFcns (Context P)
   \<and> DisableIRGeneration (Context P') = DisableIRGeneration (Context P)"
proof (induction js arbitrary: P)
  case Nil
  then show ?case by simp
next
  case (Cons j js)
  have jl: "j < length (Nodes (Func P))" using Cons.prems(3) by simp
  have d: "distinct js" and jn: "j \<notin> set js" using Cons.prems(2) by simp_all
  show ?case
  proof (cases "Nodes (Func P) ! j = []")
    case False
    have r: "PatchEmptyNodes js P = Inr P'" using Cons.prems(1) False by simp
    have b: "\<forall>i\<in>set js. i < length (Nodes (Func P))" using Cons.prems(3) by simp
    note ih = Cons.IH [OF r d b]
    show ?thesis using ih False by auto
  next
    case True
    let ?m = "[Str ''Basic block '', UNum j, Str '' contains no instructions'']"
    from Cons.prems(1) True obtain P1 where e: "Error ?m P = Inr P1"
      and r: "PatchEmptyNodes js (P1\<lparr>Func := appendInst j InstUnreachable (Func P1)\<rparr>) = Inr P'"
      by (cases "Error ?m P") auto
    let ?P2 = "P1\<lparr>Func := appendInst j InstUnreachable (Func P1)\<rparr>"
    have p1: "P1 = P\<lparr>Context := (Context P)\<lparr>ErrorStatus := True,
               NumErrors := NumErrors (Context P) + 1, ErrStream := ErrStream (Context P) @ [?m]\<rparr>\<rparr>"
      using Error_Inr_eq [OF e] by simp
    have n2: "Nodes (Func ?P2) = (Nodes (Func P))[j := [InstUnreachable]]"
      using True by (simp add: p1 appendInst_def)
    have f2: "Func ?P2 = (Func P)\<lparr>Nodes := (Nodes (Func P))[j := [InstUnreachable]]\<rparr>"
      using True by (simp add: p1 appendInst_def)
    have b: "\<forall>i\<in>set js. i < length (Nodes (Func ?P2))" using Cons.prems(3) n2 by simp
    note ih = Cons.IH [OF r d b]
    have c2: "NumErrors (Context ?P2) = NumErrors (Context P) + 1
              \<and> TranslatedFcns (Context ?P2) = TranslatedFcns (Context P)
              \<and> DisableIRGeneration (Context ?P2) = DisableIRGeneration (Context P)"
      by (simp add: p1)
    have flt: "filter (\<lambda>i. Nodes (Func ?P2) ! i = []) js = filter (\<lambda>i. Nodes (Func P) ! i = []) js"
    proof (rule filter_cong [OF refl])
      fix x assume "x \<in> set js"
      then have "j \<noteq> x" using jn by auto
      then show "(Nodes (Func ?P2) ! x = []) = (Nodes (Func P) ! x = [])" using n2 by simp
    qed
    have A: "Func P' = (Func P)\<lparr>Nodes := Nodes (Func P')\<rparr>"
      using ih f2 by (metis (no_types, lifting) Cfg.surjective Cfg.update_convs(4))
    have B: "length (Nodes (Func P')) = length (Nodes (Func P))" using ih n2 by simp
    have C: "\<forall>i<length (Nodes (Func P)).
         Nodes (Func P') ! i =
           (if i \<in> set (j # js) \<and> Nodes (Func P) ! i = [] then [InstUnreachable]
            else Nodes (Func P) ! i)"
    proof (intro allI impI)
      fix i assume il: "i < length (Nodes (Func P))"
      then have "Nodes (Func P') ! i =
           (if i \<in> set js \<and> Nodes (Func ?P2) ! i = [] then [InstUnreachable]
            else Nodes (Func ?P2) ! i)"
        using ih n2 by simp
      then show "Nodes (Func P') ! i =
           (if i \<in> set (j # js) \<and> Nodes (Func P) ! i = [] then [InstUnreachable]
            else Nodes (Func P) ! i)"
        using il True jl n2 by (cases "i = j") simp_all
    qed
    have D: "NumErrors (Context P') =
       NumErrors (Context P) + length (filter (\<lambda>i. Nodes (Func P) ! i = []) (j # js))"
      using ih c2 flt True by simp
    have E: "TranslatedFcns (Context P') = TranslatedFcns (Context P)
             \<and> DisableIRGeneration (Context P') = DisableIRGeneration (Context P)"
      using ih c2 by simp
    show ?thesis using A B C D E by simp
  qed
qed

lemma PatchEmptyNodes_recover:
  "AllowErrorRecovery (Context P) \<Longrightarrow> \<exists>P'. PatchEmptyNodes js P = Inr P'"
proof (induction js arbitrary: P)
  case Nil
  then show ?case by simp
next
  case (Cons j js)
  show ?case
  proof (cases "Nodes (Func P) ! j = []")
    case False
    then show ?thesis using Cons.IH [OF Cons.prems] by simp
  next
    case True
    let ?m = "[Str ''Basic block '', UNum j, Str '' contains no instructions'']"
    let ?P1 = "P\<lparr>Context := (Context P)\<lparr>ErrorStatus := True,
               NumErrors := NumErrors (Context P) + 1, ErrStream := ErrStream (Context P) @ [?m]\<rparr>\<rparr>"
    have e: "Error ?m P = Inr ?P1" using Cons.prems by (rule Error_recover)
    have a: "AllowErrorRecovery (Context (?P1\<lparr>Func := appendInst j InstUnreachable (Func ?P1)\<rparr>))"
      using Cons.prems by simp
    show ?thesis using True e Cons.IH [OF a] by simp
  qed
qed

lemma PatchEmptyNodes_nonempty:
  "\<forall>i\<in>set js. Nodes (Func P) ! i \<noteq> [] \<Longrightarrow> PatchEmptyNodes js P = Inr P"
  by (induction js) simp_all

lemma PatchEmptyNodes_fatal:
  "\<not> AllowErrorRecovery (Context P) \<Longrightarrow> \<exists>i\<in>set js. Nodes (Func P) ! i = [] \<Longrightarrow>
   \<exists>i\<in>set js. Nodes (Func P) ! i = []
     \<and> PatchEmptyNodes js P = Inl (FatalError (ErrStream (Context P) @ [emptyBlock i]))"
proof (induction js)
  case Nil
  then show ?case by simp
next
  case (Cons j js)
  show ?case
  proof (cases "Nodes (Func P) ! j = []")
    case True
    then show ?thesis using Cons.prems(1) by (simp add: Error_fatal emptyBlock_def)
  next
    case False
    then have "\<exists>i\<in>set js. Nodes (Func P) ! i = []" using Cons.prems(2) by auto
    then show ?thesis using Cons.IH [OF Cons.prems(1)] False by auto
  qed
qed


lemma length_filter_indices:
  "length (filter (\<lambda>i. Q (xs ! i)) [0 ..< length xs]) = length (filter Q xs)"
proof -
  have "filter Q xs = filter Q (map (nth xs) [0 ..< length xs])" by (simp add: map_nth)
  also have "\<dots> = map (nth xs) (filter (Q \<circ> nth xs) [0 ..< length xs])" by (rule filter_map)
  finally have "length (filter Q xs) = length (filter (Q \<circ> nth xs) [0 ..< length xs])" by simp
  then show ?thesis by (simp add: comp_def)
qed

lemma ExitBlock_Inr:
  assumes ir: "\<not> isIRGenerationDisabled P"
    and r: "FunctionParser_ExitBlock P = Inr P'"
  shows "Func P' = computePredecessors
                     ((Func P)\<lparr>Nodes := map (\<lambda>n. if n = [] then [InstUnreachable] else n)
                                           (Nodes (Func P))\<rparr>)
       \<and> Nodes (Func P') = map (\<lambda>n. if n = [] then [InstUnreachable] else n) (Nodes (Func P))
       \<and> NumErrors (Context P') =
           NumErrors (Context P) + length (filter (\<lambda>n. n = []) (Nodes (Func P)))
       \<and> TranslatedFcns (Context P') =
           (if NumErrors (Context P') = 0 then TranslatedFcns (Context P) @ [Func P']
            else TranslatedFcns (Context P))"
proof -
  let ?js = "[0 ..< length (Nodes (Func P))]"
  let ?patch = "\<lambda>n. if n = [] then [InstUnreachable] else n"
  obtain P1 where p: "PatchEmptyNodes ?js P = Inr P1"
    using r ir by (cases "PatchEmptyNodes ?js P") (auto simp: FunctionParser_ExitBlock_def)
  have r0: "FunctionParser_ExitBlock P =
            (if NumErrors (Context P1) = 0
             then Inr (P1\<lparr>Func := computePredecessors (Func P1),
                          Context := (Context P1)
                            \<lparr>TranslatedFcns := TranslatedFcns (Context P1)
                                                @ [computePredecessors (Func P1)]\<rparr>\<rparr>)
             else Inr (P1\<lparr>Func := computePredecessors (Func P1)\<rparr>))"
    using ir p by (simp add: FunctionParser_ExitBlock_def Let_def)
  have b: "\<forall>i\<in>set ?js. i < length (Nodes (Func P))" by simp
  note q = PatchEmptyNodes_Inr [OF p distinct_upt b]
  have len: "length (Nodes (Func P1)) = length (Nodes (Func P))" using q by simp
  have nth: "\<And>i. i < length (Nodes (Func P)) \<Longrightarrow>
               Nodes (Func P1) ! i = ?patch (Nodes (Func P) ! i)"
    using q by simp
  have nodes: "Nodes (Func P1) = map ?patch (Nodes (Func P))"
    by (rule nth_equalityI) (simp_all add: len nth)
  have f1: "Func P1 = (Func P)\<lparr>Nodes := map ?patch (Nodes (Func P))\<rparr>"
    using q nodes by simp
  have ne: "NumErrors (Context P1) =
              NumErrors (Context P) + length (filter (\<lambda>n. n = []) (Nodes (Func P)))"
    using q length_filter_indices [of "\<lambda>n. n = []" "Nodes (Func P)"] by simp
  have tf: "TranslatedFcns (Context P1) = TranslatedFcns (Context P)" using q by simp
  have F: "Func P' = computePredecessors (Func P1)"
    using r unfolding r0 by (auto split: if_splits)
  have N: "NumErrors (Context P') = NumErrors (Context P1)"
    using r unfolding r0 by (auto split: if_splits)
  have T: "TranslatedFcns (Context P') =
           (if NumErrors (Context P1) = 0 then TranslatedFcns (Context P1) @ [Func P']
            else TranslatedFcns (Context P1))"
    using r unfolding r0 by (auto split: if_splits)
  have N2: "Nodes (Func P') = map ?patch (Nodes (Func P))"
    unfolding F f1 by (simp add: computePredecessors_def)
  show ?thesis using F N T N2 ne tf unfolding f1 by simp
qed

text \<open>
  Claim C4.  With IR generation enabled, \<^verbatim>\<open>ExitBlock\<close> gives every basic block without
  instructions the instruction \<^verbatim>\<open>unreachable\<close>, reporting each of them as an error, and
  leaves the other blocks as they are; then the predecessors are computed, from the patched
  blocks.  So every block of the function is non-empty afterwards, and a block that was
  empty ends with a terminator.  The function is handed to the translator exactly when no
  error has been counted.  \<^verbatim>\<open>ExitBlock\<close> returns when error recovery is allowed or no block
  is empty; without error recovery an empty block stops the parse with a fatal error.
\<close>

theorem ExitBlock_patches_empty_blocks:
  assumes "\<not> isIRGenerationDisabled P"
  shows "(\<forall>P'. FunctionParser_ExitBlock P = Inr P' \<longrightarrow>
            Func P' = computePredecessors
                        ((Func P)\<lparr>Nodes := map (\<lambda>n. if n = [] then [InstUnreachable] else n)
                                              (Nodes (Func P))\<rparr>)
          \<and> length (Nodes (Func P')) = length (Nodes (Func P))
          \<and> (\<forall>i<length (Nodes (Func P)).
                Nodes (Func P') ! i =
                  (if Nodes (Func P) ! i = [] then [InstUnreachable] else Nodes (Func P) ! i))
          \<and> (\<forall>i<length (Nodes (Func P')). Nodes (Func P') ! i \<noteq> [])
          \<and> (\<forall>i<length (Nodes (Func P)). Nodes (Func P) ! i = [] \<longrightarrow>
                isTerminator (last (Nodes (Func P') ! i)))
          \<and> NumErrors (Context P') =
              NumErrors (Context P) + length (filter (\<lambda>n. n = []) (Nodes (Func P)))
          \<and> TranslatedFcns (Context P') =
              (if NumErrors (Context P') = 0 then TranslatedFcns (Context P) @ [Func P']
               else TranslatedFcns (Context P)))
       \<and> (AllowErrorRecovery (Context P) \<longrightarrow> (\<exists>P'. FunctionParser_ExitBlock P = Inr P'))
       \<and> ((\<forall>i<length (Nodes (Func P)). Nodes (Func P) ! i \<noteq> []) \<longrightarrow>
            (\<exists>P'. FunctionParser_ExitBlock P = Inr P'))
       \<and> (\<not> AllowErrorRecovery (Context P)
            \<and> (\<exists>i<length (Nodes (Func P)). Nodes (Func P) ! i = []) \<longrightarrow>
            (\<exists>i<length (Nodes (Func P)). Nodes (Func P) ! i = []
               \<and> FunctionParser_ExitBlock P
                   = Inl (FatalError (ErrStream (Context P) @ [emptyBlock i]))))"
proof -
  let ?js = "[0 ..< length (Nodes (Func P))]"
  let ?patch = "\<lambda>n. if n = [] then [InstUnreachable] else n"
  have 1: "\<forall>P'. FunctionParser_ExitBlock P = Inr P' \<longrightarrow>
            Func P' = computePredecessors ((Func P)\<lparr>Nodes := map ?patch (Nodes (Func P))\<rparr>)
          \<and> length (Nodes (Func P')) = length (Nodes (Func P))
          \<and> (\<forall>i<length (Nodes (Func P)).
                Nodes (Func P') ! i =
                  (if Nodes (Func P) ! i = [] then [InstUnreachable] else Nodes (Func P) ! i))
          \<and> (\<forall>i<length (Nodes (Func P')). Nodes (Func P') ! i \<noteq> [])
          \<and> (\<forall>i<length (Nodes (Func P)). Nodes (Func P) ! i = [] \<longrightarrow>
                isTerminator (last (Nodes (Func P') ! i)))
          \<and> NumErrors (Context P') =
              NumErrors (Context P) + length (filter (\<lambda>n. n = []) (Nodes (Func P)))
          \<and> TranslatedFcns (Context P') =
              (if NumErrors (Context P') = 0 then TranslatedFcns (Context P) @ [Func P']
               else TranslatedFcns (Context P))"
  proof (intro allI impI)
    fix P' assume r: "FunctionParser_ExitBlock P = Inr P'"
    note e = ExitBlock_Inr [OF assms r]
    have n: "Nodes (Func P') = map ?patch (Nodes (Func P))" using e by (elim conjE)
    show "Func P' = computePredecessors ((Func P)\<lparr>Nodes := map ?patch (Nodes (Func P))\<rparr>)
          \<and> length (Nodes (Func P')) = length (Nodes (Func P))
          \<and> (\<forall>i<length (Nodes (Func P)).
                Nodes (Func P') ! i =
                  (if Nodes (Func P) ! i = [] then [InstUnreachable] else Nodes (Func P) ! i))
          \<and> (\<forall>i<length (Nodes (Func P')). Nodes (Func P') ! i \<noteq> [])
          \<and> (\<forall>i<length (Nodes (Func P)). Nodes (Func P) ! i = [] \<longrightarrow>
                isTerminator (last (Nodes (Func P') ! i)))
          \<and> NumErrors (Context P') =
              NumErrors (Context P) + length (filter (\<lambda>n. n = []) (Nodes (Func P)))
          \<and> TranslatedFcns (Context P') =
              (if NumErrors (Context P') = 0 then TranslatedFcns (Context P) @ [Func P']
               else TranslatedFcns (Context P))"
    proof (intro conjI)
      show "Func P' = computePredecessors ((Func P)\<lparr>Nodes := map ?patch (Nodes (Func P))\<rparr>)"
        using e by (elim conjE)
      show "length (Nodes (Func P')) = length (Nodes (Func P))" using n by simp
      show "\<forall>i<length (Nodes (Func P)).
                Nodes (Func P') ! i =
                  (if Nodes (Func P) ! i = [] then [InstUnreachable] else Nodes (Func P) ! i)"
        using n by simp
      show "\<forall>i<length (Nodes (Func P')). Nodes (Func P') ! i \<noteq> []" using n by simp
      show "\<forall>i<length (Nodes (Func P)). Nodes (Func P) ! i = [] \<longrightarrow>
                isTerminator (last (Nodes (Func P') ! i))"
        using n by simp
      show "NumErrors (Context P') =
              NumErrors (Context P) + length (filter (\<lambda>n. n = []) (Nodes (Func P)))"
        using e by (elim conjE)
      show "TranslatedFcns (Context P') =
              (if NumErrors (Context P') = 0 then TranslatedFcns (Context P) @ [Func P']
               else TranslatedFcns (Context P))"
        using e by (elim conjE)
    qed
  qed
  have 2: "AllowErrorRecovery (Context P) \<longrightarrow> (\<exists>P'. FunctionParser_ExitBlock P = Inr P')"
  proof
    assume "AllowErrorRecovery (Context P)"
    then obtain P1 where "PatchEmptyNodes ?js P = Inr P1"
      using PatchEmptyNodes_recover by blast
    then show "\<exists>P'. FunctionParser_ExitBlock P = Inr P'"
      using assms by (simp add: FunctionParser_ExitBlock_def Let_def)
  qed
  have 3: "(\<forall>i<length (Nodes (Func P)). Nodes (Func P) ! i \<noteq> []) \<longrightarrow>
            (\<exists>P'. FunctionParser_ExitBlock P = Inr P')"
  proof
    assume "\<forall>i<length (Nodes (Func P)). Nodes (Func P) ! i \<noteq> []"
    then have "PatchEmptyNodes ?js P = Inr P" by (intro PatchEmptyNodes_nonempty) simp
    then show "\<exists>P'. FunctionParser_ExitBlock P = Inr P'"
      using assms by (simp add: FunctionParser_ExitBlock_def Let_def)
  qed
  have 4: "\<not> AllowErrorRecovery (Context P)
            \<and> (\<exists>i<length (Nodes (Func P)). Nodes (Func P) ! i = []) \<longrightarrow>
            (\<exists>i<length (Nodes (Func P)). Nodes (Func P) ! i = []
               \<and> FunctionParser_ExitBlock P
                   = Inl (FatalError (ErrStream (Context P) @ [emptyBlock i])))"
  proof
    assume h: "\<not> AllowErrorRecovery (Context P)
            \<and> (\<exists>i<length (Nodes (Func P)). Nodes (Func P) ! i = [])"
    then have "\<exists>i\<in>set ?js. Nodes (Func P) ! i = []" by auto
    then obtain i where i: "i \<in> set ?js" "Nodes (Func P) ! i = []"
      and f: "PatchEmptyNodes ?js P = Inl (FatalError (ErrStream (Context P) @ [emptyBlock i]))"
      using PatchEmptyNodes_fatal [of P ?js] h by blast
    have "FunctionParser_ExitBlock P = Inl (FatalError (ErrStream (Context P) @ [emptyBlock i]))"
      using assms f by (simp add: FunctionParser_ExitBlock_def)
    then show "\<exists>i<length (Nodes (Func P)). Nodes (Func P) ! i = []
               \<and> FunctionParser_ExitBlock P
                   = Inl (FatalError (ErrStream (Context P) @ [emptyBlock i]))"
      using i by auto
  qed
  show ?thesis using 1 2 3 4 by (intro conjI)
qed


text \<open>
  The theorem at a function of two blocks, the second one empty, with error recovery and
  without.
\<close>

theorem ExitBlock_patches_empty_blocks_witness:
  "(case FunctionParser_ExitBlock
          ((exampleFunctionParser True)
             \<lparr>Func := (Func (exampleFunctionParser True))\<lparr>Nodes := [[InstRet None], []]\<rparr>\<rparr>)
    of Inl f \<Rightarrow> False
     | Inr P' \<Rightarrow> Nodes (Func P') = [[InstRet None], [InstUnreachable]]
                \<and> NumErrors (Context P') = 1 \<and> TranslatedFcns (Context P') = [])
   \<and> FunctionParser_ExitBlock
          ((exampleFunctionParser False)
             \<lparr>Func := (Func (exampleFunctionParser False))\<lparr>Nodes := [[InstRet None], []]\<rparr>\<rparr>)
        = Inl (FatalError [emptyBlock 1])"
proof -
  let ?P = "(exampleFunctionParser True)
             \<lparr>Func := (Func (exampleFunctionParser True))\<lparr>Nodes := [[InstRet None], []]\<rparr>\<rparr>"
  let ?F = "(exampleFunctionParser False)
             \<lparr>Func := (Func (exampleFunctionParser False))\<lparr>Nodes := [[InstRet None], []]\<rparr>\<rparr>"
  have ir: "\<not> isIRGenerationDisabled ?P"
    by (simp add: isIRGenerationDisabled_def exampleFunctionParser_def exampleContext_def
        TopLevelParser_new_def)
  have a: "AllowErrorRecovery (Context ?P)"
    by (simp add: exampleFunctionParser_def exampleContext_def TopLevelParser_new_def)
  have c: "NumErrors (Context ?P) = 0 \<and> TranslatedFcns (Context ?P) = []"
    by (simp add: exampleFunctionParser_def exampleContext_def TopLevelParser_new_def)
  note T = ExitBlock_patches_empty_blocks [OF ir]
  obtain P' where r: "FunctionParser_ExitBlock ?P = Inr P'"
    using T [THEN conjunct2, THEN conjunct1] a by blast
  have f: "Func P' = computePredecessors
                       ((Func ?P)\<lparr>Nodes := map (\<lambda>n. if n = [] then [InstUnreachable] else n)
                                              (Nodes (Func ?P))\<rparr>)"
    and n: "NumErrors (Context P') =
              NumErrors (Context ?P) + length (filter (\<lambda>n. n = []) (Nodes (Func ?P)))"
    and t: "TranslatedFcns (Context P') =
              (if NumErrors (Context P') = 0 then TranslatedFcns (Context ?P) @ [Func P']
               else TranslatedFcns (Context ?P))"
    using T [THEN conjunct1] r by blast+
  have n1: "NumErrors (Context P') = 1" using n c by simp
  have w1: "Nodes (Func P') = [[InstRet None], [InstUnreachable]]"
    unfolding f by (simp add: computePredecessors_def)
  have w3: "TranslatedFcns (Context P') = []" using t n1 c by simp
  have irF: "\<not> isIRGenerationDisabled ?F"
    by (simp add: isIRGenerationDisabled_def exampleFunctionParser_def exampleContext_def
        TopLevelParser_new_def)
  have hF: "\<not> AllowErrorRecovery (Context ?F)
            \<and> (\<exists>i<length (Nodes (Func ?F)). Nodes (Func ?F) ! i = [])"
    by (auto simp: exampleFunctionParser_def exampleContext_def TopLevelParser_new_def
        intro: exI [of _ 1])
  have eF: "ErrStream (Context ?F) = []"
    by (simp add: exampleFunctionParser_def exampleContext_def TopLevelParser_new_def)
  have "\<exists>i<length (Nodes (Func ?F)). Nodes (Func ?F) ! i = []
               \<and> FunctionParser_ExitBlock ?F
                   = Inl (FatalError (ErrStream (Context ?F) @ [emptyBlock i]))"
    using ExitBlock_patches_empty_blocks [OF irF, THEN conjunct2, THEN conjunct2, THEN conjunct2]
      hF by blast
  then obtain i where i2: "i < length (Nodes (Func ?F))" and ie: "Nodes (Func ?F) ! i = []"
    and fi: "FunctionParser_ExitBlock ?F
               = Inl (FatalError (ErrStream (Context ?F) @ [emptyBlock i]))"
    by blast
  have "i = 1"
  proof (cases i)
    case 0
    then show ?thesis using ie by simp
  next
    case (Suc k)
    then show ?thesis using i2 by simp
  qed
  then have w4: "FunctionParser_ExitBlock ?F = Inl (FatalError [emptyBlock 1])"
    using fi unfolding eF by simp
  show ?thesis using w1 n1 w3 w4 by (simp add: r)
qed

text \<open>
  A block that has instructions is not checked: the function whose only block holds one
  \<^verbatim>\<open>alloca\<close> instruction leaves \<^verbatim>\<open>ExitBlock\<close> with that block, which does not end with a
  terminator, without any error, and is handed to the translator.
\<close>

theorem ExitBlock_patches_empty_blocks_counterexample:
  "case andThen (ProcessRecords FunctionParser_ProcessRecord
          [\<lparr>Code = FUNC_CODE_DECLAREBLOCKS, Values = [1]\<rparr>,
           \<lparr>Code = FUNC_CODE_INST_ALLOCA, Values = [1, 0]\<rparr>] (exampleFunctionParser False))
        FunctionParser_ExitBlock
   of Inl f \<Rightarrow> False
    | Inr P \<Rightarrow>
        Nodes (Func P) = [[InstAlloca (Variable 0 IceType_i32) 0 (Variable 1 IceType_i32)]]
        \<and> \<not> isTerminator (last (Nodes (Func P) ! 0))
        \<and> NumErrors (Context P) = 0 \<and> ErrStream (Context P) = []
        \<and> map Nodes (TranslatedFcns (Context P))
            = [[[InstAlloca (Variable 0 IceType_i32) 0 (Variable 1 IceType_i32)]]]"
  by code_simp

section \<open>C10: the operands of a phi record\<close>









end
